theory Spec2Isabelle
  imports Main
begin

section \<open>Python strings\<close>

text \<open>
  A Python \<open>str\<close> is modelled as a \<open>string\<close>, one \<open>char\<close> per code point; the case
  mappings and the whitespace test are those of Python on ASCII text, and a character
  above 127 is taken as caseless and not as whitespace.
\<close>

definition ascii_upper :: string where
  "ascii_upper = ''ABCDEFGHIJKLMNOPQRSTUVWXYZ''"

definition ascii_lower :: string where
  "ascii_lower = ''abcdefghijklmnopqrstuvwxyz''"

definition lower_char :: "char \<Rightarrow> char" where
  "lower_char c = (case map_of (zip ascii_upper ascii_lower) c of Some l \<Rightarrow> l | None \<Rightarrow> c)"

definition upper_char :: "char \<Rightarrow> char" where
  "upper_char c = (case map_of (zip ascii_lower ascii_upper) c of Some u \<Rightarrow> u | None \<Rightarrow> c)"

definition is_cased :: "char \<Rightarrow> bool" where
  "is_cased c = (c \<in> set ascii_upper \<or> c \<in> set ascii_lower)"

text \<open>\<open>s.lower()\<close>\<close>

definition py_lower :: "string \<Rightarrow> string" where
  "py_lower s = map lower_char s"

text \<open>\<open>s.title()\<close>: a cased character is upper-cased after an uncased one (or at the start)
  and lower-cased after a cased one.\<close>

fun title_from :: "bool \<Rightarrow> string \<Rightarrow> string" where
  "title_from previous_is_cased [] = []"
| "title_from previous_is_cased (c # cs) =
     (if previous_is_cased then lower_char c else upper_char c) # title_from (is_cased c) cs"

definition py_title :: "string \<Rightarrow> string" where
  "py_title s = title_from False s"

text \<open>The whitespace of \<open>str.strip()\<close>: tab, line feed, vertical tab, form feed, carriage
  return, the four separators 0x1C to 0x1F, and the space.\<close>

definition is_space :: "char \<Rightarrow> bool" where
  "is_space c = (c \<in> set [CHR 0x09, CHR 0x0A, CHR 0x0B, CHR 0x0C, CHR 0x0D,
                            CHR 0x1C, CHR 0x1D, CHR 0x1E, CHR 0x1F, CHR 0x20])"

definition py_strip :: "string \<Rightarrow> string" where
  "py_strip s = rev (dropWhile is_space (rev (dropWhile is_space s)))"

text \<open>\<open>s.startswith(p)\<close>\<close>

fun startswith :: "string \<Rightarrow> string \<Rightarrow> bool" where
  "startswith s [] = True"
| "startswith [] (p # ps) = False"
| "startswith (c # cs) (p # ps) = (c = p \<and> startswith cs ps)"

text \<open>\<open>p in s\<close> for two strings: \<open>p\<close> occurs in \<open>s\<close> as a contiguous run.\<close>

fun py_in :: "string \<Rightarrow> string \<Rightarrow> bool" where
  "py_in p [] = (p = [])"
| "py_in p (c # cs) = (startswith (c # cs) p \<or> py_in p cs)"

text \<open>\<open>s.replace(old, new)\<close> for a one-character \<open>old\<close>.\<close>

definition replace_char :: "char \<Rightarrow> string \<Rightarrow> string \<Rightarrow> string" where
  "replace_char old new s = concat (map (\<lambda>c. if c = old then new else [c]) s)"

text \<open>\<open>sep.join(xs)\<close>\<close>

fun py_join :: "string \<Rightarrow> string list \<Rightarrow> string" where
  "py_join sep [] = []"
| "py_join sep [x] = x"
| "py_join sep (x # y # ys) = x @ sep @ py_join sep (y # ys)"

text \<open>\<open>s.split(sep)\<close> for a one-character separator: the pieces between the separators,
  one more piece than there are separators.\<close>

fun split_char :: "char \<Rightarrow> string \<Rightarrow> string list" where
  "split_char sep [] = [[]]"
| "split_char sep (c # cs) =
     (if c = sep then [] # split_char sep cs
      else (case split_char sep cs of p # ps \<Rightarrow> (c # p) # ps | [] \<Rightarrow> [[c]]))"

text \<open>The text after the first occurrence of a marker and the text before the first
  occurrence of a character: \<open>text.split(marker, 1)[1]\<close> when the marker occurs, and
  \<open>text.split(ch, 1)[0]\<close>.\<close>

fun after_marker :: "string \<Rightarrow> string \<Rightarrow> string" where
  "after_marker marker [] = []"
| "after_marker marker (c # cs) =
     (if startswith (c # cs) marker then drop (length marker) (c # cs)
      else after_marker marker cs)"

definition before_char :: "char \<Rightarrow> string \<Rightarrow> string" where
  "before_char ch s = takeWhile (\<lambda>c. c \<noteq> ch) s"

text \<open>The decimal digits of a natural number, as \<open>str(n)\<close> gives them.\<close>

definition digit_char :: "nat \<Rightarrow> char" where
  "digit_char d = ''0123456789'' ! d"

fun digits_of :: "nat \<Rightarrow> string" where
  "digits_of n = (if n < 10 then [digit_char n] else digits_of (n div 10) @ [digit_char (n mod 10)])"

declare digits_of.simps [simp del]

definition quote :: string where
  "quote = [CHR 0x27]"

section \<open>Exceptions\<close>

text \<open>
  An exception is either the web framework's \<open>HTTPException(status_code, detail)\<close> or any
  other exception, of which the program only ever reads the text \<open>str(e)\<close>. The text of an
  \<open>HTTPException\<close> is \<open>"<status_code>: <detail>"\<close>, as the framework defines it.
\<close>

datatype exn = HTTPException nat string | PyExc string

fun str_exn :: "exn \<Rightarrow> string" where
  "str_exn (HTTPException status_code detail) = digits_of status_code @ '': '' @ detail"
| "str_exn (PyExc text) = text"

subsection \<open>Recognising a quota error\<close>

definition is_quota_error :: "exn \<Rightarrow> bool" where
  "is_quota_error err =
     (let text = py_lower (str_exn err) in
        py_in ''resource_exhausted'' text
      \<or> py_in ''quota exceeded'' text
      \<or> py_in ''429'' text
      \<or> py_in ''rate limit'' text
      \<or> py_in ''too many requests'' text)"

definition quota_phrases :: "string list" where
  "quota_phrases =
     [''resource_exhausted'', ''quota exceeded'', ''429'', ''rate limit'', ''too many requests'']"

text \<open>A text contains a phrase case-insensitively when a contiguous run of the text is the
  phrase up to the case of its letters.\<close>

definition contains_ci :: "string \<Rightarrow> string \<Rightarrow> bool" where
  "contains_ci text phrase = (\<exists>a u b. text = a @ u @ b \<and> py_lower u = py_lower phrase)"

section \<open>JSON values and records of the store\<close>

text \<open>
  What \<open>json.loads\<close> returns, and so what the language model and the \<open>Data\<close> field of a
  stored record can hold: \<open>None\<close>, a bool, an int, a float (kept as its \<open>repr\<close>), a string,
  a list or a dict (an association list; a key is looked up from the front).
\<close>

datatype json =
    JNull
  | JBool bool
  | JInt int
  | JFloat string
  | JStr string
  | JArr "json list"
  | JObj "(string \<times> json) list"

type_synonym fields = "(string \<times> json) list"

text \<open>A record of the store, as its client returns it.\<close>

record airtable_record =
  rec_id :: string
  rec_createdTime :: string
  rec_fields :: fields

section \<open>The environment and the state of the process\<close>

text \<open>
  Everything the process does to the outside is an event, and the trace of the events so
  far is part of the state. The language model and the store are functions of the trace:
  what they answer may depend on everything that was sent to them before.
\<close>

datatype event =
    LLMCall string
  | Sleep int
  | TableAll string "int option"
  | TableGet string
  | TableCreate fields
  | TableUpdate string fields
  | Print string
  | PrintExc exn

record table_client =
  tbl_all :: "event list \<Rightarrow> string \<Rightarrow> int option \<Rightarrow> exn + airtable_record list"
  tbl_get :: "event list \<Rightarrow> string \<Rightarrow> exn + airtable_record option"
  tbl_create :: "event list \<Rightarrow> fields \<Rightarrow> exn + airtable_record"
  tbl_update :: "event list \<Rightarrow> string \<Rightarrow> fields \<Rightarrow> exn + unit"

text \<open>
  The configuration read at start-up, the two clients (\<open>None\<close> when not configured), and
  the library functions the program calls and this theory does not define: the JSON
  codec, \<open>str\<close> of a value that is not a string, the text of an error the interpreter or
  the validation library raises (by the place and the offending value), the conversion
  \<open>int(float(g) * 1000)\<close> of a delay hint, which is floating-point arithmetic, the
  comparison \<open>==\<close> of two values that are not strings, the clock and the random session
  suffix. The three prompt texts are constants of the program; their wording plays no part
  and they are carried here as well.
\<close>

record env =
  GROQ_API_KEY :: "string option"
  groq_client :: "(event list \<Rightarrow> string \<Rightarrow> exn + string option) option"
  table :: "table_client option"
  ENABLE_FALLBACK_ON_QUOTA :: bool
  AUTH_TOKENS :: "(string \<times> string) list"
  DEFAULT_USER_ID :: string
  json_loads :: "string \<Rightarrow> exn + json"
  json_dumps :: "json \<Rightarrow> string"
  py_repr :: "json \<Rightarrow> string"
  pyerr :: "string \<Rightarrow> json \<Rightarrow> string"
  float_ms :: "string \<Rightarrow> int"
  scalar_eq :: "json \<Rightarrow> json \<Rightarrow> bool"
  now_iso :: "event list \<Rightarrow> string"
  urandom_hex :: "event list \<Rightarrow> string"
  SYSTEM_PROMPT :: string
  REFINEMENT_PROMPT :: string
  FINALIZE_PROMPT :: string

text \<open>The data of a session: the dict with the keys \<open>outline\<close>, \<open>refinements\<close>,
  \<open>summary\<close> and \<open>tags\<close> that the handlers build and cache.\<close>

record session_data =
  d_outline :: json
  d_refinements :: json
  d_summary :: json
  d_tags :: json

record cache_item =
  c_user_id :: string
  c_created_at :: string
  c_data :: session_data

record issue =
  i_kind :: string
  i_message :: string
  i_updatedAt :: string

record state =
  SESSION_CACHE :: "string \<rightharpoonup> cache_item"
  PROVIDER_ISSUES :: "string \<rightharpoonup> issue"
  trace :: "event list"

definition log_event :: "event \<Rightarrow> state \<Rightarrow> state" where
  "log_event e s = s\<lparr>trace := trace s @ [e]\<rparr>"

section \<open>The quota-aware call of the language model\<close>

definition is_digit :: "char \<Rightarrow> bool" where
  "is_digit c = (c \<in> set ''0123456789'')"

text \<open>
  The pattern \<open>retry in ([0-9]+(?:\.[0-9]+)?)s\<close>, letters in any case, matched at the start
  of a text: the group is the longest run of digits, with a fraction when a dot, digits
  and the letter s follow.
\<close>

definition match_retry_in :: "string \<Rightarrow> string option" where
  "match_retry_in s =
     (if py_lower (take 9 s) = ''retry in '' then
        (let r = drop 9 s; ds = takeWhile is_digit r in
         if ds = [] then None
         else (case dropWhile is_digit r of
                 [] \<Rightarrow> None
               | c # r2 \<Rightarrow>
                   if c = CHR ''.'' \<and> takeWhile is_digit r2 \<noteq> []
                      \<and> (case dropWhile is_digit r2 of [] \<Rightarrow> False | d # _ \<Rightarrow> lower_char d = CHR ''s'')
                   then Some (ds @ ''.'' @ takeWhile is_digit r2)
                   else if lower_char c = CHR ''s'' then Some ds
                   else None))
      else None)"

text \<open>\<open>re.search\<close> with that pattern: the match at the leftmost position that has one.\<close>

fun re_search_retry_in :: "string \<Rightarrow> string option" where
  "re_search_retry_in [] = None"
| "re_search_retry_in (c # cs) =
     (case match_retry_in (c # cs) of
        Some g \<Rightarrow> Some g
      | None \<Rightarrow> re_search_retry_in cs)"

text \<open>The delay before the retry: the provider's hint when the text has one, but never
  less than \<open>wait_ms\<close>.\<close>

definition retry_delay_ms :: "env \<Rightarrow> int \<Rightarrow> exn \<Rightarrow> int" where
  "retry_delay_ms env wait_ms err =
     (case re_search_retry_in (str_exn err) of
        None \<Rightarrow> wait_ms
      | Some g \<Rightarrow> max wait_ms (float_ms env g))"

text \<open>One call of the client. Without a client the attribute access on \<open>None\<close> fails, and
  nothing is sent.\<close>

definition chat_completions_create :: "env \<Rightarrow> string \<Rightarrow> state \<Rightarrow> (exn + string option) \<times> state" where
  "chat_completions_create env contents s =
     (case groq_client env of
        None \<Rightarrow>
          (Inl (PyExc (quote @ ''NoneType'' @ quote @ '' object has no attribute ''
                        @ quote @ ''chat'' @ quote)), s)
      | Some client \<Rightarrow> (client (trace s) contents, log_event (LLMCall contents) s))"

text \<open>\<open>completion.choices[0].message.content or "{}"\<close>\<close>

definition content_or_default :: "string option \<Rightarrow> string" where
  "content_or_default content =
     (case content of None \<Rightarrow> ''{}'' | Some text \<Rightarrow> if text = [] then ''{}'' else text)"

text \<open>The loop \<open>for attempt in range(max_retries + 1)\<close>, with the number of iterations
  that remain, and the two statements after it.\<close>

fun attempts ::
  "env \<Rightarrow> string \<Rightarrow> int \<Rightarrow> int \<Rightarrow> int \<Rightarrow> nat \<Rightarrow> exn option \<Rightarrow> state \<Rightarrow> (exn + string) \<times> state" where
  "attempts env contents max_retries wait_ms attempt 0 last_error s =
     (case last_error of
        Some e \<Rightarrow> (Inl e, s)
      | None \<Rightarrow> (Inl (PyExc ''LLM request failed unexpectedly.''), s))"
| "attempts env contents max_retries wait_ms attempt (Suc remaining) last_error s =
     (case chat_completions_create env contents s of
        (Inr content, s1) \<Rightarrow> (Inr (content_or_default content), s1)
      | (Inl err, s1) \<Rightarrow>
          if is_quota_error err \<and> attempt < max_retries
          then attempts env contents max_retries wait_ms (attempt + 1) remaining (Some err)
                 (log_event (Sleep (retry_delay_ms env wait_ms err)) s1)
          else (Inl err, s1))"

definition generate_content_with_retry ::
  "env \<Rightarrow> string \<Rightarrow> int \<Rightarrow> int \<Rightarrow> state \<Rightarrow> (exn + string) \<times> state" where
  "generate_content_with_retry env contents max_retries wait_ms s =
     attempts env contents max_retries wait_ms 0 (nat (max_retries + 1)) None s"

section \<open>Writing to the store despite schema drift\<close>

definition dquote :: string where
  "dquote = [CHR 0x22]"

text \<open>\<open>k in d\<close> and \<open>d.pop(k, None)\<close> for a dict.\<close>

definition dict_has :: "string \<Rightarrow> (string \<times> 'v) list \<Rightarrow> bool" where
  "dict_has k d = (k \<in> set (map fst d))"

definition dict_pop :: "string \<Rightarrow> (string \<times> 'v) list \<Rightarrow> (string \<times> 'v) list" where
  "dict_pop k d = filter (\<lambda>kv. fst kv \<noteq> k) d"

text \<open>\<open>d.get(k)\<close>, with \<open>None\<close> for a missing key, and \<open>d.get(k, default)\<close>.\<close>

definition dict_get :: "string \<Rightarrow> fields \<Rightarrow> json" where
  "dict_get k d = (case map_of d k of None \<Rightarrow> JNull | Some v \<Rightarrow> v)"

definition dict_get_or :: "string \<Rightarrow> json \<Rightarrow> fields \<Rightarrow> json" where
  "dict_get_or k dflt d = (case map_of d k of None \<Rightarrow> dflt | Some v \<Rightarrow> v)"

text \<open>The field name an error text gives: what follows the first occurrence of the marker,
  up to the next double quote.\<close>

definition marker_unknown :: string where
  "marker_unknown = ''Unknown field name: '' @ dquote"

definition marker_computed :: string where
  "marker_computed = ''Field '' @ dquote"

definition marker_computed_suffix :: string where
  "marker_computed_suffix = dquote @ '' cannot accept a value because the field is computed''"

definition field_after :: "string \<Rightarrow> string \<Rightarrow> string" where
  "field_after marker text = before_char (CHR 0x22) (after_marker marker text)"

text \<open>Removes from the payload the one field the error names, when it is in the payload;
  the flag says whether a field was removed and the caller can retry.\<close>

definition strip_invalid_airtable_field :: "exn \<Rightarrow> fields \<Rightarrow> bool \<times> fields" where
  "strip_invalid_airtable_field err payload =
     (let text = str_exn err in
        if py_in marker_unknown text \<and> dict_has (field_after marker_unknown text) payload
        then (True, dict_pop (field_after marker_unknown text) payload)
        else if py_in marker_computed text \<and> py_in marker_computed_suffix text
                \<and> dict_has (field_after marker_computed text) payload
        then (True, dict_pop (field_after marker_computed text) payload)
        else if py_in ''INVALID_MULTIPLE_CHOICE_OPTIONS'' text \<and> dict_has ''Status'' payload
        then (True, dict_pop ''Status'' payload)
        else (False, payload))"

text \<open>\<open>_table().create(...)\<close> and \<open>_table().update(...)\<close>: without a table \<open>_table()\<close>
  raises the 503 and nothing is sent.\<close>

definition not_configured :: exn where
  "not_configured = HTTPException 503 ''Airtable not configured.''"

definition store_create :: "env \<Rightarrow> fields \<Rightarrow> state \<Rightarrow> (exn + airtable_record) \<times> state" where
  "store_create env payload s =
     (case table env of
        None \<Rightarrow> (Inl not_configured, s)
      | Some tbl \<Rightarrow> (tbl_create tbl (trace s) payload, log_event (TableCreate payload) s))"

definition store_update :: "env \<Rightarrow> string \<Rightarrow> fields \<Rightarrow> state \<Rightarrow> (exn + unit) \<times> state" where
  "store_update env record_id payload s =
     (case table env of
        None \<Rightarrow> (Inl not_configured, s)
      | Some tbl \<Rightarrow>
          (tbl_update tbl (trace s) record_id payload, log_event (TableUpdate record_id payload) s))"

text \<open>The loop \<open>for _ in range(8)\<close> of the create path, and the \<open>raise\<close> after it.\<close>

fun create_attempts :: "env \<Rightarrow> nat \<Rightarrow> fields \<Rightarrow> state \<Rightarrow> (exn + airtable_record) \<times> state" where
  "create_attempts env 0 attempt_fields s =
     (Inl (PyExc ''Unable to create Airtable record after removing invalid fields.''), s)"
| "create_attempts env (Suc n) attempt_fields s =
     (case store_create env attempt_fields s of
        (Inr created, s1) \<Rightarrow> (Inr created, s1)
      | (Inl e, s1) \<Rightarrow>
          (case strip_invalid_airtable_field e attempt_fields of
             (True, stripped) \<Rightarrow> create_attempts env n stripped s1
           | (False, _) \<Rightarrow> (Inl e, s1)))"

definition create_record_resilient :: "env \<Rightarrow> fields \<Rightarrow> state \<Rightarrow> (exn + airtable_record) \<times> state" where
  "create_record_resilient env flds s = create_attempts env 8 flds s"

text \<open>The loop of the update path, and the last resort after it: the two critical
  fields, taken from the mapping the caller gave.\<close>

fun update_attempts ::
  "env \<Rightarrow> string \<Rightarrow> fields \<Rightarrow> nat \<Rightarrow> fields \<Rightarrow> state \<Rightarrow> (exn + unit) \<times> state" where
  "update_attempts env record_id flds 0 attempt_fields s =
     store_update env record_id
       [(''Data'', dict_get_or ''Data'' (JStr ''{}'') flds),
        (''Status'', dict_get_or ''Status'' (JStr ''Updated'') flds)] s"
| "update_attempts env record_id flds (Suc n) attempt_fields s =
     (case store_update env record_id attempt_fields s of
        (Inr u, s1) \<Rightarrow> (Inr (), s1)
      | (Inl e, s1) \<Rightarrow>
          (case strip_invalid_airtable_field e attempt_fields of
             (True, stripped) \<Rightarrow> update_attempts env record_id flds n stripped s1
           | (False, _) \<Rightarrow> (Inl e, s1)))"

definition update_record_resilient :: "env \<Rightarrow> string \<Rightarrow> fields \<Rightarrow> state \<Rightarrow> (exn + unit) \<times> state" where
  "update_record_resilient env record_id flds s = update_attempts env record_id flds 8 flds s"

text \<open>
  A run of rejections: starting with payload \<open>p\<close> in state \<open>s\<close>, \<open>k\<close> calls in a row were
  each refused with an error that names a field of the payload sent, which was removed for
  the next call; \<open>q\<close> and \<open>t\<close> are the payload and the state after them.
\<close>

inductive rejections ::
  "(fields \<Rightarrow> state \<Rightarrow> (exn + 'a) \<times> state) \<Rightarrow> fields \<Rightarrow> state \<Rightarrow> nat \<Rightarrow> fields \<Rightarrow> state \<Rightarrow> bool"
  for call :: "fields \<Rightarrow> state \<Rightarrow> (exn + 'a) \<times> state" and p :: fields and s :: state where
  none: "rejections call p s 0 p s"
| more: "rejections call p s k q t \<Longrightarrow> call q t = (Inl e, t') \<Longrightarrow>
         strip_invalid_airtable_field e q = (True, q') \<Longrightarrow> rejections call p s (Suc k) q' t'"

section \<open>Python operations on JSON values\<close>

text \<open>Truth value of a value, as \<open>if x\<close>, \<open>x or y\<close> and \<open>not x\<close> test it.\<close>

fun truthy :: "json \<Rightarrow> bool" where
  "truthy JNull = False"
| "truthy (JBool b) = b"
| "truthy (JInt i) = (i \<noteq> 0)"
| "truthy (JFloat r) = (r \<noteq> ''0.0'' \<and> r \<noteq> ''-0.0'')"
| "truthy (JStr s) = (s \<noteq> [])"
| "truthy (JArr xs) = (xs \<noteq> [])"
| "truthy (JObj d) = (d \<noteq> [])"

text \<open>\<open>x or y\<close>\<close>

definition py_or :: "json \<Rightarrow> json \<Rightarrow> json" where
  "py_or x y = (if truthy x then x else y)"

text \<open>\<open>str(x)\<close>\<close>

definition py_str :: "env \<Rightarrow> json \<Rightarrow> string" where
  "py_str env x = (case x of JStr s \<Rightarrow> s | _ \<Rightarrow> py_repr env x)"

text \<open>\<open>x.get(k, default)\<close>: only a dict has the method.\<close>

definition py_get :: "env \<Rightarrow> json \<Rightarrow> string \<Rightarrow> json \<Rightarrow> exn + json" where
  "py_get env x k dflt =
     (case x of
        JObj d \<Rightarrow> Inr (dict_get_or k dflt d)
      | _ \<Rightarrow> Inl (PyExc (pyerr env ''AttributeError: get'' x)))"

text \<open>\<open>x[k]\<close> for a string key.\<close>

definition py_index :: "env \<Rightarrow> string \<Rightarrow> json \<Rightarrow> exn + json" where
  "py_index env k x =
     (case x of
        JObj d \<Rightarrow> (case map_of d k of
                     Some v \<Rightarrow> Inr v
                   | None \<Rightarrow> Inl (PyExc (pyerr env ''KeyError'' (JStr k))))
      | _ \<Rightarrow> Inl (PyExc (pyerr env ''TypeError: index'' x)))"

text \<open>The elements a \<open>for\<close> loop or a comprehension takes from a value: those of a list,
  the characters of a string, the keys of a dict; nothing else can be iterated.\<close>

definition py_iter :: "env \<Rightarrow> json \<Rightarrow> exn + json list" where
  "py_iter env x =
     (case x of
        JArr xs \<Rightarrow> Inr xs
      | JStr s \<Rightarrow> Inr (map (\<lambda>c. JStr [c]) s)
      | JObj d \<Rightarrow> Inr (map (\<lambda>kv. JStr (fst kv)) d)
      | _ \<Rightarrow> Inl (PyExc (pyerr env ''TypeError: iter'' x)))"

text \<open>\<open>x[:5]\<close>\<close>

definition py_first5 :: "env \<Rightarrow> json \<Rightarrow> exn + json" where
  "py_first5 env x =
     (case x of
        JArr xs \<Rightarrow> Inr (JArr (take 5 xs))
      | JStr s \<Rightarrow> Inr (JStr (take 5 s))
      | _ \<Rightarrow> Inl (PyExc (pyerr env ''TypeError: slice'' x)))"

text \<open>A comprehension whose element expression can raise: the first error ends it.\<close>

fun map_e :: "('a \<Rightarrow> exn + 'b) \<Rightarrow> 'a list \<Rightarrow> exn + 'b list" where
  "map_e f [] = Inr []"
| "map_e f (x # xs) =
     (case f x of
        Inl e \<Rightarrow> Inl e
      | Inr y \<Rightarrow> (case map_e f xs of Inl e \<Rightarrow> Inl e | Inr ys \<Rightarrow> Inr (y # ys)))"

text \<open>\<open>sep.join(x)\<close>: every element of the iterable has to be a string.\<close>

definition as_str :: "json \<Rightarrow> string option" where
  "as_str x = (case x of JStr s \<Rightarrow> Some s | _ \<Rightarrow> None)"

definition join_values :: "env \<Rightarrow> string \<Rightarrow> json \<Rightarrow> exn + string" where
  "join_values env sep x =
     (case py_iter env x of
        Inl e \<Rightarrow> Inl e
      | Inr xs \<Rightarrow> (case those (map as_str xs) of
                     Some strs \<Rightarrow> Inr (py_join sep strs)
                   | None \<Rightarrow> Inl (PyExc (pyerr env ''TypeError: join'' x))))"

text \<open>\<open>a == b\<close> for two values that can be keys of a dict.\<close>

definition py_eq :: "env \<Rightarrow> json \<Rightarrow> json \<Rightarrow> bool" where
  "py_eq env a b =
     (case (as_str a, as_str b) of
        (Some x, Some y) \<Rightarrow> x = y
      | (Some x, None) \<Rightarrow> False
      | (None, Some y) \<Rightarrow> False
      | (None, None) \<Rightarrow> scalar_eq env a b)"

definition hashable :: "json \<Rightarrow> bool" where
  "hashable x = (case x of JArr xs \<Rightarrow> False | JObj d \<Rightarrow> False | _ \<Rightarrow> True)"

text \<open>\<open>list(dict.fromkeys(xs))\<close>: the elements in the order of their first occurrence,
  each once.\<close>

fun first_occurrences :: "('a \<Rightarrow> 'a \<Rightarrow> bool) \<Rightarrow> 'a list \<Rightarrow> 'a list \<Rightarrow> 'a list" where
  "first_occurrences eq seen [] = []"
| "first_occurrences eq seen (x # xs) =
     (if list_ex (\<lambda>y. eq y x) seen then first_occurrences eq seen xs
      else x # first_occurrences eq (seen @ [x]) xs)"

definition dict_fromkeys :: "env \<Rightarrow> json list \<Rightarrow> exn + json list" where
  "dict_fromkeys env xs =
     (if list_all hashable xs then Inr (first_occurrences (py_eq env) [] xs)
      else Inl (PyExc (pyerr env ''TypeError: unhashable'' (JArr xs))))"

section \<open>The response models\<close>

record SubTopic =
  st_id :: string
  st_title :: string
  st_description :: string

record ResearchOutline =
  o_title :: string
  o_description :: string
  o_subTopics :: "SubTopic list"

record ResearchResponse =
  r_sessionId :: string
  r_outline :: ResearchOutline
  r_createdAt :: "string option"
  r_tags :: "string list"
  r_progress :: int

record PagedHistoryResponse =
  pg_items :: "ResearchResponse list"
  pg_page :: int
  pg_limit :: int
  pg_total :: int
  pg_totalPages :: int

record RefinementEntry =
  re_subtopic :: string
  re_insight :: string
  re_createdAt :: "string option"

record SessionDetail =
  sd_sessionId :: string
  sd_outline :: ResearchOutline
  sd_createdAt :: "string option"
  sd_refinements :: "RefinementEntry list"
  sd_summary :: "string option"
  sd_tags :: "string list"

record RefineResponse =
  rf_sessionId :: string
  rf_subtopic :: string
  rf_insight :: string

record FinalizeResponse =
  fz_sessionId :: string
  fz_summary :: string
  fz_tags :: "string list"

text \<open>
  Validation against a model, as the validation library does it for a value that came
  from JSON: a \<open>str\<close> field takes a string only, a list field a list, a model field a dict
  with the required keys; other keys are ignored; an optional field may be missing or
  \<open>None\<close>.
\<close>

definition field_str :: "fields \<Rightarrow> string \<Rightarrow> string option" where
  "field_str d k = (case map_of d k of Some (JStr s) \<Rightarrow> Some s | _ \<Rightarrow> None)"

definition optional_str :: "json \<Rightarrow> string option option" where
  "optional_str x = (case x of JNull \<Rightarrow> Some None | JStr s \<Rightarrow> Some (Some s) | _ \<Rightarrow> None)"

definition str_list :: "json \<Rightarrow> string list option" where
  "str_list x = (case x of JArr xs \<Rightarrow> those (map as_str xs) | _ \<Rightarrow> None)"

definition validate_SubTopic :: "json \<Rightarrow> SubTopic option" where
  "validate_SubTopic x =
     (case x of
        JObj d \<Rightarrow>
          (case (field_str d ''id'', field_str d ''title'', field_str d ''description'') of
             (Some i, Some t, Some ds) \<Rightarrow>
               Some \<lparr> st_id = i, st_title = t, st_description = ds \<rparr>
           | _ \<Rightarrow> None)
      | _ \<Rightarrow> None)"

definition validate_ResearchOutline :: "json \<Rightarrow> ResearchOutline option" where
  "validate_ResearchOutline x =
     (case x of
        JObj d \<Rightarrow>
          (case (field_str d ''title'', field_str d ''description'', map_of d ''subTopics'') of
             (Some t, Some ds, Some (JArr subs)) \<Rightarrow>
               (case those (map validate_SubTopic subs) of
                  Some sts \<Rightarrow> Some \<lparr> o_title = t, o_description = ds, o_subTopics = sts \<rparr>
                | None \<Rightarrow> None)
           | _ \<Rightarrow> None)
      | _ \<Rightarrow> None)"

definition validate_RefinementEntry :: "json \<Rightarrow> RefinementEntry option" where
  "validate_RefinementEntry x =
     (case x of
        JObj d \<Rightarrow>
          (case (field_str d ''subtopic'', field_str d ''insight'',
                 optional_str (dict_get ''createdAt'' d)) of
             (Some st, Some ins, Some created) \<Rightarrow>
               Some \<lparr> re_subtopic = st, re_insight = ins, re_createdAt = created \<rparr>
           | _ \<Rightarrow> None)
      | _ \<Rightarrow> None)"

text \<open>\<open>Model.model_validate(x)\<close>: the value or the library's error.\<close>

definition model_validate :: "env \<Rightarrow> string \<Rightarrow> (json \<Rightarrow> 'a option) \<Rightarrow> json \<Rightarrow> exn + 'a" where
  "model_validate env model validate x =
     (case validate x of
        Some v \<Rightarrow> Inr v
      | None \<Rightarrow> Inl (PyExc (pyerr env (''ValidationError: '' @ model) x)))"

section \<open>Sequencing computations that can raise\<close>

definition bind_e :: "exn + 'a \<Rightarrow> ('a \<Rightarrow> exn + 'b) \<Rightarrow> exn + 'b" where
  "bind_e m f = (case m of Inl e \<Rightarrow> Inl e | Inr x \<Rightarrow> f x)"

definition bind_s ::
  "(exn + 'a) \<times> state \<Rightarrow> ('a \<Rightarrow> state \<Rightarrow> (exn + 'b) \<times> state) \<Rightarrow> (exn + 'b) \<times> state" where
  "bind_s m f = (case m of (Inl e, s) \<Rightarrow> (Inl e, s) | (Inr x, s) \<Rightarrow> f x s)"

section \<open>Configuration checks, the user of a request, provider issues, the cache\<close>

definition newline :: string where
  "newline = [CHR 0x0A]"

definition require_table :: "env \<Rightarrow> exn option" where
  "require_table env = (if table env = None then Some not_configured else None)"

definition require_genai :: "env \<Rightarrow> exn option" where
  "require_genai env =
     (if (case GROQ_API_KEY env of None \<Rightarrow> True | Some k \<Rightarrow> k = [])
      then Some (HTTPException 500 ''Groq API key not configured.'')
      else if groq_client env = None
      then Some (HTTPException 500 ''Groq client is not initialized.'')
      else None)"

text \<open>A request, of which the handlers read the \<open>authorization\<close> header only (empty when
  the header is absent).\<close>

record Request =
  authorization :: string

definition removeprefix :: "string \<Rightarrow> string \<Rightarrow> string" where
  "removeprefix p s = (if startswith s p then drop (length p) s else s)"

definition resolve_user_id :: "env \<Rightarrow> Request \<Rightarrow> exn + string" where
  "resolve_user_id env request =
     (let auth_header = authorization request in
      if AUTH_TOKENS env \<noteq> [] then
        (if \<not> startswith auth_header ''Bearer ''
         then Inl (HTTPException 401 ''Missing bearer token.'')
         else (case map_of (AUTH_TOKENS env) (py_strip (removeprefix ''Bearer '' auth_header)) of
                 None \<Rightarrow> Inl (HTTPException 401 ''Invalid token.'')
               | Some user_id \<Rightarrow>
                   if user_id = [] then Inl (HTTPException 401 ''Invalid token.'')
                   else Inr user_id))
      else Inr (DEFAULT_USER_ID env))"

definition set_provider_issue :: "env \<Rightarrow> string \<Rightarrow> string \<Rightarrow> string \<Rightarrow> state \<Rightarrow> state" where
  "set_provider_issue env provider kind message s =
     s\<lparr>PROVIDER_ISSUES := (PROVIDER_ISSUES s)(provider \<mapsto>
          \<lparr> i_kind = kind, i_message = take 300 message, i_updatedAt = now_iso env (trace s) \<rparr>)\<rparr>"

definition clear_provider_issue :: "string \<Rightarrow> state \<Rightarrow> state" where
  "clear_provider_issue provider s = s\<lparr>PROVIDER_ISSUES := (PROVIDER_ISSUES s)(provider := None)\<rparr>"

definition cache_get :: "string \<Rightarrow> string \<Rightarrow> state \<Rightarrow> cache_item option" where
  "cache_get session_id user_id s =
     (case SESSION_CACHE s session_id of
        None \<Rightarrow> None
      | Some item \<Rightarrow> if c_user_id item \<noteq> user_id then None else Some item)"

definition cache_put ::
  "env \<Rightarrow> string \<Rightarrow> string \<Rightarrow> session_data \<Rightarrow> string option \<Rightarrow> state \<Rightarrow> state" where
  "cache_put env session_id user_id data created_at s =
     s\<lparr>SESSION_CACHE := (SESSION_CACHE s)(session_id \<mapsto>
          \<lparr> c_user_id = user_id,
            c_created_at = (case created_at of
                              None \<Rightarrow> now_iso env (trace s)
                            | Some c \<Rightarrow> if c = [] then now_iso env (trace s) else c),
            c_data = data \<rparr>)\<rparr>"

text \<open>The session data as the dict that \<open>json.dumps\<close> is given.\<close>

definition session_json :: "session_data \<Rightarrow> json" where
  "session_json data =
     JObj [(''outline'', d_outline data), (''refinements'', d_refinements data),
           (''summary'', d_summary data), (''tags'', d_tags data)]"

section \<open>Reading the store\<close>

definition store_all ::
  "env \<Rightarrow> string \<Rightarrow> int option \<Rightarrow> state \<Rightarrow> (exn + airtable_record list) \<times> state" where
  "store_all env formula max_records s =
     (case table env of
        None \<Rightarrow> (Inl not_configured, s)
      | Some tbl \<Rightarrow>
          (tbl_all tbl (trace s) formula max_records, log_event (TableAll formula max_records) s))"

definition store_get :: "env \<Rightarrow> string \<Rightarrow> state \<Rightarrow> (exn + airtable_record option) \<times> state" where
  "store_get env record_id s =
     (case table env of
        None \<Rightarrow> (Inl not_configured, s)
      | Some tbl \<Rightarrow> (tbl_get tbl (trace s) record_id, log_event (TableGet record_id) s))"

definition escape_formula :: "string \<Rightarrow> string" where
  "escape_formula v = replace_char (CHR 0x27) ([CHR 0x5C] @ quote) v"

definition build_session_formula :: "string \<Rightarrow> string \<Rightarrow> string" where
  "build_session_formula session_id user_id =
     ''AND({Session ID} = '' @ quote @ session_id @ quote @ '', {User ID} = ''
       @ quote @ user_id @ quote @ '')''"

definition user_formula :: "string \<Rightarrow> string" where
  "user_formula user_id = ''{User ID} = '' @ quote @ escape_formula user_id @ quote"

text \<open>
  The record of a session in the store: none without a table; else the first record with
  the session id and the user id in its fields; else the record whose own id is the
  session id, when its \<open>User ID\<close> field is the user. A failure of the second lookup counts
  as no record; a failure of the first is raised.
\<close>

definition find_session_record ::
  "env \<Rightarrow> string \<Rightarrow> string \<Rightarrow> state \<Rightarrow> (exn + airtable_record option) \<times> state" where
  "find_session_record env session_id user_id s =
     (if table env = None then (Inr None, s)
      else
        (case store_all env
                (build_session_formula (escape_formula session_id) (escape_formula user_id))
                (Some 1) s of
           (Inl e, s1) \<Rightarrow> (Inl e, s1)
         | (Inr (r # rs), s1) \<Rightarrow> (Inr (Some r), s1)
         | (Inr [], s1) \<Rightarrow>
             (case store_get env session_id s1 of
                (Inl e, s2) \<Rightarrow> (Inr None, s2)
              | (Inr None, s2) \<Rightarrow> (Inr None, s2)
              | (Inr (Some found), s2) \<Rightarrow>
                  if dict_get ''User ID'' (rec_fields found) = JStr user_id
                  then (Inr (Some found), s2)
                  else (Inr None, s2))))"

text \<open>The session data in the fields of a record: the \<open>Data\<close> field parsed, with the
  older layouts read as well.\<close>

definition loads_value :: "env \<Rightarrow> json \<Rightarrow> exn + json" where
  "loads_value env v =
     (case v of
        JStr text \<Rightarrow> json_loads env text
      | _ \<Rightarrow> Inl (PyExc (pyerr env ''TypeError: json.loads'' v)))"

definition parse_data_blob :: "env \<Rightarrow> fields \<Rightarrow> exn + session_data" where
  "parse_data_blob env flds =
     (let default_outline =
            JObj [(''title'', dict_get_or ''Topic'' (JStr ''Untitled'') flds),
                  (''description'', dict_get_or ''Initial Outline'' (JStr []) flds),
                  (''subTopics'', JArr [])]
      in
        if \<not> dict_has ''Data'' flds
        then Inr \<lparr> d_outline = default_outline, d_refinements = JArr [],
                   d_summary = JStr [], d_tags = JArr [] \<rparr>
        else
          bind_e (loads_value env (dict_get ''Data'' flds)) (\<lambda>parsed.
            case parsed of
              JObj d \<Rightarrow>
                if dict_has ''outline'' d
                then Inr \<lparr> d_outline = dict_get_or ''outline'' default_outline d,
                           d_refinements = dict_get_or ''refinements'' (JArr []) d,
                           d_summary = dict_get_or ''summary'' (JStr []) d,
                           d_tags = dict_get_or ''tags'' (JArr []) d \<rparr>
                else Inr \<lparr> d_outline = parsed, d_refinements = JArr [],
                           d_summary = JStr [], d_tags = JArr [] \<rparr>
            | _ \<Rightarrow> Inr \<lparr> d_outline = parsed, d_refinements = JArr [],
                        d_summary = JStr [], d_tags = JArr [] \<rparr>))"

text \<open>The data of the session a request names: the cached data when the cache has the
  session for the user, else the data of the record found, else the 404.\<close>

definition session_not_found :: exn where
  "session_not_found = HTTPException 404 ''Session not found.''"

definition session_data_of ::
  "env \<Rightarrow> cache_item option \<Rightarrow> airtable_record option \<Rightarrow> exn + session_data" where
  "session_data_of env cached found =
     (case cached of
        Some item \<Rightarrow> Inr (c_data item)
      | None \<Rightarrow> (case found of
                   Some r \<Rightarrow> parse_data_blob env (rec_fields r)
                 | None \<Rightarrow> Inl session_not_found))"

section \<open>Local fallbacks for an exhausted quota\<close>

definition fallback_subtopic :: "string \<Rightarrow> string \<Rightarrow> string \<Rightarrow> json" where
  "fallback_subtopic i t d = JObj [(''id'', JStr i), (''title'', JStr t), (''description'', JStr d)]"

text \<open>\<open>topic.strip() or "Research Topic"\<close>\<close>

definition fallback_base :: "string \<Rightarrow> string" where
  "fallback_base topic = (if py_strip topic = [] then ''Research Topic'' else py_strip topic)"

definition fallback_outline :: "string \<Rightarrow> json" where
  "fallback_outline topic =
     (let base = fallback_base topic in
      JObj
        [(''title'', JStr (py_title base)),
         (''description'', JStr
            (''This is a fallback outline generated locally because LLM quota is currently exhausted. ''
             @ ''It still provides a structured map so you can continue your workflow.'')),
         (''subTopics'', JArr
            [fallback_subtopic ''1'' ''Core Concepts''
               (''Define the foundations of '' @ base @ ''.''),
             fallback_subtopic ''2'' ''Current Landscape''
               (''Understand where '' @ base @ '' stands today.''),
             fallback_subtopic ''3'' ''Practical Applications''
               (''Identify real-world uses of '' @ base @ ''.''),
             fallback_subtopic ''4'' ''Risks and Constraints''
               (''Analyze challenges and limits in '' @ base @ ''.''),
             fallback_subtopic ''5'' ''Future Outlook''
               (''Explore likely next developments in '' @ base @ ''.'')])])"

definition fallback_refinement :: "env \<Rightarrow> string \<Rightarrow> json \<Rightarrow> string" where
  "fallback_refinement env subtopic topic =
     ''Fallback deep-dive for '' @ quote @ subtopic @ quote @ '' under '' @ quote
       @ py_str env topic @ quote @ ''. ''
       @ ''LLM quota is exhausted, so this insight is generated locally to keep progress moving. ''
       @ ''Focus on definitions, current patterns, measurable outcomes, constraints, and practical next steps.''"

text \<open>The titles of the first five subtopics of an outline that are not empty.\<close>

definition subtopic_titles :: "env \<Rightarrow> json \<Rightarrow> exn + json list" where
  "subtopic_titles env outline =
     bind_e (py_get env outline ''subTopics'' (JArr [])) (\<lambda>subs.
     bind_e (py_first5 env subs) (\<lambda>first.
     bind_e (py_iter env first) (\<lambda>xs.
     bind_e (map_e (\<lambda>x. py_get env x ''title'' (JStr [])) xs) (\<lambda>titles.
       Inr (filter truthy titles)))))"

definition fallback_finalize :: "env \<Rightarrow> json \<Rightarrow> json \<Rightarrow> exn + string \<times> json list" where
  "fallback_finalize env outline refinements =
     bind_e (py_get env outline ''title'' (JStr ''Untitled Topic'')) (\<lambda>title.
     bind_e (subtopic_titles env outline) (\<lambda>titles.
       Inr (''This session on '' @ py_str env title
              @ '' was finalized with local fallback logic due to LLM quota exhaustion. ''
              @ ''You have a clear topic framing, subtopic breakdown, and stored refinements to continue analysis.'',
            if titles = [] then [JStr ''Research'', JStr ''Fallback'', JStr ''Analysis'']
            else titles)))"

section \<open>Starting a session\<close>

text \<open>What the handlers do with an error of the language-model step: a quota error is
  recorded and, without the fallback, answered with a 429; any other error is recorded
  and raised again. With the fallback the handler goes on with local content.\<close>

definition llm_failed :: "env \<Rightarrow> string \<Rightarrow> exn \<Rightarrow> state \<Rightarrow> (exn + 'a) \<times> state" where
  "llm_failed env detail llm_error s =
     (if is_quota_error llm_error
      then (Inl (HTTPException 429 detail),
            set_provider_issue env ''llm'' ''quota'' (str_exn llm_error) s)
      else (Inl llm_error, set_provider_issue env ''llm'' ''error'' (str_exn llm_error) s))"

definition text_or_braces :: "string \<Rightarrow> string" where
  "text_or_braces text = (if text = [] then ''{}'' else text)"

text \<open>The first \<open>try\<close> of the start handler: the outline the language model gives, or the
  fallback outline.\<close>

definition start_llm_try :: "env \<Rightarrow> string \<Rightarrow> state \<Rightarrow> (exn + json) \<times> state" where
  "start_llm_try env topic s =
     bind_s (generate_content_with_retry env
               (SYSTEM_PROMPT env @ newline @ newline @ ''USER TOPIC: '' @ topic) 1 10000 s)
       (\<lambda>text s1.
          case json_loads env (text_or_braces text) of
            Inl e \<Rightarrow> (Inl e, s1)
          | Inr raw_data \<Rightarrow> (Inr raw_data, clear_provider_issue ''llm'' s1))"

definition start_llm_stage :: "env \<Rightarrow> string \<Rightarrow> state \<Rightarrow> (exn + json) \<times> state" where
  "start_llm_stage env topic s =
     (case start_llm_try env topic s of
        (Inr raw_data, s1) \<Rightarrow> (Inr raw_data, s1)
      | (Inl llm_error, s1) \<Rightarrow>
          if is_quota_error llm_error \<and> ENABLE_FALLBACK_ON_QUOTA env
          then (Inr (fallback_outline topic),
                set_provider_issue env ''llm'' ''quota'' (str_exn llm_error) s1)
          else llm_failed env
                 (''LLM quota exhausted. Add billing or a new API key, or enable fallback mode ''
                  @ ''with ENABLE_FALLBACK_ON_QUOTA=true.'')
                 llm_error s1)"

text \<open>The fields of the record of a new session.\<close>

definition start_create_fields ::
  "env \<Rightarrow> string \<Rightarrow> string \<Rightarrow> string \<Rightarrow> json \<Rightarrow> session_data \<Rightarrow> exn + fields" where
  "start_create_fields env session_id user_id topic raw_data session_payload =
     bind_e (py_get env raw_data ''subTopics'' (JArr [])) (\<lambda>subs.
     bind_e (py_iter env subs) (\<lambda>xs.
     bind_e (map_e (py_index env ''title'') xs) (\<lambda>titles.
     bind_e (join_values env '', '' (JArr titles)) (\<lambda>subtopics_list.
     bind_e (py_get env raw_data ''description'' (JStr [])) (\<lambda>description.
       Inr [(''Session ID'', JStr session_id),
            (''User ID'', JStr user_id),
            (''Topic'', JStr topic),
            (''Subtopics'', JStr subtopics_list),
            (''Initial Outline'', description),
            (''Summary'', JStr []),
            (''Tags'', JStr []),
            (''Search Text'', JStr (topic @ '' '' @ subtopics_list @ '' '' @ py_str env description)),
            (''Status'', JStr ''Initialized''),
            (''Data'', JStr (json_dumps env (session_json session_payload)))])))))"

definition airtable_write_failed :: "env \<Rightarrow> exn \<Rightarrow> state \<Rightarrow> state" where
  "airtable_write_failed env ae s =
     log_event (Print (''Airtable Storage Error: '' @ str_exn ae))
       (set_provider_issue env ''airtable'' ''write_error'' (str_exn ae) s)"

text \<open>The write of the new session, when there is a table: the session id is the one the
  store kept, and a failure of the write is recorded and printed, not raised.\<close>

definition start_store_stage ::
  "env \<Rightarrow> string \<Rightarrow> string \<Rightarrow> json \<Rightarrow> session_data \<Rightarrow> string \<Rightarrow> state \<Rightarrow> string \<times> state" where
  "start_store_stage env user_id topic raw_data session_payload generated_session_id s =
     (if table env = None then (generated_session_id, s)
      else
        (case start_create_fields env generated_session_id user_id topic raw_data session_payload of
           Inl ae \<Rightarrow> (generated_session_id, airtable_write_failed env ae s)
         | Inr create_fields \<Rightarrow>
             (case create_record_resilient env create_fields s of
                (Inl ae, s1) \<Rightarrow> (generated_session_id, airtable_write_failed env ae s1)
              | (Inr created, s1) \<Rightarrow>
                  (let persisted_session_id =
                         py_or (dict_get ''Session ID'' (rec_fields created)) (JStr (rec_id created))
                   in (if truthy persisted_session_id then py_str env persisted_session_id
                       else generated_session_id, s1)))))"

text \<open>The second \<open>try\<close> of the start handler. Its handler for a JSON decoding error is not
  modelled: nothing in this block decodes JSON.\<close>

text \<open>\<open>f"SESS-{os.urandom(4).hex().upper()}"\<close>\<close>

definition generated_session_id :: "env \<Rightarrow> state \<Rightarrow> string" where
  "generated_session_id env s = ''SESS-'' @ urandom_hex env (trace s)"

definition start_session_stage ::
  "env \<Rightarrow> string \<Rightarrow> string \<Rightarrow> json \<Rightarrow> state \<Rightarrow> (exn + ResearchResponse) \<times> state" where
  "start_session_stage env user_id topic raw_data s =
     (let session_payload = \<lparr> d_outline = raw_data, d_refinements = JArr [],
                              d_summary = JStr [], d_tags = JArr [] \<rparr>;
          (session_id, s1) =
             start_store_stage env user_id topic raw_data session_payload
               (generated_session_id env s) s;
          s2 = cache_put env session_id user_id session_payload None s1
      in (case model_validate env ''ResearchOutline'' validate_ResearchOutline raw_data of
            Inl e \<Rightarrow> (Inl e, s2)
          | Inr outline \<Rightarrow>
              (Inr \<lparr> r_sessionId = session_id, r_outline = outline, r_createdAt = None,
                     r_tags = [], r_progress = 50 \<rparr>, s2)))"

text \<open>The outer handler of the start handler: every exception of the body, an
  \<open>HTTPException\<close> included, becomes a 429 when its text has \<open>429\<close> or
  \<open>ResourceExhausted\<close>, and a 500 otherwise.\<close>

definition start_failed :: "env \<Rightarrow> exn \<Rightarrow> state \<Rightarrow> (exn + 'a) \<times> state" where
  "start_failed env e s =
     (let s1 = log_event (PrintExc e) s in
      if py_in ''429'' (str_exn e) \<or> py_in ''ResourceExhausted'' (str_exn e)
      then (Inl (HTTPException 429
                   ''LLM API quota exhausted. Add billing/key or use fallback mode.''),
            set_provider_issue env ''llm'' ''quota'' (str_exn e) s1)
      else (Inl (HTTPException 500 (str_exn e)), s1))"

definition start_research ::
  "env \<Rightarrow> Request \<Rightarrow> string \<Rightarrow> state \<Rightarrow> (exn + ResearchResponse) \<times> state" where
  "start_research env request topic s =
     (case require_genai env of
        Some e \<Rightarrow> (Inl e, s)
      | None \<Rightarrow>
          (case resolve_user_id env request of
             Inl e \<Rightarrow> (Inl e, s)
           | Inr user_id \<Rightarrow>
               (case bind_s (start_llm_stage env topic s) (start_session_stage env user_id topic) of
                  (Inr response, s1) \<Rightarrow> (Inr response, s1)
                | (Inl e, s1) \<Rightarrow> start_failed env e s1)))"

section \<open>Refining a session\<close>

definition refine_prompt :: "env \<Rightarrow> json \<Rightarrow> string \<Rightarrow> exn + string" where
  "refine_prompt env outline subtopic =
     bind_e (py_get env outline ''title'' (JStr subtopic)) (\<lambda>title.
     bind_e (py_get env outline ''description'' (JStr [])) (\<lambda>description.
       Inr (REFINEMENT_PROMPT env @ newline @ newline
            @ ''TOPIC: '' @ py_str env title @ newline
            @ ''TOPIC DESCRIPTION: '' @ py_str env description @ newline
            @ ''SELECTED SUBTOPIC: '' @ subtopic @ newline)))"

definition refine_llm_try :: "env \<Rightarrow> json \<Rightarrow> string \<Rightarrow> state \<Rightarrow> (exn + string) \<times> state" where
  "refine_llm_try env outline subtopic s =
     (case refine_prompt env outline subtopic of
        Inl e \<Rightarrow> (Inl e, s)
      | Inr prompt \<Rightarrow>
          bind_s (generate_content_with_retry env prompt 1 10000 s)
            (\<lambda>text s1.
               case bind_e (json_loads env (text_or_braces text))
                      (\<lambda>parsed. py_get env parsed ''insight'' (JStr [])) of
                 Inl e \<Rightarrow> (Inl e, s1)
               | Inr v \<Rightarrow> (Inr (py_strip (py_str env v)), clear_provider_issue ''llm'' s1)))"

definition refine_llm_stage :: "env \<Rightarrow> json \<Rightarrow> string \<Rightarrow> state \<Rightarrow> (exn + string) \<times> state" where
  "refine_llm_stage env outline subtopic s =
     (case refine_llm_try env outline subtopic s of
        (Inr insight, s1) \<Rightarrow> (Inr insight, s1)
      | (Inl llm_error, s1) \<Rightarrow>
          if is_quota_error llm_error \<and> ENABLE_FALLBACK_ON_QUOTA env
          then (let s2 = set_provider_issue env ''llm'' ''quota'' (str_exn llm_error) s1 in
                case py_get env outline ''title'' (JStr subtopic) of
                  Inl e \<Rightarrow> (Inl e, s2)
                | Inr title \<Rightarrow> (Inr (fallback_refinement env subtopic title), s2))
          else llm_failed env ''LLM quota exhausted. Cannot generate deep-dive.'' llm_error s1)"

text \<open>\<open>refinements.append(entry)\<close>\<close>

definition append_refinement :: "env \<Rightarrow> json \<Rightarrow> json \<Rightarrow> exn + json" where
  "append_refinement env refinements entry =
     (case refinements of
        JArr xs \<Rightarrow> Inr (JArr (xs @ [entry]))
      | _ \<Rightarrow> Inl (PyExc (pyerr env ''AttributeError: append'' refinements)))"

definition refine_update_fields ::
  "env \<Rightarrow> session_data \<Rightarrow> json \<Rightarrow> string \<Rightarrow> string \<Rightarrow> exn + fields" where
  "refine_update_fields env data outline subtopic insight =
     bind_e (join_values env '', '' (d_tags data)) (\<lambda>tags_text.
     bind_e (py_get env outline ''title'' (JStr [])) (\<lambda>title.
     bind_e (py_get env outline ''description'' (JStr [])) (\<lambda>description.
       Inr [(''Data'', JStr (json_dumps env (session_json data))),
            (''Summary'', d_summary data),
            (''Tags'', JStr tags_text),
            (''Search Text'', JStr (py_str env title @ '' '' @ py_str env description @ '' ''
                                     @ subtopic @ '' '' @ insight)),
            (''Status'', JStr ''Refined'')])))"

text \<open>The write of the changed session, when a record was found: a failure is raised.\<close>

definition write_back ::
  "env \<Rightarrow> airtable_record option \<Rightarrow> exn + fields \<Rightarrow> state \<Rightarrow> (exn + unit) \<times> state" where
  "write_back env found update_fields s =
     (case found of
        None \<Rightarrow> (Inr (), s)
      | Some r \<Rightarrow>
          (case update_fields of
             Inl e \<Rightarrow> (Inl e, s)
           | Inr flds \<Rightarrow>
               bind_s (update_record_resilient env (rec_id r) flds s)
                 (\<lambda>u s1. (Inr (), clear_provider_issue ''airtable'' s1))))"

definition refine_body ::
  "env \<Rightarrow> string \<Rightarrow> string \<Rightarrow> string \<Rightarrow> state \<Rightarrow> (exn + RefineResponse) \<times> state" where
  "refine_body env user_id sessionId subtopic s =
     (let cached = cache_get sessionId user_id s in
      bind_s (find_session_record env sessionId user_id s) (\<lambda>found s1.
        case session_data_of env cached found of
          Inl e \<Rightarrow> (Inl e, s1)
        | Inr data \<Rightarrow>
            bind_s (refine_llm_stage env (d_outline data) subtopic s1) (\<lambda>insight s2.
              if insight = []
              then (Inl (HTTPException 500 ''AI returned an empty refinement.''), s2)
              else
                (case append_refinement env (d_refinements data)
                        (JObj [(''subtopic'', JStr subtopic), (''insight'', JStr insight),
                               (''createdAt'', JStr (now_iso env (trace s2)))]) of
                   Inl e \<Rightarrow> (Inl e, s2)
                 | Inr refinements \<Rightarrow>
                     (let data2 = data\<lparr>d_refinements := refinements\<rparr>;
                          s3 = cache_put env sessionId user_id data2
                                 (map_option c_created_at cached) s2
                      in bind_s (write_back env found
                                   (refine_update_fields env data2 (d_outline data) subtopic insight)
                                   s3)
                           (\<lambda>u s4. (Inr \<lparr> rf_sessionId = sessionId, rf_subtopic = subtopic,
                                              rf_insight = insight \<rparr>, s4)))))))"

text \<open>The outer handlers of the refine and the finalize handler: an \<open>HTTPException\<close> is
  raised again as it is; any other exception becomes a 429 when its text has \<open>429\<close> or
  \<open>ResourceExhausted\<close>, and else is recorded as a write error of the store and becomes a
  500.\<close>

definition body_failed :: "env \<Rightarrow> string \<Rightarrow> exn \<Rightarrow> state \<Rightarrow> (exn + 'a) \<times> state" where
  "body_failed env what e s =
     (case e of
        HTTPException status_code detail \<Rightarrow> (Inl e, s)
      | PyExc text \<Rightarrow>
          if py_in ''429'' text \<or> py_in ''ResourceExhausted'' text
          then (Inl (HTTPException 429 ''LLM API quota exhausted. Please try again soon.''),
                set_provider_issue env ''llm'' ''quota'' text s)
          else (Inl (HTTPException 500 (''Failed to '' @ what @ '' research: '' @ text)),
                set_provider_issue env ''airtable'' ''write_error'' text s))"

definition refine_research ::
  "env \<Rightarrow> Request \<Rightarrow> string \<Rightarrow> string \<Rightarrow> state \<Rightarrow> (exn + RefineResponse) \<times> state" where
  "refine_research env request sessionId subtopic s =
     (case require_genai env of
        Some e \<Rightarrow> (Inl e, s)
      | None \<Rightarrow>
          (case resolve_user_id env request of
             Inl e \<Rightarrow> (Inl e, s)
           | Inr user_id \<Rightarrow>
               (case refine_body env user_id sessionId subtopic s of
                  (Inr response, s1) \<Rightarrow> (Inr response, s1)
                | (Inl e, s1) \<Rightarrow> body_failed env ''refine'' e s1)))"

section \<open>Finalizing a session\<close>

definition finalize_findings :: "env \<Rightarrow> json \<Rightarrow> json \<Rightarrow> exn + string" where
  "finalize_findings env outline refinements =
     bind_e (py_get env outline ''description'' (JStr [])) (\<lambda>description.
     bind_e (py_iter env refinements) (\<lambda>xs.
     bind_e (map_e (\<lambda>x. py_get env x ''insight'' JNull) xs) (\<lambda>insights.
       Inr (py_join newline
              (map (\<lambda>x. ''- '' @ py_str env x)
                 (filter truthy
                    (description # map (\<lambda>v. JStr (py_str env v)) (filter truthy insights))))))))"

text \<open>\<open>[str(t).strip() for t in ts if str(t).strip()]\<close>\<close>

definition stripped_nonempty :: "string list \<Rightarrow> string list" where
  "stripped_nonempty ts = filter (\<lambda>t. t \<noteq> []) (map py_strip ts)"

definition finalize_llm_try ::
  "env \<Rightarrow> json \<Rightarrow> string \<Rightarrow> state \<Rightarrow> (exn + string \<times> json list) \<times> state" where
  "finalize_llm_try env outline findings_text s =
     (case py_get env outline ''title'' (JStr ''Untitled'') of
        Inl e \<Rightarrow> (Inl e, s)
      | Inr title \<Rightarrow>
          bind_s (generate_content_with_retry env
                    (FINALIZE_PROMPT env @ newline @ newline
                     @ ''TOPIC: '' @ py_str env title @ newline
                     @ ''FINDINGS:'' @ newline @ findings_text @ newline) 1 10000 s)
            (\<lambda>text s1.
               case bind_e (json_loads env (text_or_braces text)) (\<lambda>parsed.
                    bind_e (py_get env parsed ''summary'' (JStr [])) (\<lambda>summary.
                    bind_e (py_get env parsed ''tags'' (JArr [])) (\<lambda>tags.
                    bind_e (py_iter env tags) (\<lambda>ts.
                      Inr (py_strip (py_str env summary),
                           map JStr (stripped_nonempty (map (py_str env) ts))))))) of
                 Inl e \<Rightarrow> (Inl e, s1)
               | Inr result \<Rightarrow> (Inr result, clear_provider_issue ''llm'' s1)))"

definition finalize_llm_stage ::
  "env \<Rightarrow> json \<Rightarrow> json \<Rightarrow> string \<Rightarrow> state \<Rightarrow> (exn + string \<times> json list) \<times> state" where
  "finalize_llm_stage env outline refinements findings_text s =
     (case finalize_llm_try env outline findings_text s of
        (Inr result, s1) \<Rightarrow> (Inr result, s1)
      | (Inl llm_error, s1) \<Rightarrow>
          if is_quota_error llm_error \<and> ENABLE_FALLBACK_ON_QUOTA env
          then (fallback_finalize env outline refinements,
                set_provider_issue env ''llm'' ''quota'' (str_exn llm_error) s1)
          else llm_failed env ''LLM quota exhausted. Cannot finalize session.'' llm_error s1)"

text \<open>The tags that are stored: the caller's, stripped, when any of them is not blank;
  else the derived ones, and the subtopic titles when there are none.\<close>

definition final_tags :: "env \<Rightarrow> json \<Rightarrow> string list option \<Rightarrow> json list \<Rightarrow> exn + json list" where
  "final_tags env outline request_tags tags =
     bind_e (if tags = [] then subtopic_titles env outline else Inr tags) (\<lambda>tags2.
       let selected_tags =
             stripped_nonempty (case request_tags of None \<Rightarrow> [] | Some ts \<Rightarrow> ts)
       in Inr (if selected_tags \<noteq> [] then map JStr selected_tags else tags2))"

definition finalize_update_fields ::
  "env \<Rightarrow> session_data \<Rightarrow> json \<Rightarrow> string \<Rightarrow> exn + fields" where
  "finalize_update_fields env data outline summary =
     bind_e (join_values env '', '' (d_tags data)) (\<lambda>tags_text.
     bind_e (py_get env outline ''title'' (JStr [])) (\<lambda>title.
     bind_e (py_get env outline ''description'' (JStr [])) (\<lambda>description.
     bind_e (join_values env '' '' (d_tags data)) (\<lambda>tags_words.
       Inr [(''Data'', JStr (json_dumps env (session_json data))),
            (''Summary'', JStr summary),
            (''Tags'', JStr tags_text),
            (''Search Text'', JStr (py_str env title @ '' '' @ py_str env description @ '' ''
                                     @ summary @ '' '' @ tags_words)),
            (''Status'', JStr ''Finalized'')]))))"

text \<open>The assignment \<open>data["summary"] = summary\<close> is made on the dict the cache holds, when
  the data came from the cache: it stays when the next statement raises.\<close>

definition summary_assigned :: "string \<Rightarrow> cache_item option \<Rightarrow> string \<Rightarrow> state \<Rightarrow> state" where
  "summary_assigned sessionId cached summary s =
     (case cached of
        None \<Rightarrow> s
      | Some item \<Rightarrow>
          s\<lparr>SESSION_CACHE := (SESSION_CACHE s)(sessionId \<mapsto>
               item\<lparr>c_data := (c_data item)\<lparr>d_summary := JStr summary\<rparr>\<rparr>)\<rparr>)"

definition finalize_body ::
  "env \<Rightarrow> string \<Rightarrow> string \<Rightarrow> string list option \<Rightarrow> state
     \<Rightarrow> (exn + FinalizeResponse) \<times> state" where
  "finalize_body env user_id sessionId request_tags s =
     (let cached = cache_get sessionId user_id s in
      bind_s (find_session_record env sessionId user_id s) (\<lambda>found s1.
        case bind_e (session_data_of env cached found) (\<lambda>data.
             bind_e (finalize_findings env (d_outline data) (d_refinements data)) (\<lambda>findings_text.
               Inr (data, findings_text))) of
          Inl e \<Rightarrow> (Inl e, s1)
        | Inr (data, findings_text) \<Rightarrow>
            bind_s (finalize_llm_stage env (d_outline data) (d_refinements data) findings_text s1)
              (\<lambda>(summary, tags) s2.
                 if summary = []
                 then (Inl (HTTPException 500 ''AI returned an empty final summary.''), s2)
                 else
                   (case final_tags env (d_outline data) request_tags tags of
                      Inl e \<Rightarrow> (Inl e, s2)
                    | Inr chosen \<Rightarrow>
                        (case dict_fromkeys env chosen of
                           Inl e \<Rightarrow> (Inl e, summary_assigned sessionId cached summary s2)
                         | Inr stored \<Rightarrow>
                             (let data2 = data\<lparr>d_summary := JStr summary, d_tags := JArr stored\<rparr>;
                                  s3 = cache_put env sessionId user_id data2
                                         (map_option c_created_at cached) s2
                              in bind_s (write_back env found
                                           (finalize_update_fields env data2 (d_outline data) summary)
                                           s3)
                                   (\<lambda>u s4.
                                      case model_validate env ''FinalizeResponse'' str_list
                                             (JArr stored) of
                                        Inl e \<Rightarrow> (Inl e, s4)
                                      | Inr tag_list \<Rightarrow>
                                          (Inr \<lparr> fz_sessionId = sessionId, fz_summary = summary,
                                                 fz_tags = tag_list \<rparr>, s4))))))))"

definition finalize_research ::
  "env \<Rightarrow> Request \<Rightarrow> string \<Rightarrow> string list option \<Rightarrow> state
     \<Rightarrow> (exn + FinalizeResponse) \<times> state" where
  "finalize_research env request sessionId request_tags s =
     (case require_genai env of
        Some e \<Rightarrow> (Inl e, s)
      | None \<Rightarrow>
          (case resolve_user_id env request of
             Inl e \<Rightarrow> (Inl e, s)
           | Inr user_id \<Rightarrow>
               (case finalize_body env user_id sessionId request_tags s of
                  (Inr response, s1) \<Rightarrow> (Inr response, s1)
                | (Inl e, s1) \<Rightarrow> body_failed env ''finalize'' e s1)))"

section \<open>Reading a session\<close>

text \<open>The response for session data: the outline and the refinements validated first,
  then the fields of the response itself; an empty summary is given as none.\<close>

definition session_detail ::
  "env \<Rightarrow> json \<Rightarrow> json \<Rightarrow> session_data \<Rightarrow> exn + SessionDetail" where
  "session_detail env session_id created_at data =
     bind_e (model_validate env ''ResearchOutline'' validate_ResearchOutline (d_outline data))
       (\<lambda>outline.
     bind_e (py_iter env (d_refinements data)) (\<lambda>xs.
     bind_e (map_e (model_validate env ''RefinementEntry'' validate_RefinementEntry) xs)
       (\<lambda>refinements.
       case (as_str session_id, optional_str created_at,
             optional_str (if truthy (d_summary data) then d_summary data else JNull),
             str_list (d_tags data)) of
         (Some sid, Some created, Some summary, Some tags) \<Rightarrow>
           Inr \<lparr> sd_sessionId = sid, sd_outline = outline, sd_createdAt = created,
                  sd_refinements = refinements, sd_summary = summary, sd_tags = tags \<rparr>
       | _ \<Rightarrow> Inl (PyExc (pyerr env ''ValidationError: SessionDetail'' (session_json data))))))"

text \<open>The response for the record found in the store, or the 404.\<close>

definition record_detail :: "env \<Rightarrow> airtable_record option \<Rightarrow> exn + SessionDetail" where
  "record_detail env found =
     (case found of
        None \<Rightarrow> Inl session_not_found
      | Some r \<Rightarrow>
          bind_e (parse_data_blob env (rec_fields r)) (\<lambda>data.
            session_detail env
              (py_or (dict_get ''Session ID'' (rec_fields r)) (JStr (rec_id r)))
              (py_or (dict_get ''Created Time'' (rec_fields r)) (JStr (rec_createdTime r)))
              data))"

definition get_session_body ::
  "env \<Rightarrow> string \<Rightarrow> string \<Rightarrow> state \<Rightarrow> (exn + SessionDetail) \<times> state" where
  "get_session_body env session_id user_id s =
     (case cache_get session_id user_id s of
        Some cached \<Rightarrow>
          (session_detail env (JStr session_id) (JStr (c_created_at cached)) (c_data cached), s)
      | None \<Rightarrow>
          (case require_table env of
             Some e \<Rightarrow> (Inl e, s)
           | None \<Rightarrow>
               bind_s (find_session_record env session_id user_id s)
                 (\<lambda>found s1. (record_detail env found, s1))))"

definition get_session :: "env \<Rightarrow> string \<Rightarrow> Request \<Rightarrow> state \<Rightarrow> (exn + SessionDetail) \<times> state" where
  "get_session env session_id request s =
     (case resolve_user_id env request of
        Inl e \<Rightarrow> (Inl e, s)
      | Inr user_id \<Rightarrow>
          (case get_session_body env session_id user_id s of
             (Inr response, s1) \<Rightarrow> (Inr response, s1)
           | (Inl (HTTPException status_code detail), s1) \<Rightarrow>
               (Inl (HTTPException status_code detail), s1)
           | (Inl (PyExc text), s1) \<Rightarrow>
               (Inl (HTTPException 500 (''Failed to fetch session: '' @ text)), s1)))"

section \<open>The history of a user\<close>

definition matches_filters ::
  "env \<Rightarrow> json \<Rightarrow> string list \<Rightarrow> string list \<Rightarrow> string \<Rightarrow> exn + bool" where
  "matches_filters env outline tags category_values search =
     (if category_values \<noteq> []
         \<and> \<not> list_ex (\<lambda>cat. list_ex (\<lambda>t. py_in cat t) (map py_lower tags)) category_values
      then Inr False
      else if search \<noteq> [] then
        bind_e (py_get env outline ''title'' (JStr [])) (\<lambda>title.
        bind_e (py_get env outline ''description'' (JStr [])) (\<lambda>description.
        bind_e (py_get env outline ''subTopics'' (JArr [])) (\<lambda>subs.
        bind_e (py_iter env subs) (\<lambda>xs.
        bind_e (map_e (\<lambda>x. py_get env x ''title'' (JStr [])) xs) (\<lambda>titles.
          Inr (\<not> (\<not> py_in search (py_lower (py_str env title))
                   \<and> \<not> py_in search (py_lower (py_str env description))
                   \<and> list_all (\<lambda>x. \<not> py_in search x) (map (\<lambda>v. py_lower (py_str env v)) titles)
                   \<and> list_all (\<lambda>x. \<not> py_in search x) (map py_lower tags))))))))
      else Inr True)"

definition build_history_formula :: "string \<Rightarrow> string list \<Rightarrow> string \<Rightarrow> string" where
  "build_history_formula user_id category_values search =
     (let find = (\<lambda>needle field.
             ''FIND('' @ quote @ escape_formula needle @ quote @ '', LOWER({'' @ field @ ''}))'');
          clauses =
            [user_formula user_id]
            @ (if category_values \<noteq> []
               then [''OR('' @ py_join '','' (map (\<lambda>cat. find cat ''Tags'') category_values) @ '')'']
               else [])
            @ (if search \<noteq> []
               then [''OR('' @ find search ''Topic'' @ '','' @ find search ''Subtopics'' @ '',''
                     @ find search ''Summary'' @ '','' @ find search ''Tags'' @ '')'']
               else [])
      in ''AND('' @ py_join '','' clauses @ '')'')"

definition progress_for :: "env \<Rightarrow> session_data \<Rightarrow> exn + int" where
  "progress_for env data =
     bind_e (py_get env (d_outline data) ''subTopics'' (JArr [])) (\<lambda>subtopics.
       Inr (min (25 + (if truthy subtopics then 25 else 0)
                    + (if truthy (d_refinements data) then 25 else 0)
                    + (if py_strip (py_str env (d_summary data)) \<noteq> [] \<or> truthy (d_tags data)
                       then 25 else 0)) 100))"

text \<open>One turn of the loop over the records: the item of the record, or nothing when the
  record does not pass the filters.\<close>

definition history_item ::
  "env \<Rightarrow> string list \<Rightarrow> string \<Rightarrow> airtable_record \<Rightarrow> exn + ResearchResponse option" where
  "history_item env category_values normalized_search r =
     bind_e (parse_data_blob env (rec_fields r)) (\<lambda>data.
     bind_e (py_iter env (d_tags data)) (\<lambda>ts.
       let tags = stripped_nonempty (map (py_str env) ts) in
       bind_e (matches_filters env (d_outline data) tags category_values normalized_search)
         (\<lambda>passes.
            if \<not> passes then Inr None
            else
              bind_e (model_validate env ''ResearchOutline'' validate_ResearchOutline
                        (d_outline data)) (\<lambda>outline.
              bind_e (progress_for env data) (\<lambda>progress.
                case (as_str (py_or (py_or (dict_get ''Session ID'' (rec_fields r))
                                       (JStr (rec_id r))) (JStr ''UNKNOWN'')),
                      optional_str (py_or (dict_get ''Created Time'' (rec_fields r))
                                      (JStr (rec_createdTime r)))) of
                  (Some sid, Some created) \<Rightarrow>
                    Inr (Some \<lparr> r_sessionId = sid, r_outline = outline, r_createdAt = created,
                               r_tags = tags, r_progress = progress \<rparr>)
                | _ \<Rightarrow> Inl (PyExc (pyerr env ''ValidationError: ResearchResponse''
                                     (JObj (rec_fields r)))))))))"

fun history_loop ::
  "env \<Rightarrow> string list \<Rightarrow> string \<Rightarrow> airtable_record list \<Rightarrow> exn + ResearchResponse list" where
  "history_loop env category_values normalized_search [] = Inr []"
| "history_loop env category_values normalized_search (r # rs) =
     bind_e (history_item env category_values normalized_search r) (\<lambda>item.
     bind_e (history_loop env category_values normalized_search rs) (\<lambda>items.
       Inr (case item of None \<Rightarrow> items | Some i \<Rightarrow> i # items)))"

definition category_values_of :: "string \<Rightarrow> string list" where
  "category_values_of category =
     (let normalized_category = py_lower (py_strip category) in
      if normalized_category = [] \<or> normalized_category = ''all'' then []
      else stripped_nonempty (split_char (CHR '','') normalized_category))"

text \<open>The records of the user: by the formula with the filters, and by the user alone
  when the store refuses that formula.\<close>

definition history_records ::
  "env \<Rightarrow> string \<Rightarrow> string list \<Rightarrow> string \<Rightarrow> int option \<Rightarrow> state
     \<Rightarrow> (exn + airtable_record list) \<times> state" where
  "history_records env user_id category_values normalized_search limit s =
     (case store_all env (build_history_formula user_id category_values normalized_search) limit s of
        (Inr records, s1) \<Rightarrow> (Inr records, s1)
      | (Inl e, s1) \<Rightarrow> store_all env (user_formula user_id) limit s1)"

definition build_history_items ::
  "env \<Rightarrow> string \<Rightarrow> string \<Rightarrow> string \<Rightarrow> int option \<Rightarrow> state
     \<Rightarrow> (exn + ResearchResponse list) \<times> state" where
  "build_history_items env user_id category search limit s =
     (let category_values = category_values_of category;
          normalized_search = py_lower (py_strip search)
      in bind_s (history_records env user_id category_values normalized_search limit s)
           (\<lambda>records s1. (history_loop env category_values normalized_search records, s1)))"

definition read_failed :: "env \<Rightarrow> string \<Rightarrow> exn \<Rightarrow> state \<Rightarrow> (exn + 'a) \<times> state" where
  "read_failed env what e s =
     (Inl (HTTPException 500 (''Failed to fetch '' @ what @ '': '' @ str_exn e)),
      set_provider_issue env ''airtable'' ''read_error'' (str_exn e) s)"

definition get_history ::
  "env \<Rightarrow> Request \<Rightarrow> string \<Rightarrow> string \<Rightarrow> state \<Rightarrow> (exn + ResearchResponse list) \<times> state" where
  "get_history env request category search s =
     (case require_table env of
        Some e \<Rightarrow> (Inl e, s)
      | None \<Rightarrow>
          (case resolve_user_id env request of
             Inl e \<Rightarrow> (Inl e, s)
           | Inr user_id \<Rightarrow>
               (case build_history_items env user_id category search None s of
                  (Inr items, s1) \<Rightarrow> (Inr items, clear_provider_issue ''airtable'' s1)
                | (Inl e, s1) \<Rightarrow> read_failed env ''history'' e s1)))"

text \<open>\<open>items[start:end]\<close> for \<open>0 \<le> start \<le> end\<close>.\<close>

definition slice :: "int \<Rightarrow> int \<Rightarrow> 'a list \<Rightarrow> 'a list" where
  "slice start end xs = take (nat (end - start)) (drop (nat start) xs)"

definition get_history_paged ::
  "env \<Rightarrow> Request \<Rightarrow> string \<Rightarrow> string \<Rightarrow> int \<Rightarrow> int \<Rightarrow> state
     \<Rightarrow> (exn + PagedHistoryResponse) \<times> state" where
  "get_history_paged env request category search page limit s =
     (case require_table env of
        Some e \<Rightarrow> (Inl e, s)
      | None \<Rightarrow>
          (case resolve_user_id env request of
             Inl e \<Rightarrow> (Inl e, s)
           | Inr user_id \<Rightarrow>
               (let safe_page = max 1 page;
                    safe_limit = min (max 1 limit) 100;
                    fetch_limit = safe_page * safe_limit + 1
                in case build_history_items env user_id category search (Some fetch_limit) s of
                     (Inl e, s1) \<Rightarrow> read_failed env ''paged history'' e s1
                   | (Inr items, s1) \<Rightarrow>
                       (let start = (safe_page - 1) * safe_limit;
                            end = start + safe_limit;
                            paged_items = slice start end items;
                            has_more = (int (length items) > end);
                            total = start + int (length paged_items) + (if has_more then 1 else 0);
                            total_pages = safe_page + (if has_more then 1 else 0)
                        in (Inr \<lparr> pg_items = paged_items, pg_page = safe_page,
                                   pg_limit = safe_limit, pg_total = total,
                                   pg_totalPages = total_pages \<rparr>,
                            clear_provider_issue ''airtable'' s1)))))"

section \<open>Concrete environments\<close>

text \<open>An environment with a given language-model client, table and fallback flag, no
  tokens, and library functions that answer with fixed values; \<open>json.loads\<close> reads from a
  table of texts.\<close>

definition mk_env ::
  "(event list \<Rightarrow> string \<Rightarrow> exn + string option) option \<Rightarrow> table_client option \<Rightarrow> bool
     \<Rightarrow> (string \<times> json) list \<Rightarrow> env" where
  "mk_env client tbl fallback texts =
     \<lparr> GROQ_API_KEY = Some ''key'',
       groq_client = client,
       table = tbl,
       ENABLE_FALLBACK_ON_QUOTA = fallback,
       AUTH_TOKENS = [],
       DEFAULT_USER_ID = ''local-dev'',
       json_loads = (\<lambda>text. case map_of texts text of
                       Some j \<Rightarrow> Inr j
                     | None \<Rightarrow> Inl (PyExc ''Expecting value: line 1 column 1 (char 0)'')),
       json_dumps = (\<lambda>j. ''json''),
       py_repr = (\<lambda>j. ''repr''),
       pyerr = (\<lambda>place j. place),
       float_ms = (\<lambda>g. if g = ''12.5'' then 12500 else 0),
       scalar_eq = (\<lambda>a b. a = b),
       now_iso = (\<lambda>tr. ''2025-01-01T00:00:00+00:00''),
       urandom_hex = (\<lambda>tr. ''0A1B2C3D''),
       SYSTEM_PROMPT = ''Decompose the topic.'',
       REFINEMENT_PROMPT = ''Give a deep dive.'',
       FINALIZE_PROMPT = ''Summarize.'' \<rparr>"

definition empty_state :: state where
  "empty_state = \<lparr> SESSION_CACHE = Map.empty, PROVIDER_ISSUES = Map.empty, trace = [] \<rparr>"

text \<open>A client that is rate limited on its first call, with a hint of 12.5 seconds, and
  answers afterwards.\<close>

definition limited_once :: "event list \<Rightarrow> string \<Rightarrow> exn + string option" where
  "limited_once tr contents =
     (if tr = [] then Inl (PyExc ''Rate limit reached, retry in 12.5s'') else Inr (Some ''ok''))"

text \<open>A table that refuses every write, naming the first field of the payload as unknown,
  and the fields the start handler writes.\<close>

definition refuse_first :: "fields \<Rightarrow> exn" where
  "refuse_first payload =
     (case payload of
        [] \<Rightarrow> PyExc ''INVALID_REQUEST_BODY''
      | (k, v) # _ \<Rightarrow> PyExc (''Unknown field name: '' @ dquote @ k @ dquote))"

definition refusing_table :: table_client where
  "refusing_table =
     \<lparr> tbl_all = (\<lambda>tr formula max_records. Inr []),
       tbl_get = (\<lambda>tr record_id. Inr None),
       tbl_create = (\<lambda>tr payload. Inl (refuse_first payload)),
       tbl_update = (\<lambda>tr record_id payload. Inl (refuse_first payload)) \<rparr>"

definition ten_fields :: fields where
  "ten_fields =
     [(''Session ID'', JStr ''SESS-0A1B2C3D''), (''User ID'', JStr ''local-dev''),
      (''Topic'', JStr ''t''), (''Subtopics'', JStr []), (''Initial Outline'', JStr []),
      (''Summary'', JStr []), (''Tags'', JStr []), (''Search Text'', JStr ''t  ''),
      (''Status'', JStr ''Initialized''), (''Data'', JStr ''json'')]"

text \<open>A well-formed session, and a state whose cache holds it for a given user.\<close>

definition demo_outline :: json where
  "demo_outline =
     JObj [(''title'', JStr ''Graph Databases''),
           (''description'', JStr ''Stores built on nodes and edges.''),
           (''subTopics'', JArr [fallback_subtopic ''1'' ''Core Concepts'' ''Nodes and edges.''])]"

definition demo_data :: session_data where
  "demo_data =
     \<lparr> d_outline = demo_outline,
       d_refinements = JArr [JObj [(''subtopic'', JStr ''Core Concepts''),
                                   (''insight'', JStr ''Edges are first class.''),
                                   (''createdAt'', JStr ''2025-01-02T00:00:00+00:00'')]],
       d_summary = JStr ''A summary.'',
       d_tags = JArr [JStr ''Graphs'', JStr ''Storage''] \<rparr>"

definition cached_state :: "string \<Rightarrow> state" where
  "cached_state owner =
     empty_state\<lparr>SESSION_CACHE :=
        [''SESS-1'' \<mapsto> \<lparr> c_user_id = owner, c_created_at = ''2025-01-01T00:00:00+00:00'',
                          c_data = demo_data \<rparr>]\<rparr>"

text \<open>A client whose quota is exhausted for good.\<close>

definition always_limited :: "event list \<Rightarrow> string \<Rightarrow> exn + string option" where
  "always_limited tr contents = Inl (PyExc ''Error code: 429 - Too Many Requests'')"

text \<open>A client that answers every call with one text, a stored record of the demo
  session, and a table that finds the record but refuses every write.\<close>

definition answers :: "string \<Rightarrow> event list \<Rightarrow> string \<Rightarrow> exn + string option" where
  "answers text tr contents = Inr (Some text)"

definition demo_record :: airtable_record where
  "demo_record =
     \<lparr> rec_id = ''rec1'', rec_createdTime = ''2025-01-01T00:00:00.000Z'',
       rec_fields = [(''Session ID'', JStr ''SESS-1''), (''User ID'', JStr ''local-dev''),
                     (''Data'', JStr ''blob'')] \<rparr>"

definition down_table :: table_client where
  "down_table =
     \<lparr> tbl_all = (\<lambda>tr formula max_records. Inr [demo_record]),
       tbl_get = (\<lambda>tr record_id. Inr None),
       tbl_create = (\<lambda>tr payload. Inl (PyExc ''Service unavailable'')),
       tbl_update = (\<lambda>tr record_id payload. Inl (PyExc ''Service unavailable'')) \<rparr>"

definition demo_texts :: "(string \<times> json) list" where
  "demo_texts =
     [(''blob'', session_json demo_data),
      (''llm-outline'', demo_outline),
      (''llm-insight'', JObj [(''insight'', JStr ''Edges are first class.'')]),
      (''llm-final'', JObj [(''summary'', JStr ''A summary.''),
                            (''tags'', JArr [JStr ''Graphs'', JStr ''Storage'', JStr ''Graphs''])])]"

text \<open>A client that answers each of the three prompts of the demo environment with the
  text that \<open>json.loads\<close> reads as the matching result.\<close>

definition demo_client :: "event list \<Rightarrow> string \<Rightarrow> exn + string option" where
  "demo_client tr contents =
     (if startswith contents ''Decompose'' then Inr (Some ''llm-outline'')
      else if startswith contents ''Give'' then Inr (Some ''llm-insight'')
      else Inr (Some ''llm-final''))"

definition demo_env :: env where
  "demo_env = mk_env (Some demo_client) (Some down_table) True demo_texts"

definition anonymous :: Request where
  "anonymous = \<lparr> authorization = [] \<rparr>"


text \<open>A store of five sessions of one user that gives the first \<open>max_records\<close> of them,
  as the store's client does.\<close>

definition session_record :: "string \<Rightarrow> airtable_record" where
  "session_record sid =
     \<lparr> rec_id = ''rec-'' @ sid, rec_createdTime = ''2025-01-01T00:00:00.000Z'',
       rec_fields = [(''Session ID'', JStr sid), (''User ID'', JStr ''local-dev''),
                     (''Data'', JStr ''blob'')] \<rparr>"

definition five_records :: "airtable_record list" where
  "five_records = map session_record [''S1'', ''S2'', ''S3'', ''S4'', ''S5'']"

definition paging_table :: table_client where
  "paging_table =
     \<lparr> tbl_all = (\<lambda>tr formula max_records.
                    Inr (case max_records of
                           None \<Rightarrow> five_records
                         | Some n \<Rightarrow> take (nat n) five_records)),
       tbl_get = (\<lambda>tr record_id. Inr None),
       tbl_create = (\<lambda>tr payload. Inl (PyExc ''Service unavailable'')),
       tbl_update = (\<lambda>tr record_id payload. Inl (PyExc ''Service unavailable'')) \<rparr>"

definition paging_env :: env where
  "paging_env = mk_env None (Some paging_table) True demo_texts"
section \<open>Properties\<close>

lemma startswith_iff: "startswith s p \<longleftrightarrow> (\<exists>b. s = p @ b)"
  by (induction s p rule: startswith.induct) auto

lemma py_in_iff: "py_in p s \<longleftrightarrow> (\<exists>a b. s = a @ p @ b)"
proof (induction s)
  case Nil
  then show ?case by auto
next
  case (Cons c cs)
  show ?case
  proof
    assume "py_in p (c # cs)"
    then consider "startswith (c # cs) p" | "py_in p cs" by auto
    then show "\<exists>a b. c # cs = a @ p @ b"
    proof cases
      case 1
      then obtain b where "c # cs = p @ b" by (auto simp: startswith_iff)
      then have "c # cs = [] @ p @ b" by simp
      then show ?thesis by blast
    next
      case 2
      then obtain a b where "cs = a @ p @ b" using Cons.IH by blast
      then have "c # cs = (c # a) @ p @ b" by simp
      then show ?thesis by blast
    qed
  next
    assume "\<exists>a b. c # cs = a @ p @ b"
    then obtain a b where ab: "c # cs = a @ p @ b" by blast
    show "py_in p (c # cs)"
    proof (cases a)
      case Nil
      with ab have "startswith (c # cs) p" by (auto simp: startswith_iff)
      then show ?thesis by simp
    next
      case (Cons x a')
      with ab have "cs = a' @ p @ b" by simp
      then have "py_in p cs" using Cons.IH by blast
      then show ?thesis by simp
    qed
  qed
qed

lemma map_eq_append3:
  "map f xs = a @ p @ b \<longleftrightarrow>
     (\<exists>a' u b'. xs = a' @ u @ b' \<and> map f a' = a \<and> map f u = p \<and> map f b' = b)"
proof
  assume "map f xs = a @ p @ b"
  then obtain a' r where r: "xs = a' @ r" "a = map f a'" "p @ b = map f r"
    unfolding map_eq_append_conv by blast
  from r(3) obtain u b' where "r = u @ b'" "p = map f u" "b = map f b'"
    unfolding append_eq_map_conv by blast
  with r show "\<exists>a' u b'. xs = a' @ u @ b' \<and> map f a' = a \<and> map f u = p \<and> map f b' = b"
    by blast
next
  assume "\<exists>a' u b'. xs = a' @ u @ b' \<and> map f a' = a \<and> map f u = p \<and> map f b' = b"
  then show "map f xs = a @ p @ b" by auto
qed

lemma lower_char_idem: "lower_char (lower_char c) = lower_char c"
  by (auto simp: lower_char_def ascii_upper_def ascii_lower_def split: option.splits if_splits)

lemma py_lower_idem: "py_lower (py_lower s) = py_lower s"
  by (simp add: py_lower_def lower_char_idem)

lemma py_in_lower_iff:
  "py_lower p = p \<Longrightarrow> py_in p (py_lower text) \<longleftrightarrow> contains_ci text p"
  unfolding py_in_iff contains_ci_def py_lower_def map_eq_append3 by auto


lemma generate_once_eq:
  assumes "groq_client env = Some client"
  shows "generate_content_with_retry env contents 1 wait_ms s =
    (case client (trace s) contents of
       Inr content \<Rightarrow> (Inr (content_or_default content), log_event (LLMCall contents) s)
     | Inl err \<Rightarrow>
         if is_quota_error err then
           (let s2 = log_event (Sleep (retry_delay_ms env wait_ms err)) (log_event (LLMCall contents) s) in
            (case client (trace s2) contents of
               Inr content \<Rightarrow> Inr (content_or_default content)
             | Inl e2 \<Rightarrow> Inl e2, log_event (LLMCall contents) s2))
         else (Inl err, log_event (LLMCall contents) s))"
proof -
  have n: "nat (1 + 1) = Suc (Suc 0)" by simp
  show ?thesis
    unfolding generate_content_with_retry_def n
    using assms
    by (simp add: chat_completions_create_def Let_def split: sum.splits)
qed

lemma retry_delay_ms_ge: "wait_ms \<le> retry_delay_ms env wait_ms err"
  by (simp add: retry_delay_ms_def split: option.splits)

lemma demo_search: "re_search_retry_in ''Rate limit reached, retry in 12.5s'' = Some ''12.5''"
  by code_simp

lemma demo_quota: "is_quota_error (PyExc ''Rate limit reached, retry in 12.5s'')"
  by code_simp


subsection \<open>The resilient write adapter\<close>

lemma strip_removes_one:
  assumes "strip_invalid_airtable_field e p = (True, p')"
  shows "\<exists>f. dict_has f p \<and> p' = dict_pop f p \<and>
     ((py_in marker_unknown (str_exn e) \<and> f = field_after marker_unknown (str_exn e))
      \<or> (py_in marker_computed (str_exn e) \<and> py_in marker_computed_suffix (str_exn e)
           \<and> f = field_after marker_computed (str_exn e))
      \<or> (py_in ''INVALID_MULTIPLE_CHOICE_OPTIONS'' (str_exn e) \<and> f = ''Status''))"
  using assms
  by (simp add: strip_invalid_airtable_field_def Let_def split: if_splits) blast+

lemma strip_keeps: "strip_invalid_airtable_field e p = (False, p') \<Longrightarrow> p' = p"
  by (simp add: strip_invalid_airtable_field_def Let_def split: if_splits)

lemma dict_pop_absent: "\<not> dict_has f p \<Longrightarrow> dict_pop f p = p"
  by (induction p) (auto simp: dict_has_def dict_pop_def)

lemma dict_pop_length:
  "dict_has f p \<Longrightarrow> distinct (map fst p) \<Longrightarrow> length (dict_pop f p) + 1 = length p"
proof (induction p)
  case Nil
  then show ?case by (simp add: dict_has_def)
next
  case (Cons kv p)
  show ?case
  proof (cases "fst kv = f")
    case True
    with Cons.prems have "\<not> dict_has f p" by (auto simp: dict_has_def)
    then have "dict_pop f p = p" by (rule dict_pop_absent)
    with True show ?thesis by (simp add: dict_pop_def)
  next
    case False
    with Cons.prems have "dict_has f p" "distinct (map fst p)" by (auto simp: dict_has_def)
    then have "length (dict_pop f p) + 1 = length p" by (rule Cons.IH)
    with False show ?thesis by (simp add: dict_pop_def)
  qed
qed

lemma dict_pop_other: "k \<noteq> f \<Longrightarrow> map_of (dict_pop f p) k = map_of p k"
  by (induction p) (auto simp: dict_pop_def)

lemma rejections_cons:
  assumes "rejections call p' s1 k q t"
    and "call p s = (Inl e, s1)"
    and "strip_invalid_airtable_field e p = (True, p')"
  shows "rejections call p s (Suc k) q t"
  using assms
proof (induction rule: rejections.induct)
  case none
  have "rejections call p s 0 p s" by (rule rejections.none)
  from this none show ?case by (rule rejections.more)
next
  case (more k q t e' t' q')
  then have "rejections call p s (Suc k) q t" by blast
  from this more.hyps(2,3) show ?case by (rule rejections.more)
qed

lemma rejections_removed:
  "rejections call p s k q t \<Longrightarrow>
     \<exists>fs. length fs = k \<and> distinct fs \<and> set fs \<subseteq> set (map fst p)
          \<and> q = filter (\<lambda>kv. fst kv \<notin> set fs) p"
proof (induction rule: rejections.induct)
  case none
  have "length ([]::string list) = 0 \<and> distinct ([]::string list)
      \<and> set ([]::string list) \<subseteq> set (map fst p) \<and> p = filter (\<lambda>kv. fst kv \<notin> set []) p"
    by simp
  then show ?case by blast
next
  case (more k q t e t' q')
  then obtain fs where fs: "length fs = k" "distinct fs" "set fs \<subseteq> set (map fst p)"
      "q = filter (\<lambda>kv. fst kv \<notin> set fs) p" by blast
  from more.hyps(3) obtain f where f: "dict_has f q" "q' = dict_pop f q"
    using strip_removes_one by blast
  from f(1) fs(4) have fin: "f \<in> set (map fst p)" "f \<notin> set fs"
    by (auto simp: dict_has_def)
  have "q' = filter (\<lambda>kv. fst kv \<notin> set (f # fs)) p"
    unfolding f(2) fs(4) dict_pop_def by (simp add: conj_commute)
  moreover have "length (f # fs) = Suc k" "distinct (f # fs)" "set (f # fs) \<subseteq> set (map fst p)"
    using fs fin by auto
  ultimately show ?case by blast
qed

lemma store_create_effect:
  "store_create env p s = (r, s1) \<Longrightarrow>
     length (trace s1) \<le> length (trace s) + 1 \<and> SESSION_CACHE s1 = SESSION_CACHE s
     \<and> PROVIDER_ISSUES s1 = PROVIDER_ISSUES s"
  by (auto simp: store_create_def log_event_def split: option.splits)

lemma store_update_effect:
  "store_update env rid p s = (r, s1) \<Longrightarrow>
     length (trace s1) \<le> length (trace s) + 1 \<and> SESSION_CACHE s1 = SESSION_CACHE s
     \<and> PROVIDER_ISSUES s1 = PROVIDER_ISSUES s"
  by (auto simp: store_update_def log_event_def split: option.splits)

lemma create_attempts_run:
  "create_attempts env n p s = (r, s') \<Longrightarrow>
     \<exists>k q t. k \<le> n \<and> rejections (store_create env) p s k q t
       \<and> (if k = n
           then r = Inl (PyExc ''Unable to create Airtable record after removing invalid fields.'')
                \<and> s' = t
           else store_create env q t = (r, s')
                \<and> (\<forall>e. r = Inl e \<longrightarrow> strip_invalid_airtable_field e q = (False, q)))"
proof (induction n arbitrary: p s)
  case 0
  then have "r = Inl (PyExc ''Unable to create Airtable record after removing invalid fields.'')"
    "s' = s" by auto
  moreover have "rejections (store_create env) p s 0 p s" by (rule rejections.none)
  ultimately show ?case by force
next
  case (Suc n)
  obtain r1 s1 where c: "store_create env p s = (r1, s1)" by (cases "store_create env p s")
  have z: "rejections (store_create env) p s 0 p s" by (rule rejections.none)
  show ?case
  proof (cases r1)
    case (Inr created)
    with c Suc.prems have "store_create env p s = (r, s')" "\<forall>e. r \<noteq> Inl e" by auto
    with z show ?thesis by force
  next
    case (Inl e)
    obtain b p' where st: "strip_invalid_airtable_field e p = (b, p')"
      by (cases "strip_invalid_airtable_field e p")
    show ?thesis
    proof (cases b)
      case False
      with st have "p' = p" using strip_keeps by simp
      with c Inl st False Suc.prems
      have "store_create env p s = (r, s')"
        "\<forall>e. r = Inl e \<longrightarrow> strip_invalid_airtable_field e p = (False, p)" by auto
      with z show ?thesis by force
    next
      case True
      with c Inl st Suc.prems have "create_attempts env n p' s1 = (r, s')" by simp
      from Suc.IH[OF this] obtain k q t where k: "k \<le> n"
        "rejections (store_create env) p' s1 k q t"
        "if k = n
           then r = Inl (PyExc ''Unable to create Airtable record after removing invalid fields.'')
                \<and> s' = t
           else store_create env q t = (r, s')
                \<and> (\<forall>e. r = Inl e \<longrightarrow> strip_invalid_airtable_field e q = (False, q))"
        by blast
      from True st have st': "strip_invalid_airtable_field e p = (True, p')" by simp
      from k(2) c[unfolded Inl] st'
      have "rejections (store_create env) p s (Suc k) q t" by (rule rejections_cons)
      with k(1,3) show ?thesis by (intro exI[of _ "Suc k"] exI[of _ q] exI[of _ t]) auto
    qed
  qed
qed

lemma update_attempts_run:
  "update_attempts env rid flds n p s = (r, s') \<Longrightarrow>
     \<exists>k q t. k \<le> n \<and> rejections (store_update env rid) p s k q t
       \<and> (if k = n
           then store_update env rid
                  [(''Data'', dict_get_or ''Data'' (JStr ''{}'') flds),
                   (''Status'', dict_get_or ''Status'' (JStr ''Updated'') flds)] t = (r, s')
           else store_update env rid q t = (r, s')
                \<and> (\<forall>e. r = Inl e \<longrightarrow> strip_invalid_airtable_field e q = (False, q)))"
proof (induction n arbitrary: p s)
  case 0
  then have "store_update env rid
                  [(''Data'', dict_get_or ''Data'' (JStr ''{}'') flds),
                   (''Status'', dict_get_or ''Status'' (JStr ''Updated'') flds)] s = (r, s')"
    by simp
  moreover have "rejections (store_update env rid) p s 0 p s" by (rule rejections.none)
  ultimately show ?case by force
next
  case (Suc n)
  obtain r1 s1 where c: "store_update env rid p s = (r1, s1)"
    by (cases "store_update env rid p s")
  have z: "rejections (store_update env rid) p s 0 p s" by (rule rejections.none)
  show ?case
  proof (cases r1)
    case (Inr u)
    with c Suc.prems have "store_update env rid p s = (r, s')" "\<forall>e. r \<noteq> Inl e" by auto
    with z show ?thesis by force
  next
    case (Inl e)
    obtain b p' where st: "strip_invalid_airtable_field e p = (b, p')"
      by (cases "strip_invalid_airtable_field e p")
    show ?thesis
    proof (cases b)
      case False
      with st have "p' = p" using strip_keeps by simp
      with c Inl st False Suc.prems
      have "store_update env rid p s = (r, s')"
        "\<forall>e. r = Inl e \<longrightarrow> strip_invalid_airtable_field e p = (False, p)" by auto
      with z show ?thesis by force
    next
      case True
      with c Inl st Suc.prems have "update_attempts env rid flds n p' s1 = (r, s')" by simp
      from Suc.IH[OF this] obtain k q t where k: "k \<le> n"
        "rejections (store_update env rid) p' s1 k q t"
        "if k = n
           then store_update env rid
                  [(''Data'', dict_get_or ''Data'' (JStr ''{}'') flds),
                   (''Status'', dict_get_or ''Status'' (JStr ''Updated'') flds)] t = (r, s')
           else store_update env rid q t = (r, s')
                \<and> (\<forall>e. r = Inl e \<longrightarrow> strip_invalid_airtable_field e q = (False, q))"
        by blast
      from True st have st': "strip_invalid_airtable_field e p = (True, p')" by simp
      from k(2) c[unfolded Inl] st'
      have "rejections (store_update env rid) p s (Suc k) q t" by (rule rejections_cons)
      with k(1,3) show ?thesis by (intro exI[of _ "Suc k"] exI[of _ q] exI[of _ t]) auto
    qed
  qed
qed

lemma rejections_bound:
  assumes "rejections call p s k q t"
    and "\<And>p s r s1. call p s = (r, s1) \<Longrightarrow> length (trace s1) \<le> length (trace s) + 1"
  shows "length (trace t) \<le> length (trace s) + k"
  using assms
proof (induction rule: rejections.induct)
  case none
  show ?case by simp
next
  case (more k q t e t' q')
  then have "length (trace t) \<le> length (trace s) + k" by blast
  moreover from more.hyps(2) more.prems have "length (trace t') \<le> length (trace t) + 1" by blast
  ultimately show ?case by simp
qed

lemma create_record_resilient_run:
  assumes "create_record_resilient env p s = (r, s')"
  shows "length (trace s') \<le> length (trace s) + 8
     \<and> (\<exists>k q t fs. k \<le> 8 \<and> rejections (store_create env) p s k q t
           \<and> length fs = k \<and> distinct fs \<and> set fs \<subseteq> set (map fst p)
           \<and> q = filter (\<lambda>kv. fst kv \<notin> set fs) p
           \<and> (if k = 8
               then r = Inl (PyExc ''Unable to create Airtable record after removing invalid fields.'')
                    \<and> s' = t
               else store_create env q t = (r, s')
                    \<and> (\<forall>e. r = Inl e \<longrightarrow> strip_invalid_airtable_field e q = (False, q))))"
proof -
  from assms have "create_attempts env 8 p s = (r, s')"
    by (simp add: create_record_resilient_def)
  from create_attempts_run[OF this] obtain k q t where k: "k \<le> 8"
    "rejections (store_create env) p s k q t"
    "if k = 8
     then r = Inl (PyExc ''Unable to create Airtable record after removing invalid fields.'')
          \<and> s' = t
     else store_create env q t = (r, s')
          \<and> (\<forall>e. r = Inl e \<longrightarrow> strip_invalid_airtable_field e q = (False, q))"
    by blast
  from rejections_removed[OF k(2)] obtain fs where fs: "length fs = k" "distinct fs"
    "set fs \<subseteq> set (map fst p)" "q = filter (\<lambda>kv. fst kv \<notin> set fs) p" by blast
  have b: "length (trace t) \<le> length (trace s) + k"
    by (rule rejections_bound[OF k(2)]) (use store_create_effect in blast)
  have "length (trace s') \<le> length (trace s) + 8"
  proof (cases "k = 8")
    case True
    with k(3) b show ?thesis by simp
  next
    case False
    with k(3) have "store_create env q t = (r, s')" by simp
    then have "length (trace s') \<le> length (trace t) + 1" using store_create_effect by blast
    with b k(1) False show ?thesis by simp
  qed
  with k fs show ?thesis by blast
qed

lemma update_record_resilient_run:
  assumes "update_record_resilient env rid p s = (r, s')"
  shows "length (trace s') \<le> length (trace s) + 9
     \<and> (\<exists>k q t fs. k \<le> 8 \<and> rejections (store_update env rid) p s k q t
           \<and> length fs = k \<and> distinct fs \<and> set fs \<subseteq> set (map fst p)
           \<and> q = filter (\<lambda>kv. fst kv \<notin> set fs) p
           \<and> (if k = 8
               then store_update env rid
                      [(''Data'', dict_get_or ''Data'' (JStr ''{}'') p),
                       (''Status'', dict_get_or ''Status'' (JStr ''Updated'') p)] t = (r, s')
               else store_update env rid q t = (r, s')
                    \<and> (\<forall>e. r = Inl e \<longrightarrow> strip_invalid_airtable_field e q = (False, q))))"
proof -
  from assms have "update_attempts env rid p 8 p s = (r, s')"
    by (simp add: update_record_resilient_def)
  from update_attempts_run[OF this] obtain k q t where k: "k \<le> 8"
    "rejections (store_update env rid) p s k q t"
    "if k = 8
     then store_update env rid
            [(''Data'', dict_get_or ''Data'' (JStr ''{}'') p),
             (''Status'', dict_get_or ''Status'' (JStr ''Updated'') p)] t = (r, s')
     else store_update env rid q t = (r, s')
          \<and> (\<forall>e. r = Inl e \<longrightarrow> strip_invalid_airtable_field e q = (False, q))"
    by blast
  from rejections_removed[OF k(2)] obtain fs where fs: "length fs = k" "distinct fs"
    "set fs \<subseteq> set (map fst p)" "q = filter (\<lambda>kv. fst kv \<notin> set fs) p" by blast
  have b: "length (trace t) \<le> length (trace s) + k"
    by (rule rejections_bound[OF k(2)]) (use store_update_effect in blast)
  obtain w where "store_update env rid w t = (r, s')"
    using k(3) by (cases "k = 8") auto
  then have "length (trace s') \<le> length (trace t) + 1"
    using store_update_effect by blast
  with b k(1) have "length (trace s') \<le> length (trace s) + 9" by simp
  with k fs show ?thesis by blast
qed

lemma refusing_strip:
  "strip_invalid_airtable_field (refuse_first ten_fields) ten_fields = (True, tl ten_fields)"
  by code_simp

lemma refusing_create_result:
  "fst (create_record_resilient (mk_env None (Some refusing_table) True []) ten_fields empty_state)
     = Inl (PyExc ''Unable to create Airtable record after removing invalid fields.'')"
  by code_simp

lemma refusing_update_last:
  "last (trace (snd (update_record_resilient (mk_env None (Some refusing_table) True []) ''rec1''
      ten_fields empty_state)))
     = TableUpdate ''rec1'' [(''Data'', JStr ''json''), (''Status'', JStr ''Initialized'')]"
  by code_simp



subsection \<open>Session resolution\<close>

lemma bind_e_Inl [simp]: "bind_e (Inl e) f = Inl e"
  by (simp add: bind_e_def)

lemma bind_e_Inr [simp]: "bind_e (Inr x) f = f x"
  by (simp add: bind_e_def)

lemma bind_s_Inl [simp]: "bind_s (Inl e, s) f = (Inl e, s)"
  by (simp add: bind_s_def)

lemma bind_s_Inr [simp]: "bind_s (Inr x, s) f = f x s"
  by (simp add: bind_s_def)

lemma cache_get_None_iff:
  "cache_get session_id user_id s = None \<longleftrightarrow>
     (\<forall>item. SESSION_CACHE s session_id = Some item \<longrightarrow> c_user_id item \<noteq> user_id)"
  by (auto simp: cache_get_def split: option.splits)

lemma find_session_record_unresolved:
  assumes "table env = None
       \<or> (\<exists>tbl. table env = Some tbl
             \<and> tbl_all tbl (trace s)
                 (build_session_formula (escape_formula session_id) (escape_formula user_id))
                 (Some 1) = Inr []
             \<and> (\<forall>r. tbl_get tbl
                      (trace s @ [TableAll (build_session_formula (escape_formula session_id)
                                    (escape_formula user_id)) (Some 1)]) session_id = Inr (Some r)
                    \<longrightarrow> dict_get ''User ID'' (rec_fields r) \<noteq> JStr user_id))"
  shows "\<exists>s'. find_session_record env session_id user_id s = (Inr None, s')
            \<and> SESSION_CACHE s' = SESSION_CACHE s \<and> PROVIDER_ISSUES s' = PROVIDER_ISSUES s"
  using assms
proof
  assume "table env = None"
  then show ?thesis by (simp add: find_session_record_def)
next
  assume "\<exists>tbl. table env = Some tbl
             \<and> tbl_all tbl (trace s)
                 (build_session_formula (escape_formula session_id) (escape_formula user_id))
                 (Some 1) = Inr []
             \<and> (\<forall>r. tbl_get tbl
                      (trace s @ [TableAll (build_session_formula (escape_formula session_id)
                                    (escape_formula user_id)) (Some 1)]) session_id = Inr (Some r)
                    \<longrightarrow> dict_get ''User ID'' (rec_fields r) \<noteq> JStr user_id)"
  then obtain tbl where t: "table env = Some tbl"
    "tbl_all tbl (trace s)
        (build_session_formula (escape_formula session_id) (escape_formula user_id))
        (Some 1) = Inr []"
    "\<forall>r. tbl_get tbl
            (trace s @ [TableAll (build_session_formula (escape_formula session_id)
                          (escape_formula user_id)) (Some 1)]) session_id = Inr (Some r)
          \<longrightarrow> dict_get ''User ID'' (rec_fields r) \<noteq> JStr user_id"
    by blast
  show ?thesis
    using t
    by (cases "tbl_get tbl
            (trace s @ [TableAll (build_session_formula (escape_formula session_id)
                          (escape_formula user_id)) (Some 1)]) session_id")
       (auto simp: find_session_record_def store_all_def store_get_def log_event_def
             split: option.splits)
qed

text \<open>
  C8. A refine request that passes the configuration and the token check, for a session
  identifier that none of the three steps resolves (the cache has no entry for it that
  belongs to the user; the lookup by session id and user id finds no record; the lookup
  by record id fails, finds nothing, or finds a record of another user; or no store is
  configured at all), is answered with the 404 \<open>Session not found.\<close>
\<close>

theorem refine_unknown_session_not_found:
  assumes "require_genai env = None"
    and "resolve_user_id env request = Inr user_id"
    and "\<forall>item. SESSION_CACHE s sessionId = Some item \<longrightarrow> c_user_id item \<noteq> user_id"
    and "table env = None
       \<or> (\<exists>tbl. table env = Some tbl
             \<and> tbl_all tbl (trace s)
                 (build_session_formula (escape_formula sessionId) (escape_formula user_id))
                 (Some 1) = Inr []
             \<and> (\<forall>r. tbl_get tbl
                      (trace s @ [TableAll (build_session_formula (escape_formula sessionId)
                                    (escape_formula user_id)) (Some 1)]) sessionId = Inr (Some r)
                    \<longrightarrow> dict_get ''User ID'' (rec_fields r) \<noteq> JStr user_id))"
  shows "fst (refine_research env request sessionId subtopic s)
           = Inl (HTTPException 404 ''Session not found.'')"
proof -
  from assms(3) have c: "cache_get sessionId user_id s = None"
    by (simp add: cache_get_None_iff)
  from find_session_record_unresolved[OF assms(4)] obtain s'
    where f: "find_session_record env sessionId user_id s = (Inr None, s')" by blast
  show ?thesis
    by (simp add: refine_research_def assms(1,2) refine_body_def c f Let_def
        session_data_of_def session_not_found_def body_failed_def)
qed

theorem refine_unknown_session_not_found_witness:
  "require_genai (mk_env (Some limited_once) (Some refusing_table) True []) = None
   \<and> resolve_user_id (mk_env (Some limited_once) (Some refusing_table) True [])
        \<lparr>authorization = []\<rparr> = Inr ''local-dev''
   \<and> SESSION_CACHE empty_state ''SESS-0000'' = None
   \<and> table (mk_env (Some limited_once) (Some refusing_table) True []) = Some refusing_table
   \<and> tbl_all refusing_table []
        (build_session_formula (escape_formula ''SESS-0000'') (escape_formula ''local-dev''))
        (Some 1) = Inr []
   \<and> fst (refine_research (mk_env (Some limited_once) (Some refusing_table) True [])
             \<lparr>authorization = []\<rparr> ''SESS-0000'' ''Core Concepts'' empty_state)
       = Inl (HTTPException 404 ''Session not found.'')"
proof -
  let ?env = "mk_env (Some limited_once) (Some refusing_table) True []"
  have g: "require_genai ?env = None" by (simp add: require_genai_def mk_env_def)
  have u: "resolve_user_id ?env \<lparr>authorization = []\<rparr> = Inr ''local-dev''"
    by (simp add: resolve_user_id_def mk_env_def)
  have c: "\<forall>item. SESSION_CACHE empty_state ''SESS-0000'' = Some item
             \<longrightarrow> c_user_id item \<noteq> ''local-dev''"
    by (simp add: empty_state_def)
  have t: "table ?env = Some refusing_table" by (simp add: mk_env_def)
  have a: "tbl_all refusing_table (trace empty_state)
        (build_session_formula (escape_formula ''SESS-0000'') (escape_formula ''local-dev''))
        (Some 1) = Inr []" by (simp add: refusing_table_def)
  have b: "\<forall>r. tbl_get refusing_table
                 (trace empty_state @ [TableAll (build_session_formula (escape_formula ''SESS-0000'')
                    (escape_formula ''local-dev'')) (Some 1)]) ''SESS-0000'' = Inr (Some r)
               \<longrightarrow> dict_get ''User ID'' (rec_fields r) \<noteq> JStr ''local-dev''"
    by (simp add: refusing_table_def)
  from t a b have d: "table ?env = None
       \<or> (\<exists>tbl. table ?env = Some tbl
             \<and> tbl_all tbl (trace empty_state)
                 (build_session_formula (escape_formula ''SESS-0000'') (escape_formula ''local-dev''))
                 (Some 1) = Inr []
             \<and> (\<forall>r. tbl_get tbl
                      (trace empty_state @ [TableAll (build_session_formula (escape_formula ''SESS-0000'')
                                    (escape_formula ''local-dev'')) (Some 1)]) ''SESS-0000'' = Inr (Some r)
                    \<longrightarrow> dict_get ''User ID'' (rec_fields r) \<noteq> JStr ''local-dev''))"
    by blast
  from refine_unknown_session_not_found[OF g u c d, of "''Core Concepts''"] g u t a
  show ?thesis by (simp add: empty_state_def)
qed
subsection \<open>Reading a session from the cache\<close>

lemma map_e_model_validate:
  "those (map v xs) = Some ys \<Longrightarrow> map_e (model_validate env m v) xs = Inr ys"
proof (induction xs arbitrary: ys)
  case Nil
  then show ?case by simp
next
  case (Cons x xs)
  from Cons.prems obtain y ys' where y: "v x = Some y" "those (map v xs) = Some ys'" "ys = y # ys'"
    by (auto split: option.splits)
  from Cons.IH[OF y(2)] y(1,3) show ?case by (simp add: model_validate_def)
qed

lemma session_detail_valid:
  assumes "validate_ResearchOutline (d_outline data) = Some outline"
    and "d_refinements data = JArr xs"
    and "those (map validate_RefinementEntry xs) = Some refinements"
    and "d_summary data = JStr summary"
    and "str_list (d_tags data) = Some tags"
  shows "session_detail env (JStr session_id) (JStr created_at) data =
     Inr \<lparr> sd_sessionId = session_id, sd_outline = outline, sd_createdAt = Some created_at,
            sd_refinements = refinements,
            sd_summary = (if summary = [] then None else Some summary), sd_tags = tags \<rparr>"
  using assms map_e_model_validate[OF assms(3)]
  by (simp add: session_detail_def model_validate_def py_iter_def as_str_def optional_str_def)

lemma store_all_cache:
  "store_all env f m (s\<lparr>SESSION_CACHE := c\<rparr>) =
     (fst (store_all env f m s), (snd (store_all env f m s))\<lparr>SESSION_CACHE := c\<rparr>)"
  by (simp add: store_all_def log_event_def split: option.splits)

lemma store_get_cache:
  "store_get env i (s\<lparr>SESSION_CACHE := c\<rparr>) =
     (fst (store_get env i s), (snd (store_get env i s))\<lparr>SESSION_CACHE := c\<rparr>)"
  by (simp add: store_get_def log_event_def split: option.splits)

lemma find_session_record_cache:
  "find_session_record env a b (s\<lparr>SESSION_CACHE := c\<rparr>) =
     (fst (find_session_record env a b s), (snd (find_session_record env a b s))\<lparr>SESSION_CACHE := c\<rparr>)"
  by (simp add: find_session_record_def store_all_def store_get_def log_event_def
      split: option.splits sum.splits list.splits)

lemma find_session_record_trace:
  "table env = Some tbl \<Longrightarrow>
     \<exists>rest. trace (snd (find_session_record env a b s)) =
       trace s @ TableAll (build_session_formula (escape_formula a) (escape_formula b)) (Some 1) # rest"
  by (simp add: find_session_record_def store_all_def store_get_def log_event_def
      split: option.splits sum.splits list.splits)

lemma get_session_fst:
  "resolve_user_id env request = Inr user_id \<Longrightarrow>
     fst (get_session env session_id request s) =
       (case fst (get_session_body env session_id user_id s) of
          Inr response \<Rightarrow> Inr response
        | Inl (HTTPException status_code detail) \<Rightarrow> Inl (HTTPException status_code detail)
        | Inl (PyExc text) \<Rightarrow> Inl (HTTPException 500 (''Failed to fetch session: '' @ text)))"
  by (cases "get_session_body env session_id user_id s")
     (simp add: get_session_def split: sum.splits exn.splits)

lemma get_session_snd:
  "resolve_user_id env request = Inr user_id \<Longrightarrow>
     snd (get_session env session_id request s) = snd (get_session_body env session_id user_id s)"
  by (cases "get_session_body env session_id user_id s")
     (simp add: get_session_def split: sum.splits exn.splits)

lemma get_session_body_miss:
  "cache_get session_id user_id s = None \<Longrightarrow>
     fst (get_session_body env session_id user_id s) =
       (case require_table env of
          Some e \<Rightarrow> Inl e
        | None \<Rightarrow> (case fst (find_session_record env session_id user_id s) of
                     Inl e \<Rightarrow> Inl e
                   | Inr found \<Rightarrow> record_detail env found))
     \<and> snd (get_session_body env session_id user_id s) =
       (case require_table env of
          Some e \<Rightarrow> s
        | None \<Rightarrow> snd (find_session_record env session_id user_id s))"
  by (cases "find_session_record env session_id user_id s")
     (simp add: get_session_body_def bind_s_def split: option.splits sum.splits)

text \<open>
  C10. For a session-detail request of a resolved user: when the cache holds an entry for
  the session id that belongs to the user, the handler does nothing to the outside (the
  state, and with it the trace of store calls, is as before), whether a store is
  configured or not, and it returns the cached outline, refinements, summary (none when
  empty) and tags, for cached data that is a well-formed session. When the entry belongs
  to another user, the answer is the one for a cache without the entry: without a store
  the 503, with a store a lookup in the store comes first.
\<close>

theorem get_session_cache_first:
  assumes "resolve_user_id env request = Inr user_id"
  shows "(SESSION_CACHE s session_id = Some item \<and> c_user_id item = user_id \<longrightarrow>
            snd (get_session env session_id request s) = s
          \<and> (validate_ResearchOutline (d_outline (c_data item)) = Some outline
             \<and> d_refinements (c_data item) = JArr xs
             \<and> those (map validate_RefinementEntry xs) = Some refinements
             \<and> d_summary (c_data item) = JStr summary
             \<and> str_list (d_tags (c_data item)) = Some tags \<longrightarrow>
               fst (get_session env session_id request s) =
                 Inr \<lparr> sd_sessionId = session_id, sd_outline = outline,
                        sd_createdAt = Some (c_created_at item), sd_refinements = refinements,
                        sd_summary = (if summary = [] then None else Some summary),
                        sd_tags = tags \<rparr>))
     \<and> (SESSION_CACHE s2 session_id2 = Some item2 \<and> c_user_id item2 \<noteq> user_id \<longrightarrow>
            fst (get_session env session_id2 request s2) =
              fst (get_session env session_id2 request
                     (s2\<lparr>SESSION_CACHE := (SESSION_CACHE s2)(session_id2 := None)\<rparr>))
          \<and> (table env = None \<longrightarrow>
                get_session env session_id2 request s2 = (Inl not_configured, s2))
          \<and> (\<forall>tbl. table env = Some tbl \<longrightarrow>
                (\<exists>rest. trace (snd (get_session env session_id2 request s2)) =
                   trace s2 @ TableAll (build_session_formula (escape_formula session_id2)
                                          (escape_formula user_id)) (Some 1) # rest)))"
proof (intro conjI impI allI)
  assume h: "SESSION_CACHE s session_id = Some item \<and> c_user_id item = user_id"
  then have c: "cache_get session_id user_id s = Some item" by (simp add: cache_get_def)
  show "snd (get_session env session_id request s) = s"
    by (simp add: get_session_snd[OF assms] get_session_body_def c)
  assume v: "validate_ResearchOutline (d_outline (c_data item)) = Some outline
             \<and> d_refinements (c_data item) = JArr xs
             \<and> those (map validate_RefinementEntry xs) = Some refinements
             \<and> d_summary (c_data item) = JStr summary
             \<and> str_list (d_tags (c_data item)) = Some tags"
  then have "session_detail env (JStr session_id) (JStr (c_created_at item)) (c_data item) =
     Inr \<lparr> sd_sessionId = session_id, sd_outline = outline,
            sd_createdAt = Some (c_created_at item), sd_refinements = refinements,
            sd_summary = (if summary = [] then None else Some summary), sd_tags = tags \<rparr>"
    by (intro session_detail_valid) auto
  then show "fst (get_session env session_id request s) =
                 Inr \<lparr> sd_sessionId = session_id, sd_outline = outline,
                        sd_createdAt = Some (c_created_at item), sd_refinements = refinements,
                        sd_summary = (if summary = [] then None else Some summary),
                        sd_tags = tags \<rparr>"
    by (simp add: get_session_def assms get_session_body_def c)
next
  assume h: "SESSION_CACHE s2 session_id2 = Some item2 \<and> c_user_id item2 \<noteq> user_id"
  then have c: "cache_get session_id2 user_id s2 = None" by (simp add: cache_get_def)
  have c0: "cache_get session_id2 user_id
              (s2\<lparr>SESSION_CACHE := (SESSION_CACHE s2)(session_id2 := None)\<rparr>) = None"
    by (simp add: cache_get_def)
  show "fst (get_session env session_id2 request s2) =
              fst (get_session env session_id2 request
                     (s2\<lparr>SESSION_CACHE := (SESSION_CACHE s2)(session_id2 := None)\<rparr>))"
  proof -
    have e: "fst (find_session_record env session_id2 user_id
                    (s2\<lparr>SESSION_CACHE := (SESSION_CACHE s2)(session_id2 := None)\<rparr>))
               = fst (find_session_record env session_id2 user_id s2)"
      by (simp add: find_session_record_cache)
    have "fst (get_session_body env session_id2 user_id
                 (s2\<lparr>SESSION_CACHE := (SESSION_CACHE s2)(session_id2 := None)\<rparr>))
            = fst (get_session_body env session_id2 user_id s2)"
      unfolding conjunct1[OF get_session_body_miss[OF c]]
        conjunct1[OF get_session_body_miss[OF c0]] e ..
    then show ?thesis by (simp add: get_session_fst[OF assms])
  qed
  {
    assume "table env = None"
    then have "get_session_body env session_id2 user_id s2 = (Inl not_configured, s2)"
      by (simp add: get_session_body_def c require_table_def)
    then show "get_session env session_id2 request s2 = (Inl not_configured, s2)"
      by (simp add: get_session_def assms not_configured_def)
  }
  {
    fix tbl assume t: "table env = Some tbl"
    from find_session_record_trace[OF t, of session_id2 user_id s2]
    obtain rest where r: "trace (snd (find_session_record env session_id2 user_id s2)) =
       trace s2 @ TableAll (build_session_formula (escape_formula session_id2)
                              (escape_formula user_id)) (Some 1) # rest" by blast
    have "snd (get_session env session_id2 request s2)
            = snd (find_session_record env session_id2 user_id s2)"
      by (simp add: get_session_snd[OF assms] get_session_body_miss c require_table_def t)
    with r show "\<exists>rest. trace (snd (get_session env session_id2 request s2)) =
                   trace s2 @ TableAll (build_session_formula (escape_formula session_id2)
                                          (escape_formula user_id)) (Some 1) # rest"
      by auto
  }
qed

lemma demo_outline_valid:
  "validate_ResearchOutline demo_outline =
     Some \<lparr> o_title = ''Graph Databases'', o_description = ''Stores built on nodes and edges.'',
            o_subTopics = [\<lparr> st_id = ''1'', st_title = ''Core Concepts'',
                             st_description = ''Nodes and edges.'' \<rparr>] \<rparr>"
  by (simp add: demo_outline_def validate_ResearchOutline_def validate_SubTopic_def
      field_str_def fallback_subtopic_def)

lemma demo_refinements_valid:
  "those (map validate_RefinementEntry
       [JObj [(''subtopic'', JStr ''Core Concepts''), (''insight'', JStr ''Edges are first class.''),
              (''createdAt'', JStr ''2025-01-02T00:00:00+00:00'')]]) =
     Some [\<lparr> re_subtopic = ''Core Concepts'', re_insight = ''Edges are first class.'',
              re_createdAt = Some ''2025-01-02T00:00:00+00:00'' \<rparr>]"
  by (simp add: validate_RefinementEntry_def field_str_def optional_str_def dict_get_def)

theorem get_session_cache_first_witness:
  "resolve_user_id (mk_env None None True []) \<lparr>authorization = []\<rparr> = Inr ''local-dev''
   \<and> table (mk_env None None True []) = None
   \<and> SESSION_CACHE (cached_state ''local-dev'') ''SESS-1'' =
        Some \<lparr> c_user_id = ''local-dev'', c_created_at = ''2025-01-01T00:00:00+00:00'',
               c_data = demo_data \<rparr>
   \<and> SESSION_CACHE (cached_state ''someone-else'') ''SESS-1'' =
        Some \<lparr> c_user_id = ''someone-else'', c_created_at = ''2025-01-01T00:00:00+00:00'',
               c_data = demo_data \<rparr>
   \<and> snd (get_session (mk_env None None True []) ''SESS-1'' \<lparr>authorization = []\<rparr>
             (cached_state ''local-dev'')) = cached_state ''local-dev''
   \<and> fst (get_session (mk_env None None True []) ''SESS-1'' \<lparr>authorization = []\<rparr>
             (cached_state ''local-dev'')) =
        Inr \<lparr> sd_sessionId = ''SESS-1'',
               sd_outline = \<lparr> o_title = ''Graph Databases'',
                               o_description = ''Stores built on nodes and edges.'',
                               o_subTopics = [\<lparr> st_id = ''1'', st_title = ''Core Concepts'',
                                                st_description = ''Nodes and edges.'' \<rparr>] \<rparr>,
               sd_createdAt = Some ''2025-01-01T00:00:00+00:00'',
               sd_refinements = [\<lparr> re_subtopic = ''Core Concepts'',
                                    re_insight = ''Edges are first class.'',
                                    re_createdAt = Some ''2025-01-02T00:00:00+00:00'' \<rparr>],
               sd_summary = Some ''A summary.'',
               sd_tags = [''Graphs'', ''Storage''] \<rparr>
   \<and> get_session (mk_env None None True []) ''SESS-1'' \<lparr>authorization = []\<rparr>
         (cached_state ''someone-else'') = (Inl not_configured, cached_state ''someone-else'')"
proof -
  let ?env = "mk_env None None True []"
  let ?req = "\<lparr>authorization = []\<rparr>"
  have u: "resolve_user_id ?env ?req = Inr ''local-dev''"
    by (simp add: resolve_user_id_def mk_env_def)
  have t: "table ?env = None" by (simp add: mk_env_def)
  have tags: "str_list (JArr [JStr ''Graphs'', JStr ''Storage'']) = Some [''Graphs'', ''Storage'']"
    by (simp add: str_list_def as_str_def)
  from get_session_cache_first[OF u,
      of "cached_state ''local-dev''" "''SESS-1''"
         "\<lparr> c_user_id = ''local-dev'', c_created_at = ''2025-01-01T00:00:00+00:00'',
            c_data = demo_data \<rparr>"
         "\<lparr> o_title = ''Graph Databases'', o_description = ''Stores built on nodes and edges.'',
            o_subTopics = [\<lparr> st_id = ''1'', st_title = ''Core Concepts'',
                             st_description = ''Nodes and edges.'' \<rparr>] \<rparr>"
         "[JObj [(''subtopic'', JStr ''Core Concepts''), (''insight'', JStr ''Edges are first class.''),
                 (''createdAt'', JStr ''2025-01-02T00:00:00+00:00'')]]"
         "[\<lparr> re_subtopic = ''Core Concepts'', re_insight = ''Edges are first class.'',
              re_createdAt = Some ''2025-01-02T00:00:00+00:00'' \<rparr>]"
         "''A summary.''" "[''Graphs'', ''Storage'']"
         "cached_state ''someone-else''" "''SESS-1''"
         "\<lparr> c_user_id = ''someone-else'', c_created_at = ''2025-01-01T00:00:00+00:00'',
            c_data = demo_data \<rparr>"]
    u t demo_outline_valid demo_refinements_valid tags
  show ?thesis
    by (simp add: cached_state_def empty_state_def demo_data_def)
qed
subsection \<open>Starting a session when the quota is exhausted\<close>

lemma length_title_from: "length (title_from b s) = length s"
  by (induction s arbitrary: b) auto

lemma py_title_nonempty: "s \<noteq> [] \<Longrightarrow> py_title s \<noteq> []"
  using length_title_from[of False s] by (auto simp: py_title_def)

lemma fallback_base_nonempty: "fallback_base topic \<noteq> []"
  by (simp add: fallback_base_def)

lemma fallback_outline_valid:
  "validate_ResearchOutline (fallback_outline topic) =
     Some \<lparr> o_title = py_title (fallback_base topic),
            o_description =
              ''This is a fallback outline generated locally because LLM quota is currently exhausted. ''
              @ ''It still provides a structured map so you can continue your workflow.'',
            o_subTopics =
              [\<lparr> st_id = ''1'', st_title = ''Core Concepts'',
                  st_description = ''Define the foundations of '' @ fallback_base topic @ ''.'' \<rparr>,
               \<lparr> st_id = ''2'', st_title = ''Current Landscape'',
                  st_description = ''Understand where '' @ fallback_base topic @ '' stands today.'' \<rparr>,
               \<lparr> st_id = ''3'', st_title = ''Practical Applications'',
                  st_description = ''Identify real-world uses of '' @ fallback_base topic @ ''.'' \<rparr>,
               \<lparr> st_id = ''4'', st_title = ''Risks and Constraints'',
                  st_description = ''Analyze challenges and limits in '' @ fallback_base topic @ ''.'' \<rparr>,
               \<lparr> st_id = ''5'', st_title = ''Future Outlook'',
                  st_description = ''Explore likely next developments in '' @ fallback_base topic @ ''.'' \<rparr>] \<rparr>"
  by (simp add: fallback_outline_def Let_def validate_ResearchOutline_def
      validate_SubTopic_def field_str_def fallback_subtopic_def)

lemma digits_of_429: "digits_of 429 = ''429''"
  by code_simp

lemma str_exn_429: "py_in ''429'' (str_exn (HTTPException 429 detail))"
  by (simp add: digits_of_429)

lemma start_research_quota:
  assumes "require_genai env = None"
    and "resolve_user_id env request = Inr user_id"
    and "generate_content_with_retry env
           (SYSTEM_PROMPT env @ newline @ newline @ ''USER TOPIC: '' @ topic) 1 10000 s
         = (Inl llm_error, s1)"
    and "is_quota_error llm_error"
  shows "ENABLE_FALLBACK_ON_QUOTA env \<Longrightarrow>
           \<exists>outline. validate_ResearchOutline (fallback_outline topic) = Some outline
             \<and> fst (start_research env request topic s) =
                 Inr \<lparr> r_sessionId =
                          fst (start_store_stage env user_id topic (fallback_outline topic)
                                 \<lparr> d_outline = fallback_outline topic, d_refinements = JArr [],
                                    d_summary = JStr [], d_tags = JArr [] \<rparr>
                                 (generated_session_id env
                                    (set_provider_issue env ''llm'' ''quota'' (str_exn llm_error) s1))
                                 (set_provider_issue env ''llm'' ''quota'' (str_exn llm_error) s1)),
                        r_outline = outline, r_createdAt = None, r_tags = [], r_progress = 50 \<rparr>"
    and "\<not> ENABLE_FALLBACK_ON_QUOTA env \<Longrightarrow>
           fst (start_research env request topic s) =
             Inl (HTTPException 429
                    ''LLM API quota exhausted. Add billing/key or use fallback mode.'')"
proof -
  have t: "start_llm_try env topic s = (Inl llm_error, s1)"
    unfolding start_llm_try_def assms(3) by simp
  {
    assume f: "ENABLE_FALLBACK_ON_QUOTA env"
    have st: "start_llm_stage env topic s =
        (Inr (fallback_outline topic),
         set_provider_issue env ''llm'' ''quota'' (str_exn llm_error) s1)"
      by (simp add: start_llm_stage_def t assms(4) f)
    show "\<exists>outline. validate_ResearchOutline (fallback_outline topic) = Some outline
             \<and> fst (start_research env request topic s) =
                 Inr \<lparr> r_sessionId =
                          fst (start_store_stage env user_id topic (fallback_outline topic)
                                 \<lparr> d_outline = fallback_outline topic, d_refinements = JArr [],
                                    d_summary = JStr [], d_tags = JArr [] \<rparr>
                                 (generated_session_id env
                                    (set_provider_issue env ''llm'' ''quota'' (str_exn llm_error) s1))
                                 (set_provider_issue env ''llm'' ''quota'' (str_exn llm_error) s1)),
                        r_outline = outline, r_createdAt = None, r_tags = [], r_progress = 50 \<rparr>"
      by (simp add: start_research_def assms(1,2) st start_session_stage_def Let_def
          model_validate_def fallback_outline_valid set_provider_issue_def
          split: prod.splits)
  }
  {
    assume f: "\<not> ENABLE_FALLBACK_ON_QUOTA env"
    have st: "start_llm_stage env topic s =
        (Inl (HTTPException 429
                (''LLM quota exhausted. Add billing or a new API key, or enable fallback mode ''
                 @ ''with ENABLE_FALLBACK_ON_QUOTA=true.'')),
         set_provider_issue env ''llm'' ''quota'' (str_exn llm_error) s1)"
      by (simp add: start_llm_stage_def t assms(4) f llm_failed_def)
    show "fst (start_research env request topic s) =
             Inl (HTTPException 429
                    ''LLM API quota exhausted. Add billing/key or use fallback mode.'')"
      unfolding start_research_def
      by (simp add: assms(1,2) st start_failed_def Let_def digits_of_429)
  }
qed


lemma always_limited_quota: "is_quota_error (PyExc ''Error code: 429 - Too Many Requests'')"
  by code_simp

lemma always_limited_search:
  "re_search_retry_in ''Error code: 429 - Too Many Requests'' = None"
  by code_simp

lemma always_limited_generate:
  "generate_content_with_retry (mk_env (Some always_limited) None fallback []) contents 1 10000
     empty_state
   = (Inl (PyExc ''Error code: 429 - Too Many Requests''),
      empty_state\<lparr>trace := [LLMCall contents, Sleep 10000, LLMCall contents]\<rparr>)"
proof -
  have c: "groq_client (mk_env (Some always_limited) None fallback []) = Some always_limited"
    by (simp add: mk_env_def)
  have d: "retry_delay_ms (mk_env (Some always_limited) None fallback []) 10000
             (PyExc ''Error code: 429 - Too Many Requests'') = 10000"
    unfolding retry_delay_ms_def str_exn.simps always_limited_search by simp
  show ?thesis
    unfolding generate_once_eq[OF c]
    by (simp add: always_limited_def always_limited_quota d log_event_def empty_state_def)
qed

lemma title_graph_databases: "py_title (fallback_base ''graph databases'') = ''Graph Databases''"
  by code_simp

subsection \<open>A failing write to the store\<close>

lemma start_write_failure:
  assumes "require_genai env = None"
    and "resolve_user_id env request = Inr user_id"
    and "start_llm_stage env topic s = (Inr raw_data, s1)"
    and "table env = Some tbl"
    and "validate_ResearchOutline raw_data = Some outline"
    and "start_create_fields env (generated_session_id env s1) user_id topic raw_data
           \<lparr> d_outline = raw_data, d_refinements = JArr [], d_summary = JStr [],
              d_tags = JArr [] \<rparr> = Inr flds"
    and "create_record_resilient env flds s1 = (Inl ae, s2)"
  shows "start_research env request topic s =
    (Inr \<lparr> r_sessionId = generated_session_id env s1, r_outline = outline,
            r_createdAt = None, r_tags = [], r_progress = 50 \<rparr>,
     cache_put env (generated_session_id env s1) user_id
       \<lparr> d_outline = raw_data, d_refinements = JArr [], d_summary = JStr [], d_tags = JArr [] \<rparr>
       None (airtable_write_failed env ae s2))"
proof -
  have st: "start_store_stage env user_id topic raw_data
       \<lparr> d_outline = raw_data, d_refinements = JArr [], d_summary = JStr [], d_tags = JArr [] \<rparr>
       (generated_session_id env s1) s1
     = (generated_session_id env s1, airtable_write_failed env ae s2)"
    unfolding start_store_stage_def assms(6) by (simp add: assms(4,7))
  have ss: "start_session_stage env user_id topic raw_data s1 =
    (Inr \<lparr> r_sessionId = generated_session_id env s1, r_outline = outline,
            r_createdAt = None, r_tags = [], r_progress = 50 \<rparr>,
     cache_put env (generated_session_id env s1) user_id
       \<lparr> d_outline = raw_data, d_refinements = JArr [], d_summary = JStr [], d_tags = JArr [] \<rparr>
       None (airtable_write_failed env ae s2))"
    unfolding start_session_stage_def Let_def st
    by (simp add: assms(5) model_validate_def)
  show ?thesis
    unfolding start_research_def by (simp add: assms(1,2,3) ss)
qed

lemma airtable_write_failed_issue:
  "PROVIDER_ISSUES (cache_put env sid uid data created (airtable_write_failed env ae s)) ''airtable''
     = Some \<lparr> i_kind = ''write_error'', i_message = take 300 (str_exn ae),
              i_updatedAt = now_iso env (trace s) \<rparr>"
  by (simp add: cache_put_def airtable_write_failed_def log_event_def set_provider_issue_def)

lemma refine_write_failure:
  assumes "require_genai env = None"
    and "resolve_user_id env request = Inr user_id"
    and "find_session_record env sessionId user_id s = (Inr (Some r), s1)"
    and "session_data_of env (cache_get sessionId user_id s) (Some r) = Inr data"
    and "refine_llm_stage env (d_outline data) subtopic s1 = (Inr insight, s2)"
    and "insight \<noteq> []"
    and "append_refinement env (d_refinements data)
           (JObj [(''subtopic'', JStr subtopic), (''insight'', JStr insight),
                  (''createdAt'', JStr (now_iso env (trace s2)))]) = Inr refinements"
    and "refine_update_fields env (data\<lparr>d_refinements := refinements\<rparr>) (d_outline data)
           subtopic insight = Inr flds"
    and "update_record_resilient env (rec_id r) flds
           (cache_put env sessionId user_id (data\<lparr>d_refinements := refinements\<rparr>)
              (map_option c_created_at (cache_get sessionId user_id s)) s2) = (Inl ae, s4)"
  shows "refine_research env request sessionId subtopic s = body_failed env ''refine'' ae s4"
  unfolding refine_research_def refine_body_def Let_def
  by (simp add: assms write_back_def)

lemma finalize_write_failure:
  assumes "require_genai env = None"
    and "resolve_user_id env request = Inr user_id"
    and "find_session_record env sessionId user_id s = (Inr (Some r), s1)"
    and "session_data_of env (cache_get sessionId user_id s) (Some r) = Inr data"
    and "finalize_findings env (d_outline data) (d_refinements data) = Inr findings_text"
    and "finalize_llm_stage env (d_outline data) (d_refinements data) findings_text s1
           = (Inr (summary, tags), s2)"
    and "summary \<noteq> []"
    and "final_tags env (d_outline data) request_tags tags = Inr chosen"
    and "dict_fromkeys env chosen = Inr stored"
    and "finalize_update_fields env (data\<lparr>d_summary := JStr summary, d_tags := JArr stored\<rparr>)
           (d_outline data) summary = Inr flds"
    and "update_record_resilient env (rec_id r) flds
           (cache_put env sessionId user_id
              (data\<lparr>d_summary := JStr summary, d_tags := JArr stored\<rparr>)
              (map_option c_created_at (cache_get sessionId user_id s)) s2) = (Inl ae, s4)"
  shows "finalize_research env request sessionId request_tags s
           = body_failed env ''finalize'' ae s4"
  unfolding finalize_research_def finalize_body_def Let_def
  by (simp add: assms write_back_def)

lemma rejections_untouched:
  assumes "rejections call p s k q t"
    and "\<And>p s r s1. call p s = (r, s1) \<Longrightarrow>
           SESSION_CACHE s1 = SESSION_CACHE s \<and> PROVIDER_ISSUES s1 = PROVIDER_ISSUES s"
  shows "SESSION_CACHE t = SESSION_CACHE s \<and> PROVIDER_ISSUES t = PROVIDER_ISSUES s"
  using assms
proof (induction rule: rejections.induct)
  case none
  show ?case by simp
next
  case (more k q t e t' q')
  then have "SESSION_CACHE t = SESSION_CACHE s \<and> PROVIDER_ISSUES t = PROVIDER_ISSUES s"
    by blast
  moreover from more.hyps(2) more.prems
  have "SESSION_CACHE t' = SESSION_CACHE t \<and> PROVIDER_ISSUES t' = PROVIDER_ISSUES t" by blast
  ultimately show ?case by simp
qed

lemma update_record_resilient_untouched:
  assumes "update_record_resilient env rid p s = (r, s')"
  shows "SESSION_CACHE s' = SESSION_CACHE s \<and> PROVIDER_ISSUES s' = PROVIDER_ISSUES s"
proof -
  from update_record_resilient_run[OF assms] obtain k q t w where
    k: "rejections (store_update env rid) p s k q t" "store_update env rid w t = (r, s')"
    by (metis (no_types, lifting))
  have "SESSION_CACHE t = SESSION_CACHE s \<and> PROVIDER_ISSUES t = PROVIDER_ISSUES s"
    by (rule rejections_untouched[OF k(1)]) (use store_update_effect in blast)
  moreover have "SESSION_CACHE s' = SESSION_CACHE t \<and> PROVIDER_ISSUES s' = PROVIDER_ISSUES t"
    using k(2) store_update_effect by blast
  ultimately show ?thesis by simp
qed

lemma create_record_resilient_untouched:
  assumes "create_record_resilient env p s = (r, s')"
  shows "SESSION_CACHE s' = SESSION_CACHE s \<and> PROVIDER_ISSUES s' = PROVIDER_ISSUES s"
proof -
  from create_record_resilient_run[OF assms] obtain k q t where
    k: "rejections (store_create env) p s k q t"
       "if k = 8 then s' = t else store_create env q t = (r, s')"
    by (metis (no_types, lifting))
  have "SESSION_CACHE t = SESSION_CACHE s \<and> PROVIDER_ISSUES t = PROVIDER_ISSUES s"
    by (rule rejections_untouched[OF k(1)]) (use store_create_effect in blast)
  moreover have "SESSION_CACHE s' = SESSION_CACHE t \<and> PROVIDER_ISSUES s' = PROVIDER_ISSUES t"
    using k(2) store_create_effect by (cases "k = 8") auto
  ultimately show ?thesis by simp
qed

lemma body_failed_outcome:
  "\<not> py_in ''429'' text \<Longrightarrow> \<not> py_in ''ResourceExhausted'' text \<Longrightarrow>
     body_failed env what (PyExc text) s =
       (Inl (HTTPException 500 (''Failed to '' @ what @ '' research: '' @ text)),
        set_provider_issue env ''airtable'' ''write_error'' text s)"
  by (simp add: body_failed_def)

lemma body_failed_never_succeeds: "fst (body_failed env what e s) \<noteq> Inr response"
  by (simp add: body_failed_def split: exn.splits)

lemma body_failed_cache: "SESSION_CACHE (snd (body_failed env what e s)) = SESSION_CACHE s"
  by (simp add: body_failed_def set_provider_issue_def split: exn.splits)

lemma cache_put_lookup:
  "\<exists>item. SESSION_CACHE (cache_put env sid uid data created s) sid = Some item
       \<and> c_user_id item = uid \<and> c_data item = data"
  by (simp add: cache_put_def)

text \<open>
  C3, as the code has it. A request that passes the configuration and the token check and
  reaches the write to the store:
  in the start handler a failure of the write is recorded as the provider issue
  \<open>airtable\<close>/\<open>write_error\<close> and the handler still answers with the outline, under the
  session id it generated, and caches the session;
  in the refine and in the finalize handler a failure of the write is handed to the outer
  handler and the request fails: never a success, and for an error whose text has neither
  \<open>429\<close> nor \<open>ResourceExhausted\<close> a 500 with the issue \<open>airtable\<close>/\<open>write_error\<close>
  recorded. The cache holds the refinement, or the summary and tags, all the same.
\<close>

theorem store_write_failure:
  assumes "require_genai env = None"
    and "resolve_user_id env request = Inr user_id"
  shows
   "(start_llm_stage env topic s = (Inr raw_data, s1) \<and> table env = Some tbl
       \<and> validate_ResearchOutline raw_data = Some outline
       \<and> start_create_fields env (generated_session_id env s1) user_id topic raw_data
            \<lparr> d_outline = raw_data, d_refinements = JArr [], d_summary = JStr [],
               d_tags = JArr [] \<rparr> = Inr flds
       \<and> create_record_resilient env flds s1 = (Inl ae, s2) \<longrightarrow>
         fst (start_research env request topic s) =
           Inr \<lparr> r_sessionId = generated_session_id env s1, r_outline = outline,
                  r_createdAt = None, r_tags = [], r_progress = 50 \<rparr>
       \<and> PROVIDER_ISSUES (snd (start_research env request topic s)) ''airtable'' =
           Some \<lparr> i_kind = ''write_error'', i_message = take 300 (str_exn ae),
                  i_updatedAt = now_iso env (trace s2) \<rparr>
       \<and> (\<exists>item. SESSION_CACHE (snd (start_research env request topic s))
                    (generated_session_id env s1) = Some item
              \<and> c_user_id item = user_id \<and> d_outline (c_data item) = raw_data))
  \<and> (find_session_record env rid user_id rs = (Inr (Some rr), rs1)
       \<and> session_data_of env (cache_get rid user_id rs) (Some rr) = Inr rdata
       \<and> refine_llm_stage env (d_outline rdata) subtopic rs1 = (Inr insight, rs2)
       \<and> insight \<noteq> []
       \<and> append_refinement env (d_refinements rdata)
            (JObj [(''subtopic'', JStr subtopic), (''insight'', JStr insight),
                   (''createdAt'', JStr (now_iso env (trace rs2)))]) = Inr refinements
       \<and> refine_update_fields env (rdata\<lparr>d_refinements := refinements\<rparr>) (d_outline rdata)
            subtopic insight = Inr rflds
       \<and> update_record_resilient env (rec_id rr) rflds
            (cache_put env rid user_id (rdata\<lparr>d_refinements := refinements\<rparr>)
               (map_option c_created_at (cache_get rid user_id rs)) rs2) = (Inl rae, rs4) \<longrightarrow>
         refine_research env request rid subtopic rs = body_failed env ''refine'' rae rs4
       \<and> (\<forall>response. fst (refine_research env request rid subtopic rs) \<noteq> Inr response)
       \<and> (\<forall>text. rae = PyExc text \<and> \<not> py_in ''429'' text \<and> \<not> py_in ''ResourceExhausted'' text
             \<longrightarrow> refine_research env request rid subtopic rs =
                   (Inl (HTTPException 500 (''Failed to refine research: '' @ text)),
                    set_provider_issue env ''airtable'' ''write_error'' text rs4))
       \<and> (\<exists>item. SESSION_CACHE (snd (refine_research env request rid subtopic rs)) rid = Some item
              \<and> c_user_id item = user_id
              \<and> c_data item = rdata\<lparr>d_refinements := refinements\<rparr>))
  \<and> (find_session_record env fid user_id fs = (Inr (Some fr), fs1)
       \<and> session_data_of env (cache_get fid user_id fs) (Some fr) = Inr fdata
       \<and> finalize_findings env (d_outline fdata) (d_refinements fdata) = Inr findings_text
       \<and> finalize_llm_stage env (d_outline fdata) (d_refinements fdata) findings_text fs1
            = (Inr (summary, tags), fs2)
       \<and> summary \<noteq> []
       \<and> final_tags env (d_outline fdata) request_tags tags = Inr chosen
       \<and> dict_fromkeys env chosen = Inr stored
       \<and> finalize_update_fields env (fdata\<lparr>d_summary := JStr summary, d_tags := JArr stored\<rparr>)
            (d_outline fdata) summary = Inr fflds
       \<and> update_record_resilient env (rec_id fr) fflds
            (cache_put env fid user_id (fdata\<lparr>d_summary := JStr summary, d_tags := JArr stored\<rparr>)
               (map_option c_created_at (cache_get fid user_id fs)) fs2) = (Inl fae, fs4) \<longrightarrow>
         finalize_research env request fid request_tags fs = body_failed env ''finalize'' fae fs4
       \<and> (\<forall>response. fst (finalize_research env request fid request_tags fs) \<noteq> Inr response)
       \<and> (\<forall>text. fae = PyExc text \<and> \<not> py_in ''429'' text \<and> \<not> py_in ''ResourceExhausted'' text
             \<longrightarrow> finalize_research env request fid request_tags fs =
                   (Inl (HTTPException 500 (''Failed to finalize research: '' @ text)),
                    set_provider_issue env ''airtable'' ''write_error'' text fs4))
       \<and> (\<exists>item. SESSION_CACHE (snd (finalize_research env request fid request_tags fs)) fid
                    = Some item
              \<and> c_user_id item = user_id
              \<and> c_data item = fdata\<lparr>d_summary := JStr summary, d_tags := JArr stored\<rparr>))"
proof (intro conjI impI)
  assume a: "start_llm_stage env topic s = (Inr raw_data, s1) \<and> table env = Some tbl
       \<and> validate_ResearchOutline raw_data = Some outline
       \<and> start_create_fields env (generated_session_id env s1) user_id topic raw_data
            \<lparr> d_outline = raw_data, d_refinements = JArr [], d_summary = JStr [],
               d_tags = JArr [] \<rparr> = Inr flds
       \<and> create_record_resilient env flds s1 = (Inl ae, s2)"
  then have e: "start_research env request topic s =
    (Inr \<lparr> r_sessionId = generated_session_id env s1, r_outline = outline,
            r_createdAt = None, r_tags = [], r_progress = 50 \<rparr>,
     cache_put env (generated_session_id env s1) user_id
       \<lparr> d_outline = raw_data, d_refinements = JArr [], d_summary = JStr [], d_tags = JArr [] \<rparr>
       None (airtable_write_failed env ae s2))"
    by (intro start_write_failure[OF assms]) auto
  show "fst (start_research env request topic s) =
           Inr \<lparr> r_sessionId = generated_session_id env s1, r_outline = outline,
                  r_createdAt = None, r_tags = [], r_progress = 50 \<rparr>"
    by (simp add: e)
  show "PROVIDER_ISSUES (snd (start_research env request topic s)) ''airtable'' =
           Some \<lparr> i_kind = ''write_error'', i_message = take 300 (str_exn ae),
                  i_updatedAt = now_iso env (trace s2) \<rparr>"
    unfolding e snd_conv by (rule airtable_write_failed_issue)
  show "\<exists>item. SESSION_CACHE (snd (start_research env request topic s))
                    (generated_session_id env s1) = Some item
              \<and> c_user_id item = user_id \<and> d_outline (c_data item) = raw_data"
    unfolding e snd_conv by (simp add: cache_put_def)
next
  assume a: "find_session_record env rid user_id rs = (Inr (Some rr), rs1)
       \<and> session_data_of env (cache_get rid user_id rs) (Some rr) = Inr rdata
       \<and> refine_llm_stage env (d_outline rdata) subtopic rs1 = (Inr insight, rs2)
       \<and> insight \<noteq> []
       \<and> append_refinement env (d_refinements rdata)
            (JObj [(''subtopic'', JStr subtopic), (''insight'', JStr insight),
                   (''createdAt'', JStr (now_iso env (trace rs2)))]) = Inr refinements
       \<and> refine_update_fields env (rdata\<lparr>d_refinements := refinements\<rparr>) (d_outline rdata)
            subtopic insight = Inr rflds
       \<and> update_record_resilient env (rec_id rr) rflds
            (cache_put env rid user_id (rdata\<lparr>d_refinements := refinements\<rparr>)
               (map_option c_created_at (cache_get rid user_id rs)) rs2) = (Inl rae, rs4)"
  then have e: "refine_research env request rid subtopic rs = body_failed env ''refine'' rae rs4"
    by (intro refine_write_failure[OF assms]) auto
  then show "refine_research env request rid subtopic rs = body_failed env ''refine'' rae rs4" .
  show "\<forall>response. fst (refine_research env request rid subtopic rs) \<noteq> Inr response"
    unfolding e by (simp add: body_failed_never_succeeds)
  show "\<forall>text. rae = PyExc text \<and> \<not> py_in ''429'' text \<and> \<not> py_in ''ResourceExhausted'' text
             \<longrightarrow> refine_research env request rid subtopic rs =
                   (Inl (HTTPException 500 (''Failed to refine research: '' @ text)),
                    set_provider_issue env ''airtable'' ''write_error'' text rs4)"
    unfolding e using body_failed_outcome[of _ env "''refine''"] by auto
  from a have "SESSION_CACHE rs4 =
      SESSION_CACHE (cache_put env rid user_id (rdata\<lparr>d_refinements := refinements\<rparr>)
               (map_option c_created_at (cache_get rid user_id rs)) rs2)"
    using update_record_resilient_untouched by blast
  then show "\<exists>item. SESSION_CACHE (snd (refine_research env request rid subtopic rs)) rid = Some item
              \<and> c_user_id item = user_id
              \<and> c_data item = rdata\<lparr>d_refinements := refinements\<rparr>"
    unfolding e body_failed_cache using cache_put_lookup by simp
next
  assume a: "find_session_record env fid user_id fs = (Inr (Some fr), fs1)
       \<and> session_data_of env (cache_get fid user_id fs) (Some fr) = Inr fdata
       \<and> finalize_findings env (d_outline fdata) (d_refinements fdata) = Inr findings_text
       \<and> finalize_llm_stage env (d_outline fdata) (d_refinements fdata) findings_text fs1
            = (Inr (summary, tags), fs2)
       \<and> summary \<noteq> []
       \<and> final_tags env (d_outline fdata) request_tags tags = Inr chosen
       \<and> dict_fromkeys env chosen = Inr stored
       \<and> finalize_update_fields env (fdata\<lparr>d_summary := JStr summary, d_tags := JArr stored\<rparr>)
            (d_outline fdata) summary = Inr fflds
       \<and> update_record_resilient env (rec_id fr) fflds
            (cache_put env fid user_id (fdata\<lparr>d_summary := JStr summary, d_tags := JArr stored\<rparr>)
               (map_option c_created_at (cache_get fid user_id fs)) fs2) = (Inl fae, fs4)"
  then have e: "finalize_research env request fid request_tags fs
                  = body_failed env ''finalize'' fae fs4"
    by (intro finalize_write_failure[OF assms]) auto
  then show "finalize_research env request fid request_tags fs
               = body_failed env ''finalize'' fae fs4" .
  show "\<forall>response. fst (finalize_research env request fid request_tags fs) \<noteq> Inr response"
    unfolding e by (simp add: body_failed_never_succeeds)
  show "\<forall>text. fae = PyExc text \<and> \<not> py_in ''429'' text \<and> \<not> py_in ''ResourceExhausted'' text
             \<longrightarrow> finalize_research env request fid request_tags fs =
                   (Inl (HTTPException 500 (''Failed to finalize research: '' @ text)),
                    set_provider_issue env ''airtable'' ''write_error'' text fs4)"
    unfolding e using body_failed_outcome[of _ env "''finalize''"] by auto
  from a have "SESSION_CACHE fs4 =
      SESSION_CACHE (cache_put env fid user_id
               (fdata\<lparr>d_summary := JStr summary, d_tags := JArr stored\<rparr>)
               (map_option c_created_at (cache_get fid user_id fs)) fs2)"
    using update_record_resilient_untouched by blast
  then show "\<exists>item. SESSION_CACHE (snd (finalize_research env request fid request_tags fs)) fid
                    = Some item
              \<and> c_user_id item = user_id
              \<and> c_data item = fdata\<lparr>d_summary := JStr summary, d_tags := JArr stored\<rparr>"
    unfolding e body_failed_cache using cache_put_lookup by simp
qed

text \<open>
  C3 as stated fails for the refine and the finalize handler: the record of the session
  is found, the language model answers, the update of the record is refused with
  \<open>Service unavailable\<close>, and the request ends in a 500.
\<close>

theorem refine_write_failure_counterexample:
  "fst (refine_research demo_env anonymous ''SESS-1'' ''Core Concepts'' empty_state)
     = Inl (HTTPException 500 ''Failed to refine research: Service unavailable'')
   \<and> last (trace (snd (refine_research demo_env anonymous ''SESS-1'' ''Core Concepts'' empty_state)))
     = TableUpdate ''rec1''
         [(''Data'', JStr ''json''), (''Summary'', JStr ''A summary.''),
          (''Tags'', JStr ''Graphs, Storage''),
          (''Search Text'', JStr
             ''Graph Databases Stores built on nodes and edges. Core Concepts Edges are first class.''),
          (''Status'', JStr ''Refined'')]
   \<and> fst (finalize_research demo_env anonymous ''SESS-1'' None empty_state)
     = Inl (HTTPException 500 ''Failed to finalize research: Service unavailable'')
   \<and> last (trace (snd (finalize_research demo_env anonymous ''SESS-1'' None empty_state)))
     = TableUpdate ''rec1''
         [(''Data'', JStr ''json''), (''Summary'', JStr ''A summary.''),
          (''Tags'', JStr ''Graphs, Storage''),
          (''Search Text'', JStr
             ''Graph Databases Stores built on nodes and edges. A summary. Graphs Storage''),
          (''Status'', JStr ''Finalized'')]"
  by code_simp

lemma pair_from_fst: "fst x = a \<Longrightarrow> x = (a, snd x)"
  by (cases x) simp

theorem store_write_failure_witness:
  "require_genai demo_env = None
   \<and> resolve_user_id demo_env anonymous = Inr ''local-dev''
   \<and> table demo_env = Some down_table
   \<and> fst (start_llm_stage demo_env ''graph databases'' empty_state) = Inr demo_outline
   \<and> fst (find_session_record demo_env ''SESS-1'' ''local-dev'' empty_state) = Inr (Some demo_record)
   \<and> fst (start_research demo_env anonymous ''graph databases'' empty_state) =
        Inr \<lparr> r_sessionId = ''SESS-0A1B2C3D'',
               r_outline = \<lparr> o_title = ''Graph Databases'',
                              o_description = ''Stores built on nodes and edges.'',
                              o_subTopics = [\<lparr> st_id = ''1'', st_title = ''Core Concepts'',
                                               st_description = ''Nodes and edges.'' \<rparr>] \<rparr>,
               r_createdAt = None, r_tags = [], r_progress = 50 \<rparr>
   \<and> PROVIDER_ISSUES (snd (start_research demo_env anonymous ''graph databases'' empty_state))
        ''airtable'' =
        Some \<lparr> i_kind = ''write_error'', i_message = ''Service unavailable'',
               i_updatedAt = ''2025-01-01T00:00:00+00:00'' \<rparr>
   \<and> fst (refine_research demo_env anonymous ''SESS-1'' ''Core Concepts'' empty_state) =
        Inl (HTTPException 500 ''Failed to refine research: Service unavailable'')
   \<and> fst (finalize_research demo_env anonymous ''SESS-1'' None empty_state) =
        Inl (HTTPException 500 ''Failed to finalize research: Service unavailable'')"
proof -
  let ?out = "\<lparr> o_title = ''Graph Databases'',
                 o_description = ''Stores built on nodes and edges.'',
                 o_subTopics = [\<lparr> st_id = ''1'', st_title = ''Core Concepts'',
                                  st_description = ''Nodes and edges.'' \<rparr>] \<rparr>"
  let ?payload = "\<lparr> d_outline = demo_outline, d_refinements = JArr [], d_summary = JStr [],
                     d_tags = JArr [] \<rparr>"
  let ?cflds = "[(''Session ID'', JStr ''SESS-0A1B2C3D''), (''User ID'', JStr ''local-dev''),
      (''Topic'', JStr ''graph databases''), (''Subtopics'', JStr ''Core Concepts''),
      (''Initial Outline'', JStr ''Stores built on nodes and edges.''),
      (''Summary'', JStr []), (''Tags'', JStr []),
      (''Search Text'', JStr ''graph databases Core Concepts Stores built on nodes and edges.''),
      (''Status'', JStr ''Initialized''), (''Data'', JStr ''json'')]"
  let ?ae = "PyExc ''Service unavailable''"
  let ?s1 = "snd (start_llm_stage demo_env ''graph databases'' empty_state)"
  let ?s2 = "snd (create_record_resilient demo_env ?cflds ?s1)"
  let ?rs1 = "snd (find_session_record demo_env ''SESS-1'' ''local-dev'' empty_state)"
  let ?rs2 = "snd (refine_llm_stage demo_env (d_outline demo_data) ''Core Concepts'' ?rs1)"
  let ?refs = "JArr [JObj [(''subtopic'', JStr ''Core Concepts''),
                           (''insight'', JStr ''Edges are first class.''),
                           (''createdAt'', JStr ''2025-01-02T00:00:00+00:00'')],
                     JObj [(''subtopic'', JStr ''Core Concepts''),
                           (''insight'', JStr ''Edges are first class.''),
                           (''createdAt'', JStr ''2025-01-01T00:00:00+00:00'')]]"
  let ?rflds = "[(''Data'', JStr ''json''), (''Summary'', JStr ''A summary.''),
               (''Tags'', JStr ''Graphs, Storage''),
               (''Search Text'', JStr
                  ''Graph Databases Stores built on nodes and edges. Core Concepts Edges are first class.''),
               (''Status'', JStr ''Refined'')]"
  let ?rs3 = "cache_put demo_env ''SESS-1'' ''local-dev'' (demo_data\<lparr>d_refinements := ?refs\<rparr>)
                (map_option c_created_at (cache_get ''SESS-1'' ''local-dev'' empty_state)) ?rs2"
  let ?rs4 = "snd (update_record_resilient demo_env (rec_id demo_record) ?rflds ?rs3)"
  let ?findings = "''- Stores built on nodes and edges.'' @ newline @ ''- Edges are first class.''"
  let ?fs2 = "snd (finalize_llm_stage demo_env (d_outline demo_data) (d_refinements demo_data)
                     ?findings ?rs1)"
  let ?tags = "[JStr ''Graphs'', JStr ''Storage'', JStr ''Graphs'']"
  let ?stored = "[JStr ''Graphs'', JStr ''Storage'']"
  let ?fdata = "demo_data\<lparr>d_summary := JStr ''A summary.'', d_tags := JArr ?stored\<rparr>"
  let ?fflds = "[(''Data'', JStr ''json''), (''Summary'', JStr ''A summary.''),
          (''Tags'', JStr ''Graphs, Storage''),
          (''Search Text'', JStr
             ''Graph Databases Stores built on nodes and edges. A summary. Graphs Storage''),
          (''Status'', JStr ''Finalized'')]"
  let ?fs3 = "cache_put demo_env ''SESS-1'' ''local-dev'' ?fdata
                (map_option c_created_at (cache_get ''SESS-1'' ''local-dev'' empty_state)) ?fs2"
  let ?fs4 = "snd (update_record_resilient demo_env (rec_id demo_record) ?fflds ?fs3)"
  have g: "require_genai demo_env = None" by code_simp
  have u: "resolve_user_id demo_env anonymous = Inr ''local-dev''" by code_simp
  have t: "table demo_env = Some down_table" by (simp add: demo_env_def mk_env_def)
  have a1: "start_llm_stage demo_env ''graph databases'' empty_state = (Inr demo_outline, ?s1)"
    by (rule pair_from_fst) code_simp
  have a2: "validate_ResearchOutline demo_outline = Some ?out" by (rule demo_outline_valid)
  have a3: "start_create_fields demo_env (generated_session_id demo_env ?s1) ''local-dev''
              ''graph databases'' demo_outline ?payload = Inr ?cflds" by code_simp
  have a4: "create_record_resilient demo_env ?cflds ?s1 = (Inl ?ae, ?s2)"
    by (rule pair_from_fst) code_simp
  have b1: "find_session_record demo_env ''SESS-1'' ''local-dev'' empty_state
              = (Inr (Some demo_record), ?rs1)"
    by (rule pair_from_fst) code_simp
  have b2: "session_data_of demo_env (cache_get ''SESS-1'' ''local-dev'' empty_state)
              (Some demo_record) = Inr demo_data" by code_simp
  have b3: "refine_llm_stage demo_env (d_outline demo_data) ''Core Concepts'' ?rs1
              = (Inr ''Edges are first class.'', ?rs2)"
    by (rule pair_from_fst) code_simp
  have b4: "''Edges are first class.'' \<noteq> []" by simp
  have b5: "append_refinement demo_env (d_refinements demo_data)
            (JObj [(''subtopic'', JStr ''Core Concepts''), (''insight'', JStr ''Edges are first class.''),
                   (''createdAt'', JStr (now_iso demo_env (trace ?rs2)))]) = Inr ?refs"
    by code_simp
  have b6: "refine_update_fields demo_env (demo_data\<lparr>d_refinements := ?refs\<rparr>)
              (d_outline demo_data) ''Core Concepts'' ''Edges are first class.'' = Inr ?rflds"
    by code_simp
  have b7: "update_record_resilient demo_env (rec_id demo_record) ?rflds ?rs3 = (Inl ?ae, ?rs4)"
    by (rule pair_from_fst) code_simp
  have c3: "finalize_findings demo_env (d_outline demo_data) (d_refinements demo_data)
              = Inr ?findings" by code_simp
  have c4: "finalize_llm_stage demo_env (d_outline demo_data) (d_refinements demo_data)
              ?findings ?rs1 = (Inr (''A summary.'', ?tags), ?fs2)"
    by (rule pair_from_fst) code_simp
  have c5: "''A summary.'' \<noteq> []" by simp
  have c6: "final_tags demo_env (d_outline demo_data) None ?tags = Inr ?tags" by code_simp
  have c7: "dict_fromkeys demo_env ?tags = Inr ?stored" by code_simp
  have c8: "finalize_update_fields demo_env ?fdata (d_outline demo_data) ''A summary.''
              = Inr ?fflds" by code_simp
  have c9: "update_record_resilient demo_env (rec_id demo_record) ?fflds ?fs3 = (Inl ?ae, ?fs4)"
    by (rule pair_from_fst) code_simp
  have n: "\<not> py_in ''429'' ''Service unavailable''"
      "\<not> py_in ''ResourceExhausted'' ''Service unavailable''" by code_simp+
  note T = store_write_failure[OF g u,
      where topic = "''graph databases''" and s = empty_state and raw_data = demo_outline
        and ?s1.0 = ?s1 and tbl = down_table and outline = ?out and flds = ?cflds and ae = ?ae
        and ?s2.0 = ?s2
        and rid = "''SESS-1''" and rs = empty_state and rr = demo_record and ?rs1.0 = ?rs1
        and rdata = demo_data and subtopic = "''Core Concepts''"
        and insight = "''Edges are first class.''" and ?rs2.0 = ?rs2 and refinements = ?refs
        and rflds = ?rflds and rae = ?ae and ?rs4.0 = ?rs4
        and fid = "''SESS-1''" and fs = empty_state and fr = demo_record and ?fs1.0 = ?rs1
        and fdata = demo_data and findings_text = ?findings and summary = "''A summary.''"
        and tags = ?tags and ?fs2.0 = ?fs2 and request_tags = None and chosen = ?tags
        and stored = ?stored and fflds = ?fflds and fae = ?ae and ?fs4.0 = ?fs4]
  from T t a1 a2 a3 a4 have A:
    "fst (start_research demo_env anonymous ''graph databases'' empty_state) =
           Inr \<lparr> r_sessionId = generated_session_id demo_env ?s1, r_outline = ?out,
                  r_createdAt = None, r_tags = [], r_progress = 50 \<rparr>"
    "PROVIDER_ISSUES (snd (start_research demo_env anonymous ''graph databases'' empty_state))
        ''airtable'' =
           Some \<lparr> i_kind = ''write_error'', i_message = take 300 (str_exn ?ae),
                  i_updatedAt = now_iso demo_env (trace ?s2) \<rparr>"
    by blast+
  from T b1 b2 b3 b4 b5 b6 b7 n have B:
    "refine_research demo_env anonymous ''SESS-1'' ''Core Concepts'' empty_state =
       (Inl (HTTPException 500 (''Failed to refine research: '' @ ''Service unavailable'')),
        set_provider_issue demo_env ''airtable'' ''write_error'' ''Service unavailable'' ?rs4)"
    by blast
  from T b1 b2 c3 c4 c5 c6 c7 c8 c9 n have C:
    "finalize_research demo_env anonymous ''SESS-1'' None empty_state =
       (Inl (HTTPException 500 (''Failed to finalize research: '' @ ''Service unavailable'')),
        set_provider_issue demo_env ''airtable'' ''write_error'' ''Service unavailable'' ?fs4)"
    by blast
  have i: "generated_session_id demo_env ?s1 = ''SESS-0A1B2C3D''" by code_simp
  have j: "now_iso demo_env (trace ?s2) = ''2025-01-01T00:00:00+00:00''" by code_simp
  have k: "cache_get ''SESS-1'' ''local-dev'' empty_state = None" by code_simp
  have d: "d_outline demo_data = demo_outline" "rec_id demo_record = ''rec1''"
    by (simp_all add: demo_data_def demo_record_def)
  have a1f: "fst (start_llm_stage demo_env ''graph databases'' empty_state) = Inr demo_outline"
    by code_simp
  have b1f: "fst (find_session_record demo_env ''SESS-1'' ''local-dev'' empty_state)
               = Inr (Some demo_record)" by code_simp
  from B have B': "fst (refine_research demo_env anonymous ''SESS-1'' ''Core Concepts'' empty_state) =
        Inl (HTTPException 500 ''Failed to refine research: Service unavailable'')" by simp
  from C have C': "fst (finalize_research demo_env anonymous ''SESS-1'' None empty_state) =
        Inl (HTTPException 500 ''Failed to finalize research: Service unavailable'')" by simp
  from A have A': "fst (start_research demo_env anonymous ''graph databases'' empty_state) =
        Inr \<lparr> r_sessionId = ''SESS-0A1B2C3D'', r_outline = ?out,
               r_createdAt = None, r_tags = [], r_progress = 50 \<rparr>"
    "PROVIDER_ISSUES (snd (start_research demo_env anonymous ''graph databases'' empty_state))
        ''airtable'' =
        Some \<lparr> i_kind = ''write_error'', i_message = ''Service unavailable'',
               i_updatedAt = ''2025-01-01T00:00:00+00:00'' \<rparr>"
    by (simp_all add: i j)
  from g u t a1f b1f A' B' C' show ?thesis by blast
qed

subsection \<open>The tags a finalize call stores\<close>

lemma remdups_snoc: "remdups (ys @ [x]) = filter (\<lambda>y. y \<noteq> x) (remdups ys) @ [x]"
  by (induction ys) auto

lemma rev_remdups_rev_Cons:
  "rev (remdups (rev (x # xs))) = x # filter (\<lambda>y. y \<noteq> x) (rev (remdups (rev xs)))"
  by (simp add: remdups_snoc rev_filter)

lemma first_occurrences_eq:
  "first_occurrences (=) seen xs = filter (\<lambda>y. y \<notin> set seen) (rev (remdups (rev xs)))"
proof (induction xs arbitrary: seen)
  case Nil
  show ?case by simp
next
  case (Cons x xs)
  show ?case
  proof (cases "x \<in> set seen")
    case True
    then have "first_occurrences (=) seen (x # xs) = first_occurrences (=) seen xs"
      by (simp add: list_ex_iff)
    also have "\<dots> = filter (\<lambda>y. y \<notin> set seen) (rev (remdups (rev xs)))" by (rule Cons.IH)
    also have "\<dots> = filter (\<lambda>y. y \<notin> set seen) (rev (remdups (rev (x # xs))))"
      unfolding rev_remdups_rev_Cons using True by (auto intro: filter_cong)
    finally show ?thesis .
  next
    case False
    then have "first_occurrences (=) seen (x # xs) = x # first_occurrences (=) (seen @ [x]) xs"
      by (simp add: list_ex_iff)
    also have "\<dots> = x # filter (\<lambda>y. y \<notin> set (seen @ [x])) (rev (remdups (rev xs)))"
      by (simp only: Cons.IH)
    also have "\<dots> = filter (\<lambda>y. y \<notin> set seen) (rev (remdups (rev (x # xs))))"
      unfolding rev_remdups_rev_Cons using False by (auto intro: filter_cong)
    finally show ?thesis .
  qed
qed

lemma first_occurrences_distinct:
  "first_occurrences (=) [] xs = rev (remdups (rev xs))"
  "distinct (first_occurrences (=) [] xs)"
  "set (first_occurrences (=) [] xs) = set xs"
  by (simp_all add: first_occurrences_eq)

lemma py_eq_JStr: "py_eq env (JStr a) b \<longleftrightarrow> b = JStr a"
  by (cases b) (auto simp: py_eq_def as_str_def)

lemma first_occurrences_JStr:
  "first_occurrences (py_eq env) (map JStr seen) (map JStr xs)
     = map JStr (first_occurrences (=) seen xs)"
proof (induction xs arbitrary: seen)
  case Nil
  show ?case by simp
next
  case (Cons x xs)
  have e: "list_ex (\<lambda>y. py_eq env y (JStr x)) (map JStr seen) \<longleftrightarrow> list_ex (\<lambda>y. y = x) seen"
    by (auto simp: list_ex_iff py_eq_JStr)
  have m: "map JStr seen @ [JStr x] = map JStr (seen @ [x])" by simp
  show ?case
  proof (cases "list_ex (\<lambda>y. y = x) seen")
    case True
    with e Cons.IH[of seen] show ?thesis by simp
  next
    case False
    with e Cons.IH[of "seen @ [x]"] show ?thesis by simp
  qed
qed

lemma first_occurrences_all_str:
  "list_all (\<lambda>y. as_str y \<noteq> None) seen \<Longrightarrow>
   list_all (\<lambda>y. as_str y \<noteq> None) (first_occurrences (py_eq env) seen xs) \<Longrightarrow>
   list_all (\<lambda>y. as_str y \<noteq> None) xs"
proof (induction xs arbitrary: seen)
  case Nil
  show ?case by simp
next
  case (Cons x xs)
  show ?case
  proof (cases "list_ex (\<lambda>y. py_eq env y x) seen")
    case True
    then obtain y where y: "y \<in> set seen" "py_eq env y x" by (auto simp: list_ex_iff)
    with Cons.prems(1) obtain a where "y = JStr a"
      by (cases y) (auto simp: list_all_iff as_str_def)
    with y(2) have "x = JStr a" by (simp add: py_eq_JStr)
    moreover from True Cons.prems have "list_all (\<lambda>y. as_str y \<noteq> None) xs"
      using Cons.IH[of seen] by simp
    ultimately show ?thesis by (simp add: as_str_def)
  next
    case False
    with Cons.prems have x: "as_str x \<noteq> None"
      and r: "list_all (\<lambda>y. as_str y \<noteq> None) (first_occurrences (py_eq env) (seen @ [x]) xs)"
      by auto
    from Cons.prems(1) x have "list_all (\<lambda>y. as_str y \<noteq> None) (seen @ [x])" by simp
    from Cons.IH[OF this r] x show ?thesis by simp
  qed
qed

lemma those_as_str: "those (map as_str xs) = Some ts \<Longrightarrow> xs = map JStr ts"
proof (induction xs arbitrary: ts)
  case Nil
  then show ?case by simp
next
  case (Cons x xs)
  then show ?case
    by (cases x) (auto simp: as_str_def split: option.splits)
qed

lemma all_str_map: "list_all (\<lambda>y. as_str y \<noteq> None) xs \<Longrightarrow> \<exists>cs. xs = map JStr cs"
proof (induction xs)
  case Nil
  then show ?case by simp
next
  case (Cons x xs)
  then obtain cs where "xs = map JStr cs" by auto
  moreover from Cons.prems obtain c where "x = JStr c" by (cases x) (auto simp: as_str_def)
  ultimately have "x # xs = map JStr (c # cs)" by simp
  then show ?case by (rule exI)
qed

lemma stored_tags_first_occurrences:
  assumes "dict_fromkeys env chosen = Inr stored"
    and "str_list (JArr stored) = Some ts"
  shows "\<exists>cs. chosen = map JStr cs \<and> ts = rev (remdups (rev cs)) \<and> stored = map JStr ts"
proof -
  from assms(1) have s: "stored = first_occurrences (py_eq env) [] chosen"
    by (simp add: dict_fromkeys_def split: if_splits)
  from assms(2) have m: "stored = map JStr ts" by (simp add: str_list_def those_as_str)
  then have "list_all (\<lambda>y. as_str y \<noteq> None) stored" by (simp add: list_all_iff as_str_def)
  with s have "list_all (\<lambda>y. as_str y \<noteq> None) chosen"
    using first_occurrences_all_str[of "[]" env chosen] by simp
  then obtain cs where cs: "chosen = map JStr cs" using all_str_map by blast
  with s have "stored = map JStr (first_occurrences (=) [] cs)"
    using first_occurrences_JStr[of env "[]" cs] by simp
  with m have "map JStr ts = map JStr (first_occurrences (=) [] cs)" by simp
  then have "ts = first_occurrences (=) [] cs" by (simp add: inj_map_eq_map inj_on_def)
  with cs m show ?thesis by (auto simp: first_occurrences_distinct(1))
qed

lemma write_back_untouched:
  assumes "write_back env found update_fields s = (r, s')"
  shows "SESSION_CACHE s' = SESSION_CACHE s"
proof (cases found)
  case None
  with assms show ?thesis by (simp add: write_back_def)
next
  case (Some rec)
  show ?thesis
  proof (cases update_fields)
    case (Inl e)
    with Some assms show ?thesis by (simp add: write_back_def)
  next
    case (Inr flds)
    obtain u s1 where u: "update_record_resilient env (rec_id rec) flds s = (u, s1)"
      by (cases "update_record_resilient env (rec_id rec) flds s")
    from update_record_resilient_untouched[OF u] have "SESSION_CACHE s1 = SESSION_CACHE s" by simp
    with Some Inr u assms show ?thesis
      by (cases u) (auto simp: write_back_def clear_provider_issue_def)
  qed
qed

lemma finalize_body_success:
  assumes "finalize_body env user_id sessionId request_tags s = (Inr response, s')"
  shows "\<exists>found s1 data findings_text summary tags s2 chosen stored.
       find_session_record env sessionId user_id s = (Inr found, s1)
     \<and> session_data_of env (cache_get sessionId user_id s) found = Inr data
     \<and> finalize_findings env (d_outline data) (d_refinements data) = Inr findings_text
     \<and> finalize_llm_stage env (d_outline data) (d_refinements data) findings_text s1
          = (Inr (summary, tags), s2)
     \<and> summary \<noteq> []
     \<and> final_tags env (d_outline data) request_tags tags = Inr chosen
     \<and> dict_fromkeys env chosen = Inr stored
     \<and> write_back env found
          (finalize_update_fields env (data\<lparr>d_summary := JStr summary, d_tags := JArr stored\<rparr>)
             (d_outline data) summary)
          (cache_put env sessionId user_id
             (data\<lparr>d_summary := JStr summary, d_tags := JArr stored\<rparr>)
             (map_option c_created_at (cache_get sessionId user_id s)) s2) = (Inr (), s')
     \<and> str_list (JArr stored) = Some (fz_tags response)
     \<and> fz_summary response = summary \<and> fz_sessionId response = sessionId"
proof -
  obtain rf s1 where f: "find_session_record env sessionId user_id s = (rf, s1)"
    by (cases "find_session_record env sessionId user_id s")
  with assms obtain found where rf: "rf = Inr found"
    by (cases rf) (auto simp: finalize_body_def Let_def)
  let ?cached = "cache_get sessionId user_id s"
  from assms f rf obtain data where d: "session_data_of env ?cached found = Inr data"
    by (cases "session_data_of env ?cached found") (auto simp: finalize_body_def Let_def)
  from assms f rf d obtain findings_text where
    ft: "finalize_findings env (d_outline data) (d_refinements data) = Inr findings_text"
    by (cases "finalize_findings env (d_outline data) (d_refinements data)")
       (auto simp: finalize_body_def Let_def)
  obtain rl s2 where l: "finalize_llm_stage env (d_outline data) (d_refinements data)
      findings_text s1 = (rl, s2)"
    by (cases "finalize_llm_stage env (d_outline data) (d_refinements data) findings_text s1")
  from assms f rf d ft l obtain summary tags where rl: "rl = Inr (summary, tags)"
    by (cases rl) (auto simp: finalize_body_def Let_def)
  from assms f rf d ft l rl have ne: "summary \<noteq> []"
    by (auto simp: finalize_body_def Let_def split: if_splits)
  from assms f rf d ft l rl ne obtain chosen where
    ch: "final_tags env (d_outline data) request_tags tags = Inr chosen"
    by (cases "final_tags env (d_outline data) request_tags tags")
       (auto simp: finalize_body_def Let_def)
  from assms f rf d ft l rl ne ch obtain stored where st: "dict_fromkeys env chosen = Inr stored"
    by (cases "dict_fromkeys env chosen") (auto simp: finalize_body_def Let_def)
  let ?data2 = "data\<lparr>d_summary := JStr summary, d_tags := JArr stored\<rparr>"
  let ?s3 = "cache_put env sessionId user_id ?data2 (map_option c_created_at ?cached) s2"
  obtain rw s4 where w: "write_back env found
      (finalize_update_fields env ?data2 (d_outline data) summary) ?s3 = (rw, s4)"
    by (cases "write_back env found
      (finalize_update_fields env ?data2 (d_outline data) summary) ?s3")
  from assms f rf d ft l rl ne ch st w have rw: "rw = Inr ()"
    by (cases rw) (auto simp: finalize_body_def Let_def)
  from assms f rf d ft l rl ne ch st w rw
  have r: "str_list (JArr stored) = Some (fz_tags response)" "fz_summary response = summary"
     "fz_sessionId response = sessionId" "s' = s4"
    by (auto simp: finalize_body_def Let_def model_validate_def split: option.splits)
  from f rf d ft l rl ne ch st w rw r show ?thesis by blast
qed

lemma body_failed_not_Inr: "body_failed env what e s = (Inr r, s') \<Longrightarrow> False"
  by (auto simp: body_failed_def split: exn.splits if_splits)

lemma finalize_research_success:
  assumes "finalize_research env request sessionId request_tags s = (Inr response, s')"
  shows "\<exists>user_id. resolve_user_id env request = Inr user_id
           \<and> finalize_body env user_id sessionId request_tags s = (Inr response, s')"
proof -
  from assms have g: "require_genai env = None"
    by (cases "require_genai env") (auto simp: finalize_research_def)
  with assms obtain user_id where u: "resolve_user_id env request = Inr user_id"
    by (cases "resolve_user_id env request") (auto simp: finalize_research_def)
  obtain rb sb where b: "finalize_body env user_id sessionId request_tags s = (rb, sb)"
    by (cases "finalize_body env user_id sessionId request_tags s")
  from assms g u b have "rb = Inr response \<and> sb = s'"
    by (cases rb) (auto simp: finalize_research_def dest: body_failed_not_Inr)
  with u b show ?thesis by blast
qed

lemma final_tags_selected:
  assumes "final_tags env outline request_tags tags = Inr chosen"
    and "stripped_nonempty (case request_tags of None \<Rightarrow> [] | Some ts \<Rightarrow> ts) \<noteq> []"
  shows "chosen = map JStr (stripped_nonempty (case request_tags of None \<Rightarrow> [] | Some ts \<Rightarrow> ts))"
  using assms
  by (cases "if tags = [] then subtopic_titles env outline else Inr tags")
     (auto simp: final_tags_def Let_def)



lemma finalize_demo:
  "fst (finalize_research (mk_env (Some demo_client) None True demo_texts) anonymous ''SESS-1''
          (Some [''graphs'', '' nodes '', ''graphs'', '' '']) (cached_state ''local-dev''))
     = Inr \<lparr> fz_sessionId = ''SESS-1'', fz_summary = ''A summary.'',
              fz_tags = [''graphs'', ''nodes''] \<rparr>"
  by code_simp


subsection \<open>Filtering the history by a search string\<close>

lemma bind_e_eq_Inr:
  "bind_e m f = Inr y \<longleftrightarrow> (\<exists>x. m = Inr x \<and> f x = Inr y)"
  by (cases m) simp_all

lemma contains_ci_py_in: "contains_ci text p \<longleftrightarrow> py_in (py_lower p) (py_lower text)"
proof -
  have "contains_ci text p \<longleftrightarrow> contains_ci text (py_lower p)"
    by (simp add: contains_ci_def py_lower_idem)
  also have "\<dots> \<longleftrightarrow> py_in (py_lower p) (py_lower text)"
    by (rule py_in_lower_iff[symmetric]) (rule py_lower_idem)
  finally show ?thesis .
qed

lemma py_lower_Nil_iff [simp]: "py_lower s = [] \<longleftrightarrow> s = []"
  by (simp add: py_lower_def)

lemma field_str_Some: "field_str d k = Some t \<Longrightarrow> dict_get_or k dflt d = JStr t"
  by (auto simp: field_str_def dict_get_or_def split: option.splits json.splits)

lemma subtopic_titles_of_valid:
  "those (map validate_SubTopic subs) = Some sts \<Longrightarrow>
     map_e (\<lambda>x. py_get env x ''title'' (JStr [])) subs = Inr (map (\<lambda>st. JStr (st_title st)) sts)"
proof (induction subs arbitrary: sts)
  case Nil
  then show ?case by simp
next
  case (Cons x xs)
  from Cons.prems obtain st rest where
    x: "validate_SubTopic x = Some st" and r: "those (map validate_SubTopic xs) = Some rest"
    and sts: "sts = st # rest"
    by (auto split: option.splits)
  from x obtain d where d: "x = JObj d" and t: "field_str d ''title'' = Some (st_title st)"
    by (auto simp: validate_SubTopic_def split: json.splits option.splits)
  from d field_str_Some[OF t] have "py_get env x ''title'' (JStr []) = Inr (JStr (st_title st))"
    by (simp add: py_get_def)
  with Cons.IH[OF r] sts show ?case by simp
qed

lemma matches_filters_search:
  assumes m: "matches_filters env outline tags category_values search = Inr True"
      and s: "search \<noteq> []"
      and v: "validate_ResearchOutline outline = Some ol"
  shows "py_in search (py_lower (o_title ol))
       \<or> py_in search (py_lower (o_description ol))
       \<or> (\<exists>st \<in> set (o_subTopics ol). py_in search (py_lower (st_title st)))
       \<or> (\<exists>t \<in> set tags. py_in search (py_lower t))"
proof -
  from v obtain d subs where d: "outline = JObj d"
    and t: "field_str d ''title'' = Some (o_title ol)"
    and ds: "field_str d ''description'' = Some (o_description ol)"
    and sb: "map_of d ''subTopics'' = Some (JArr subs)"
    and sts: "those (map validate_SubTopic subs) = Some (o_subTopics ol)"
    by (auto simp: validate_ResearchOutline_def split: json.splits option.splits)
  have g1: "py_get env outline ''title'' (JStr []) = Inr (JStr (o_title ol))"
    using d field_str_Some[OF t] by (simp add: py_get_def)
  have g2: "py_get env outline ''description'' (JStr []) = Inr (JStr (o_description ol))"
    using d field_str_Some[OF ds] by (simp add: py_get_def)
  have g3: "py_get env outline ''subTopics'' (JArr []) = Inr (JArr subs)"
    using d sb by (simp add: py_get_def dict_get_or_def)
  have g4: "py_iter env (JArr subs) = Inr subs"
    by (simp add: py_iter_def)
  note g5 = subtopic_titles_of_valid[OF sts, of env]
  have "matches_filters env outline tags category_values search =
          (if category_values \<noteq> []
              \<and> \<not> list_ex (\<lambda>cat. list_ex (\<lambda>t. py_in cat t) (map py_lower tags)) category_values
           then Inr False
           else Inr (\<not> (\<not> py_in search (py_lower (o_title ol))
                   \<and> \<not> py_in search (py_lower (o_description ol))
                   \<and> list_all (\<lambda>x. \<not> py_in search x)
                        (map (\<lambda>v. py_lower (py_str env v))
                           (map (\<lambda>st. JStr (st_title st)) (o_subTopics ol)))
                   \<and> list_all (\<lambda>x. \<not> py_in search x) (map py_lower tags))))"
    unfolding matches_filters_def g1 g2 g3 bind_e_Inr g4 g5 using s by (simp add: py_str_def)
  with m have "\<not> (\<not> py_in search (py_lower (o_title ol))
                   \<and> \<not> py_in search (py_lower (o_description ol))
                   \<and> list_all (\<lambda>x. \<not> py_in search x)
                        (map (\<lambda>v. py_lower (py_str env v))
                           (map (\<lambda>st. JStr (st_title st)) (o_subTopics ol)))
                   \<and> list_all (\<lambda>x. \<not> py_in search x) (map py_lower tags))"
    by (simp split: if_splits)
  then show ?thesis
    by (auto simp: list_all_iff py_str_def)
qed

lemma history_item_search:
  assumes h: "history_item env category_values search r = Inr (Some item)"
      and s: "search \<noteq> []"
  shows "py_in search (py_lower (o_title (r_outline item)))
       \<or> py_in search (py_lower (o_description (r_outline item)))
       \<or> (\<exists>st \<in> set (o_subTopics (r_outline item)). py_in search (py_lower (st_title st)))
       \<or> (\<exists>t \<in> set (r_tags item). py_in search (py_lower t))"
proof -
  from h obtain data ts passes where
    m: "matches_filters env (d_outline data) (stripped_nonempty (map (py_str env) ts))
          category_values search = Inr passes"
    and rest: "(if \<not> passes then Inr None
            else
              bind_e (model_validate env ''ResearchOutline'' validate_ResearchOutline
                        (d_outline data)) (\<lambda>outline.
              bind_e (progress_for env data) (\<lambda>progress.
                case (as_str (py_or (py_or (dict_get ''Session ID'' (rec_fields r))
                                       (JStr (rec_id r))) (JStr ''UNKNOWN'')),
                      optional_str (py_or (dict_get ''Created Time'' (rec_fields r))
                                      (JStr (rec_createdTime r)))) of
                  (Some sid, Some created) \<Rightarrow>
                    Inr (Some \<lparr> r_sessionId = sid, r_outline = outline, r_createdAt = created,
                               r_tags = stripped_nonempty (map (py_str env) ts),
                               r_progress = progress \<rparr>)
                | _ \<Rightarrow> Inl (PyExc (pyerr env ''ValidationError: ResearchResponse''
                                     (JObj (rec_fields r))))))) = Inr (Some item)"
    unfolding history_item_def Let_def bind_e_eq_Inr by blast
  from rest have p: "passes" by (cases passes) simp_all
  with rest obtain outline progress where
    v: "model_validate env ''ResearchOutline'' validate_ResearchOutline (d_outline data)
          = Inr outline"
    and fin: "(case (as_str (py_or (py_or (dict_get ''Session ID'' (rec_fields r))
                                       (JStr (rec_id r))) (JStr ''UNKNOWN'')),
                      optional_str (py_or (dict_get ''Created Time'' (rec_fields r))
                                      (JStr (rec_createdTime r)))) of
                  (Some sid, Some created) \<Rightarrow>
                    Inr (Some \<lparr> r_sessionId = sid, r_outline = outline, r_createdAt = created,
                               r_tags = stripped_nonempty (map (py_str env) ts),
                               r_progress = progress \<rparr>)
                | _ \<Rightarrow> Inl (PyExc (pyerr env ''ValidationError: ResearchResponse''
                                     (JObj (rec_fields r))))) = Inr (Some item)"
    by (auto simp: bind_e_eq_Inr)
  from fin have o: "r_outline item = outline"
    and t: "r_tags item = stripped_nonempty (map (py_str env) ts)"
    by (auto split: prod.splits option.splits)
  from v have v': "validate_ResearchOutline (d_outline data) = Some outline"
    by (simp add: model_validate_def split: option.splits)
  from m p have m': "matches_filters env (d_outline data)
          (stripped_nonempty (map (py_str env) ts)) category_values search = Inr True"
    by simp
  from matches_filters_search[OF m' s v'] o t show ?thesis by simp
qed

lemma history_loop_items:
  "history_loop env category_values search rs = Inr items \<Longrightarrow> item \<in> set items \<Longrightarrow>
     \<exists>r \<in> set rs. history_item env category_values search r = Inr (Some item)"
proof (induction rs arbitrary: items)
  case Nil
  then show ?case by simp
next
  case (Cons r rs)
  from Cons.prems(1) obtain x rest where
    x: "history_item env category_values search r = Inr x"
    and rest: "history_loop env category_values search rs = Inr rest"
    and items: "items = (case x of None \<Rightarrow> rest | Some i \<Rightarrow> i # rest)"
    by (auto simp: bind_e_eq_Inr)
  show ?case
  proof (cases "item \<in> set rest")
    case True
    from Cons.IH[OF rest True] show ?thesis by auto
  next
    case False
    with items Cons.prems(2) have "x = Some item" by (cases x) auto
    with x show ?thesis by simp
  qed
qed

lemma build_history_items_loop:
  assumes "build_history_items env user_id category search limit s = (Inr items, s')"
  shows "\<exists>records. history_loop env (category_values_of category) (py_lower (py_strip search))
                      records = Inr items"
proof -
  obtain res s1 where
    r: "history_records env user_id (category_values_of category) (py_lower (py_strip search))
          limit s = (res, s1)"
    by (cases "history_records env user_id (category_values_of category)
                 (py_lower (py_strip search)) limit s")
  with assms show ?thesis
    by (cases res) (auto simp: build_history_items_def Let_def)
qed


lemma history_demo:
  "fst (build_history_items demo_env ''local-dev'' ''All'' ''  GRAPH '' None empty_state)
     = Inr [\<lparr> r_sessionId = ''SESS-1'',
               r_outline = \<lparr> o_title = ''Graph Databases'',
                              o_description = ''Stores built on nodes and edges.'',
                              o_subTopics = [\<lparr> st_id = ''1'', st_title = ''Core Concepts'',
                                               st_description = ''Nodes and edges.'' \<rparr>] \<rparr>,
               r_createdAt = Some ''2025-01-01T00:00:00.000Z'',
               r_tags = [''Graphs'', ''Storage''], r_progress = 100 \<rparr>]"
  by code_simp

lemma strip_demo: "py_strip ''  GRAPH '' = ''GRAPH''"
  by code_simp



subsection \<open>The paged history\<close>

lemma store_all_trace:
  "trace (snd (store_all env formula max_records s)) = trace s
   \<or> trace (snd (store_all env formula max_records s)) = trace s @ [TableAll formula max_records]"
  by (simp add: store_all_def log_event_def split: option.splits)

lemma history_records_trace:
  "\<exists>formulas. trace (snd (history_records env user_id category_values search limit s))
      = trace s @ map (\<lambda>f. TableAll f limit) formulas"
proof -
  let ?f = "build_history_formula user_id category_values search"
  obtain res s1 where r: "store_all env ?f limit s = (res, s1)"
    by (cases "store_all env ?f limit s")
  from store_all_trace[of env ?f limit s] r
  have "trace s1 = trace s @ map (\<lambda>f. TableAll f limit) []
      \<or> trace s1 = trace s @ map (\<lambda>f. TableAll f limit) [?f]" by simp
  then obtain fs where t1: "trace s1 = trace s @ map (\<lambda>f. TableAll f limit) fs" by blast
  show ?thesis
  proof (cases res)
    case (Inr records)
    with r t1 show ?thesis by (auto simp: history_records_def)
  next
    case (Inl e)
    from store_all_trace[of env "user_formula user_id" limit s1]
    have "trace (snd (store_all env (user_formula user_id) limit s1))
            = trace s @ map (\<lambda>f. TableAll f limit) fs
        \<or> trace (snd (store_all env (user_formula user_id) limit s1))
            = trace s @ map (\<lambda>f. TableAll f limit) (fs @ [user_formula user_id])"
      using t1 by auto
    then have "\<exists>formulas. trace (snd (store_all env (user_formula user_id) limit s1))
            = trace s @ map (\<lambda>f. TableAll f limit) formulas" by blast
    with Inl r show ?thesis by (simp add: history_records_def)
  qed
qed

lemma build_history_items_trace:
  "\<exists>formulas. trace (snd (build_history_items env user_id category search limit s))
      = trace s @ map (\<lambda>f. TableAll f limit) formulas"
proof -
  let ?h = "history_records env user_id (category_values_of category)
              (py_lower (py_strip search)) limit s"
  have "trace (snd (build_history_items env user_id category search limit s)) = trace (snd ?h)"
    by (cases ?h; cases "fst ?h") (auto simp: build_history_items_def Let_def)
  with history_records_trace[of env user_id "category_values_of category"
         "py_lower (py_strip search)" limit s]
  show ?thesis by simp
qed

lemma get_history_paged_trace:
  "\<exists>formulas. trace (snd (get_history_paged env request category search page limit s))
      = trace s @ map (\<lambda>f. TableAll f (Some (max 1 page * min (max 1 limit) 100 + 1))) formulas"
proof (cases "require_table env")
  case (Some e)
  then have "trace (snd (get_history_paged env request category search page limit s))
               = trace s @ map (\<lambda>f. TableAll f (Some (max 1 page * min (max 1 limit) 100 + 1))) []"
    by (simp add: get_history_paged_def)
  then show ?thesis by blast
next
  case None
  show ?thesis
  proof (cases "resolve_user_id env request")
    case (Inl e)
    with None
    have "trace (snd (get_history_paged env request category search page limit s))
               = trace s @ map (\<lambda>f. TableAll f (Some (max 1 page * min (max 1 limit) 100 + 1))) []"
      by (simp add: get_history_paged_def)
    then show ?thesis by blast
  next
    case (Inr user_id)
    let ?b = "build_history_items env user_id category search
                (Some (max 1 page * min (max 1 limit) 100 + 1)) s"
    have "trace (snd (get_history_paged env request category search page limit s))
            = trace (snd ?b)"
      using None Inr
      by (cases ?b; cases "fst ?b")
         (auto simp: get_history_paged_def Let_def read_failed_def set_provider_issue_def
            clear_provider_issue_def)
    with build_history_items_trace[of env user_id category search
           "Some (max 1 page * min (max 1 limit) 100 + 1)" s]
    show ?thesis by simp
  qed
qed

lemma history_loop_all_match:
  "map (history_item env category_values search) rs = map (\<lambda>i. Inr (Some i)) sessions \<Longrightarrow>
     history_loop env category_values search rs = Inr sessions"
proof (induction rs arbitrary: sessions)
  case Nil
  then show ?case by simp
next
  case (Cons r rs)
  from Cons.prems obtain i rest where
    s: "sessions = i # rest"
    and i: "history_item env category_values search r = Inr (Some i)"
    and r: "map (history_item env category_values search) rs = map (\<lambda>i. Inr (Some i)) rest"
    by (cases sessions) auto
  from Cons.IH[OF r] i s show ?case by simp
qed

lemma window_of_fetched:
  fixes P L :: int
  assumes "1 \<le> P" and "1 \<le> L"
  shows "slice ((P - 1) * L) ((P - 1) * L + L) (take (nat (P * L + 1)) xs)
           = take (nat L) (drop (nat ((P - 1) * L)) xs)"
proof -
  have eq: "(P - 1) * L = P * L - L" by (simp add: algebra_simps)
  from assms have ge: "L * 1 \<le> L * P" by (intro mult_left_mono) simp_all
  have sub: "\<And>x::int. L \<le> x \<Longrightarrow> nat (x + 1) - nat (x - L) = Suc (nat L)"
    using assms(2) by arith
  from ge have "nat (P * L + 1) - nat (P * L - L) = Suc (nat L)"
    by (intro sub) (simp add: mult.commute)
  then show ?thesis
    unfolding slice_def eq by (simp add: drop_take min_def)
qed

lemma has_more_of_fetched:
  fixes P L :: int
  assumes "1 \<le> P" and "1 \<le> L"
  shows "int (length (take (nat (P * L + 1)) xs)) > (P - 1) * L + L \<longleftrightarrow> int (length xs) > P * L"
proof -
  have eq: "(P - 1) * L + L = P * L" by (simp add: algebra_simps)
  have gen: "\<And>x::int. 0 \<le> x \<Longrightarrow>
               int (length (take (nat (x + 1)) xs)) > x \<longleftrightarrow> int (length xs) > x"
    by auto
  from assms have "0 \<le> P * L" by simp
  from gen[OF this] show ?thesis by (simp only: eq)
qed

lemma get_history_paged_all_match:
  assumes tbl: "table env = Some tbl"
      and user: "resolve_user_id env request = Inr user_id"
      and honours: "\<forall>tr f m. tbl_all tbl tr f m
                      = Inr (case m of None \<Rightarrow> recs | Some n \<Rightarrow> take (nat n) recs)"
      and matching: "map (history_item env (category_values_of category)
                            (py_lower (py_strip search))) recs
                       = map (\<lambda>i. Inr (Some i)) sessions"
  shows "fst (get_history_paged env request category search page limit s)
           = Inr \<lparr> pg_items = take (nat (min (max 1 limit) 100))
                                 (drop (nat ((max 1 page - 1) * min (max 1 limit) 100)) sessions),
                    pg_page = max 1 page,
                    pg_limit = min (max 1 limit) 100,
                    pg_total = (max 1 page - 1) * min (max 1 limit) 100
                       + int (length (take (nat (min (max 1 limit) 100))
                                 (drop (nat ((max 1 page - 1) * min (max 1 limit) 100)) sessions)))
                       + (if int (length sessions) > max 1 page * min (max 1 limit) 100
                          then 1 else 0),
                    pg_totalPages =
                      (if int (length sessions) > max 1 page * min (max 1 limit) 100
                       then max 1 page + 1 else max 1 page) \<rparr>"
proof -
  define P where "P = max 1 page"
  define L where "L = min (max 1 limit) 100"
  have P: "1 \<le> P" and L: "1 \<le> L" by (simp_all add: P_def L_def)
  let ?cats = "category_values_of category"
  let ?ns = "py_lower (py_strip search)"
  have all: "store_all env (build_history_formula user_id ?cats ?ns) (Some (P * L + 1)) s
           = (Inr (take (nat (P * L + 1)) recs),
              log_event (TableAll (build_history_formula user_id ?cats ?ns) (Some (P * L + 1))) s)"
    using tbl honours by (simp add: store_all_def)
  from matching have "take (nat (P * L + 1)) (map (history_item env ?cats ?ns) recs)
      = take (nat (P * L + 1)) (map (\<lambda>i. Inr (Some i)) sessions)"
    by simp
  then have "map (history_item env ?cats ?ns) (take (nat (P * L + 1)) recs)
      = map (\<lambda>i. Inr (Some i)) (take (nat (P * L + 1)) sessions)"
    unfolding take_map .
  from history_loop_all_match[OF this]
  have loop: "history_loop env ?cats ?ns (take (nat (P * L + 1)) recs)
                = Inr (take (nat (P * L + 1)) sessions)" .
  have b: "build_history_items env user_id category search (Some (P * L + 1)) s
           = (Inr (take (nat (P * L + 1)) sessions),
              log_event (TableAll (build_history_formula user_id ?cats ?ns) (Some (P * L + 1))) s)"
    by (simp add: build_history_items_def Let_def history_records_def all loop)
  have rt: "require_table env = None" using tbl by (simp add: require_table_def)
  show ?thesis
    unfolding get_history_paged_def Let_def P_def[symmetric] L_def[symmetric]
    apply (simp only: rt user b option.case sum.case prod.case fst_conv
             window_of_fetched[OF P L] has_more_of_fetched[OF P L])
    apply simp
    done
qed


lemma five_sessions_match:
  "map (history_item paging_env (category_values_of ''All'') (py_lower (py_strip []))) five_records
     = map (\<lambda>i. Inr (Some i))
         (map (\<lambda>sid. \<lparr> r_sessionId = sid,
                        r_outline = \<lparr> o_title = ''Graph Databases'',
                                       o_description = ''Stores built on nodes and edges.'',
                                       o_subTopics = [\<lparr> st_id = ''1'', st_title = ''Core Concepts'',
                                                        st_description = ''Nodes and edges.'' \<rparr>] \<rparr>,
                        r_createdAt = Some ''2025-01-01T00:00:00.000Z'',
                        r_tags = [''Graphs'', ''Storage''], r_progress = 100 \<rparr>)
            [''S1'', ''S2'', ''S3'', ''S4'', ''S5''])"
  by code_simp

lemma paging_table_honours:
  "\<forall>tr f m. tbl_all paging_table tr f m
      = Inr (case m of None \<Rightarrow> five_records | Some n \<Rightarrow> take (nat n) five_records)"
  by (simp add: paging_table_def)

lemma paging_env_table: "table paging_env = Some paging_table"
  by (simp add: paging_env_def mk_env_def)

lemma paging_env_user: "resolve_user_id paging_env anonymous = Inr ''local-dev''"
  by code_simp



end
